theory Spec2Isabelle
  imports Complex_Main
begin

section \<open>The color palette generator (script.js)\<close>

text \<open>
  A shallow embedding of \<^verbatim>\<open>script.js\<close>. JavaScript numbers are modelled as
  real numbers; the arithmetic of the mouse handlers is rounded to doubles (\<open>fl64\<close>
  below), and \<^verbatim>\<open>Math.random() * 16\<close>, a multiplication by a power of two, is
  exact in doubles. Strings are modelled as
  \<^typ>\<open>string\<close>, arrays as lists, the module-level variables of the script as one
  record that every event handler takes and returns. Canvas drawing only renders the
  state and is left out.
\<close>

subsection \<open>JavaScript values and array operations\<close>

text \<open>
  The values script.js passes to the \<^verbatim>\<open>tinycolor(...)\<close> constructor: a string, the
  value \<^verbatim>\<open>undefined\<close> (an array read out of range), or an object
  \<^verbatim>\<open>{h: ..., s: ..., l: ...}\<close>.
\<close>

datatype jsval = JString string | JUndefined | JHslObject real real real

text \<open>\<^verbatim>\<open>xs[i]\<close>: reading past the end of an array gives \<^verbatim>\<open>undefined\<close>.\<close>

definition js_index :: "jsval list \<Rightarrow> nat \<Rightarrow> jsval" where
  "js_index xs i = (if i < length xs then xs ! i else JUndefined)"

text \<open>\<^verbatim>\<open>xs.slice(a, b)\<close> for \<open>0 \<le> a \<le> b\<close>: the elements at positions \<open>a, ..., b - 1\<close>
  that exist.\<close>

definition js_slice :: "'a list \<Rightarrow> nat \<Rightarrow> nat \<Rightarrow> 'a list" where
  "js_slice xs a b = take (b - a) (drop a xs)"

text \<open>\<^verbatim>\<open>s[i]\<close> appended to a string: a character, or the text \<^verbatim>\<open>undefined\<close> when
  \<open>i\<close> is not a position of \<open>s\<close>.\<close>

definition js_char_at :: "string \<Rightarrow> int \<Rightarrow> string" where
  "js_char_at s i = (if 0 \<le> i \<and> i < int (length s) then [s ! nat i] else ''undefined'')"

subsection \<open>The color library as a parameter\<close>

text \<open>
  script.js imports its color library by URL (\<^verbatim>\<open>import tinycolor from
  'https://esm.sh/tinycolor2'\<close>, line 8); the library is not part of the repository.
  The functions of the script therefore take the library as a parameter: a record of
  the operations the script calls on it, over a type \<open>'c\<close> of color objects. The
  operations are pure functions of the color they are applied to: the script applies
  the in-place methods (\<^verbatim>\<open>lighten\<close>, \<^verbatim>\<open>darken\<close>, \<^verbatim>\<open>spin\<close>,
  \<^verbatim>\<open>desaturate\<close>) only to objects it has just made with \<^verbatim>\<open>clone()\<close> or
  \<^verbatim>\<open>tinycolor(...)\<close>.
\<close>

record hsl =
  hsl_h :: real
  hsl_s :: real
  hsl_l :: real

record 'c tinycolor_lib =
  tinycolor :: "jsval \<Rightarrow> 'c"
  isValid :: "'c \<Rightarrow> bool"
  toHexString :: "'c \<Rightarrow> string"
  toHsl :: "'c \<Rightarrow> hsl"
  clone :: "'c \<Rightarrow> 'c"
  lighten :: "'c \<Rightarrow> real \<Rightarrow> 'c"
  darken :: "'c \<Rightarrow> real \<Rightarrow> 'c"
  desaturate :: "'c \<Rightarrow> real \<Rightarrow> 'c"
  spin :: "'c \<Rightarrow> real \<Rightarrow> 'c"
  complement :: "'c \<Rightarrow> 'c"
  analogous :: "'c \<Rightarrow> nat \<Rightarrow> 'c list"
  monochromatic :: "'c \<Rightarrow> nat \<Rightarrow> 'c list"
  splitcomplement :: "'c \<Rightarrow> 'c list"
  triad :: "'c \<Rightarrow> 'c list"
  tetrad :: "'c \<Rightarrow> 'c list"

subsection \<open>Random palettes (lines 179-206)\<close>

definition NUM_COLORS_PER_PALETTE :: nat where
  "NUM_COLORS_PER_PALETTE = 5"

definition hexChars :: string where
  "hexChars = ''0123456789ABCDEF''"

text \<open>
  \<^verbatim>\<open>Math.random()\<close> is modelled by a sequence \<open>rnd\<close> of reals and the number \<open>k\<close>
  of draws made so far: the next draw is \<open>rnd k\<close>. The loop
  \<^verbatim>\<open>for (let i = 0; i < 6; i++) hexColor += hexChars[Math.floor(Math.random() * 16)]\<close>
  is the recursion below; it returns the string and the new draw count.
\<close>

function getRandomHexColor_loop :: "(nat \<Rightarrow> real) \<Rightarrow> nat \<Rightarrow> nat \<Rightarrow> string \<Rightarrow> string \<times> nat" where
  "getRandomHexColor_loop rnd i k hexColor =
     (if i < 6
      then getRandomHexColor_loop rnd (i + 1) (k + 1)
             (hexColor @ js_char_at hexChars \<lfloor>rnd k * 16\<rfloor>)
      else (hexColor, k))"
  by pat_completeness auto
termination
  by (relation "measure (\<lambda>(rnd, i, k, hexColor). 6 - i)") auto

definition getRandomHexColor :: "(nat \<Rightarrow> real) \<Rightarrow> nat \<Rightarrow> string \<times> nat" where
  "getRandomHexColor rnd k = getRandomHexColor_loop rnd 0 k ''#''"

text \<open>\<^verbatim>\<open>for (let i = 0; i < NUM_COLORS_PER_PALETTE; i++) colors.push(getRandomHexColor())\<close>\<close>

function generatePalette_loop :: "(nat \<Rightarrow> real) \<Rightarrow> nat \<Rightarrow> nat \<Rightarrow> string list \<Rightarrow> string list \<times> nat" where
  "generatePalette_loop rnd i k colors =
     (if i < NUM_COLORS_PER_PALETTE
      then (case getRandomHexColor rnd k of
              (c, k') \<Rightarrow> generatePalette_loop rnd (i + 1) k' (colors @ [c]))
      else (colors, k))"
  by pat_completeness auto
termination
  by (relation "measure (\<lambda>(rnd, i, k, colors). NUM_COLORS_PER_PALETTE - i)") auto

definition generatePalette :: "(nat \<Rightarrow> real) \<Rightarrow> nat \<Rightarrow> string list \<times> nat" where
  "generatePalette rnd k = generatePalette_loop rnd 0 k []"

text \<open>The pattern \<^verbatim>\<open>^#[0-9A-Fa-f]{6}$\<close>.\<close>

definition is_hex_digit :: "char \<Rightarrow> bool" where
  "is_hex_digit c = (c \<in> set ''0123456789ABCDEFabcdef'')"

definition is_hex_color :: "string \<Rightarrow> bool" where
  "is_hex_color s =
     (case s of [] \<Rightarrow> False
      | c # ds \<Rightarrow> c = CHR ''#'' \<and> length ds = 6 \<and> list_all is_hex_digit ds)"

subsection \<open>Harmony palettes (lines 217-298)\<close>

text \<open>
  \<^verbatim>\<open>generateHarmonyPalette\<close> returns \<^verbatim>\<open>null\<close> after an alert ("Invalid base color
  provided. Please enter a valid hex code (e.g., #3498db or 3498db).") when the base
  color is invalid: the error value \<open>InvalidBaseColor\<close>.
\<close>

datatype error = InvalidBaseColor

text \<open>\<^verbatim>\<open>tc => tc.toHexString()\<close> over an array of colors; the array then holds strings.\<close>

definition hexStrings :: "'c tinycolor_lib \<Rightarrow> 'c list \<Rightarrow> jsval list" where
  "hexStrings lib cs = map (\<lambda>tc. JString (toHexString lib tc)) cs"

text \<open>The last line, \<^verbatim>\<open>color => tinycolor(color).toHexString()\<close>.\<close>

definition normalizeHex :: "'c tinycolor_lib \<Rightarrow> jsval \<Rightarrow> string" where
  "normalizeHex lib color = toHexString lib (tinycolor lib color)"

definition harmonyColors_analogous :: "'c tinycolor_lib \<Rightarrow> 'c \<Rightarrow> jsval list" where
  "harmonyColors_analogous lib base =
     (let harmonyColors = hexStrings lib (analogous lib base (NUM_COLORS_PER_PALETTE + 1))
      in JString (toHexString lib base) # js_slice harmonyColors 1 NUM_COLORS_PER_PALETTE)"

definition harmonyColors_monochromatic :: "'c tinycolor_lib \<Rightarrow> 'c \<Rightarrow> jsval list" where
  "harmonyColors_monochromatic lib base =
     hexStrings lib (monochromatic lib base NUM_COLORS_PER_PALETTE)"

definition harmonyColors_splitcomplement :: "'c tinycolor_lib \<Rightarrow> 'c \<Rightarrow> jsval list" where
  "harmonyColors_splitcomplement lib base =
     (let splitComps = hexStrings lib (splitcomplement lib base);
          harmonyColors = [js_index splitComps 0];
          harmonyColors = harmonyColors @ [js_index splitComps 1];
          harmonyColors = harmonyColors @
            [JString (toHexString lib (lighten lib (tinycolor lib (js_index splitComps 1)) 15))];
          harmonyColors = harmonyColors @ [js_index splitComps 2];
          harmonyColors = harmonyColors @
            [JString (toHexString lib (darken lib (tinycolor lib (js_index splitComps 2)) 15))]
      in js_slice harmonyColors 0 NUM_COLORS_PER_PALETTE)"

definition harmonyColors_triad :: "'c tinycolor_lib \<Rightarrow> 'c \<Rightarrow> jsval list" where
  "harmonyColors_triad lib base =
     (let harmonyColors = hexStrings lib (triad lib base);
          harmonyColors =
            (if length harmonyColors < NUM_COLORS_PER_PALETTE \<and> length harmonyColors > 1
             then harmonyColors @
               [JString (toHexString lib (lighten lib (tinycolor lib (js_index harmonyColors 1)) 20))]
             else harmonyColors);
          harmonyColors =
            (if length harmonyColors < NUM_COLORS_PER_PALETTE \<and> length harmonyColors > 2
             then harmonyColors @
               [JString (toHexString lib (darken lib (tinycolor lib (js_index harmonyColors 2)) 20))]
             else harmonyColors)
      in js_slice harmonyColors 0 NUM_COLORS_PER_PALETTE)"

definition harmonyColors_tetrad :: "'c tinycolor_lib \<Rightarrow> 'c \<Rightarrow> jsval list" where
  "harmonyColors_tetrad lib base =
     (let harmonyColors = hexStrings lib (tetrad lib base);
          harmonyColors =
            (if length harmonyColors < NUM_COLORS_PER_PALETTE
             then harmonyColors @
               [JString (toHexString lib (lighten lib (tinycolor lib (js_index harmonyColors 0)) 20))]
             else harmonyColors)
      in js_slice harmonyColors 0 NUM_COLORS_PER_PALETTE)"

definition harmonyColors_complement :: "'c tinycolor_lib \<Rightarrow> 'c \<Rightarrow> jsval list" where
  "harmonyColors_complement lib base =
     (let complementColor = toHexString lib (complement lib base)
      in js_slice
           [JString (toHexString lib base),
            JString (toHexString lib (lighten lib (clone lib base) 20)),
            JString complementColor,
            JString (toHexString lib (lighten lib (tinycolor lib (JString complementColor)) 20)),
            JString (toHexString lib (desaturate lib (spin lib (clone lib base) 30) 10))]
           0 NUM_COLORS_PER_PALETTE)"

definition harmonyColors_shades :: "'c tinycolor_lib \<Rightarrow> 'c \<Rightarrow> jsval list" where
  "harmonyColors_shades lib base =
     js_slice
       [JString (toHexString lib (darken lib (clone lib base) 30)),
        JString (toHexString lib (darken lib (clone lib base) 15)),
        JString (toHexString lib base),
        JString (toHexString lib (lighten lib (clone lib base) 15)),
        JString (toHexString lib (lighten lib (clone lib base) 30))]
       0 NUM_COLORS_PER_PALETTE"

text \<open>The \<^verbatim>\<open>switch (harmonyRule)\<close>, one definition above per \<^verbatim>\<open>case\<close>.\<close>

definition harmonyColors_of :: "'c tinycolor_lib \<Rightarrow> 'c \<Rightarrow> string \<Rightarrow> jsval list" where
  "harmonyColors_of lib base harmonyRule =
     (if harmonyRule = ''analogous'' then harmonyColors_analogous lib base
      else if harmonyRule = ''monochromatic'' then harmonyColors_monochromatic lib base
      else if harmonyRule = ''splitcomplement'' then harmonyColors_splitcomplement lib base
      else if harmonyRule = ''triad'' then harmonyColors_triad lib base
      else if harmonyRule = ''tetrad'' then harmonyColors_tetrad lib base
      else if harmonyRule = ''complement'' then harmonyColors_complement lib base
      else if harmonyRule = ''shades'' then harmonyColors_shades lib base
      else [JString (toHexString lib base)])"

definition generateHarmonyPalette :: "'c tinycolor_lib \<Rightarrow> string \<Rightarrow> string \<Rightarrow> error + string list" where
  "generateHarmonyPalette lib baseColorValue harmonyRule =
     (let base = tinycolor lib (JString baseColorValue)
      in if \<not> isValid lib base then Inl InvalidBaseColor
         else Inr (map (normalizeHex lib) (harmonyColors_of lib base harmonyRule)))"

subsection \<open>Displaying a palette (lines 309-395)\<close>

text \<open>
  What \<^verbatim>\<open>displayPalette(colors, title)\<close> leaves in the palette section: the title and
  either the fallback message (no colors) or one swatch per color string that the
  library parses as valid, labelled with its hex string. \<open>NothingDisplayed\<close> is the
  section before the first call.
\<close>

datatype display = NothingDisplayed | NoColorsMessage string | Swatches string "string list"

definition displayPalette :: "'c tinycolor_lib \<Rightarrow> string list \<Rightarrow> string \<Rightarrow> display" where
  "displayPalette lib colors title =
     (if colors = [] then NoColorsMessage title
      else Swatches title
             (map (toHexString lib)
                (filter (isValid lib) (map (\<lambda>colorString. tinycolor lib (JString colorString)) colors))))"

subsection \<open>The state of the page\<close>

text \<open>
  The variables of the script (lines 32-36), the two form fields it reads and writes,
  the palette section, the alerts shown so far and the number of random draws made.
\<close>

record app_state =
  currentHue :: real
  currentSaturation :: real
  currentLightness :: real
  isDraggingHue :: bool
  isDraggingSL :: bool
  baseColorInput_value :: string
  harmonyRuleSelect_value :: string
  harmonyRuleSelect_text :: string
  paletteDisplay :: display
  alerts :: "string list"
  randomDraws :: nat

definition invalidBaseColorAlert :: string where
  "invalidBaseColorAlert =
     ''Invalid base color provided. Please enter a valid hex code (e.g., #3498db or 3498db).''"

text \<open>\<^verbatim>\<open>handleGenerateHarmony\<close> (lines 412-430): the returned palette (or the error that
  stands for \<^verbatim>\<open>null\<close>) and the new state. The alert that \<^verbatim>\<open>generateHarmonyPalette\<close>
  raises on an invalid base color is recorded in the state here.\<close>

definition handleGenerateHarmony :: "'c tinycolor_lib \<Rightarrow> app_state \<Rightarrow> (error + string list) \<times> app_state" where
  "handleGenerateHarmony lib st =
     (let colorFromPicker =
            tinycolor lib (JHslObject (currentHue st) (currentSaturation st) (currentLightness st));
          st = st\<lparr>baseColorInput_value := toHexString lib colorFromPicker\<rparr>;
          baseColor = baseColorInput_value st;
          harmonyRule = harmonyRuleSelect_value st;
          selectedRuleText = harmonyRuleSelect_text st;
          harmonyPalette = generateHarmonyPalette lib baseColor harmonyRule
      in case harmonyPalette of
           Inl e \<Rightarrow> (harmonyPalette, st\<lparr>alerts := alerts st @ [invalidBaseColorAlert]\<rparr>)
         | Inr colors \<Rightarrow>
             (harmonyPalette,
              st\<lparr>paletteDisplay := displayPalette lib colors (selectedRuleText @ '' Harmony'')\<rparr>))"

text \<open>\<^verbatim>\<open>updateColorFromPicker\<close> (lines 468-475); the two redraws change no state.\<close>

definition updateColorFromPicker :: "'c tinycolor_lib \<Rightarrow> app_state \<Rightarrow> app_state" where
  "updateColorFromPicker lib st = snd (handleGenerateHarmony lib st)"

subsection \<open>JavaScript numbers\<close>

text \<open>
  The numbers of the script are IEEE 754 doubles: each arithmetic operation gives the
  exact result rounded to the nearest double, ties to the even significand. \<open>fl64\<close> is
  that rounding on the reals: a double is a multiple of \<open>2 ^ (b - 52)\<close>, where \<open>b\<close> is
  the exponent of its binade, at least -1022 (below it are the subnormal numbers).
  The exponent has no upper bound here: overflow to an infinity and NaN are not
  modelled, the coordinates of a pointer are far from both.
\<close>

definition round_even :: "real \<Rightarrow> int" where
  "round_even x =
     (let f = \<lfloor>x\<rfloor>; d = x - of_int f
      in if d < 1 / 2 then f else if 1 / 2 < d then f + 1 else if even f then f else f + 1)"

definition binade :: "real \<Rightarrow> int" where
  "binade x = max \<lfloor>log 2 \<bar>x\<bar>\<rfloor> (- 1022)"

definition ulp :: "real \<Rightarrow> real" where
  "ulp x = 2 powr (of_int (binade x) - 52)"

definition fl64 :: "real \<Rightarrow> real" where
  "fl64 x = (if x = 0 then 0 else of_int (round_even (x / ulp x)) * ulp x)"

text \<open>
  The angle of the point \<open>(x, y)\<close>, in \<open>(-pi, pi]\<close>, and \<^verbatim>\<open>Math.atan2(y, x)\<close> and
  \<^verbatim>\<open>Math.PI\<close>, the angle and \<open>pi\<close> rounded to a number of the script
  (\<^verbatim>\<open>Math.atan2\<close> is taken to be correctly rounded). The rounding
  \<open>fl\<close> is a parameter of the mouse handlers below: \<open>fl64\<close> gives the arithmetic of
  JavaScript, with which the handlers run (\<open>handle_event\<close>), and the identity gives
  exact real arithmetic, in which the angles of the spec's examples can be hit
  exactly.
\<close>

definition atan2 :: "real \<Rightarrow> real \<Rightarrow> real" where
  "atan2 y x =
     (if 0 < x then arctan (y / x)
      else if x < 0 \<and> 0 \<le> y then arctan (y / x) + pi
      else if x < 0 \<and> y < 0 then arctan (y / x) - pi
      else if 0 < y then pi / 2
      else if y < 0 then - (pi / 2)
      else 0)"

definition Math_atan2 :: "(real \<Rightarrow> real) \<Rightarrow> real \<Rightarrow> real \<Rightarrow> real" where
  "Math_atan2 fl y x = fl (atan2 y x)"

definition Math_PI :: "(real \<Rightarrow> real) \<Rightarrow> real" where
  "Math_PI fl = fl pi"

subsection \<open>Event handlers (lines 400-557)\<close>

text \<open>The bounding rectangle and the size of a canvas, and the position of a mouse event.\<close>

record canvas =
  rect_left :: real
  rect_top :: real
  canvas_width :: real
  canvas_height :: real

record mouse_event =
  clientX :: real
  clientY :: real

text \<open>\<^verbatim>\<open>if (angleDeg < 0) angleDeg += 360;\<close> (lines 491 and 512).\<close>

definition normalize_angleDeg :: "(real \<Rightarrow> real) \<Rightarrow> real \<Rightarrow> real" where
  "normalize_angleDeg fl angleDeg = (if angleDeg < 0 then fl (angleDeg + 360) else angleDeg)"

text \<open>Lines 482-495 and 503-516, the body shared by the two hue wheel handlers; every
  subtraction, division and multiplication is rounded.\<close>

definition setHueFromMouse :: "'c tinycolor_lib \<Rightarrow> (real \<Rightarrow> real) \<Rightarrow> canvas \<Rightarrow> mouse_event \<Rightarrow> app_state \<Rightarrow> app_state" where
  "setHueFromMouse lib fl hueWheelCanvas e st =
     (let x = fl (clientX e - rect_left hueWheelCanvas);
          y = fl (clientY e - rect_top hueWheelCanvas);
          centerX = fl (canvas_width hueWheelCanvas / 2);
          centerY = fl (canvas_height hueWheelCanvas / 2);
          angleRad = Math_atan2 fl (fl (y - centerY)) (fl (x - centerX));
          angleDeg = normalize_angleDeg fl (fl (fl (angleRad * 180) / Math_PI fl))
      in updateColorFromPicker lib (st\<lparr>currentHue := angleDeg\<rparr>))"

definition hueWheelCanvas_mousedown :: "'c tinycolor_lib \<Rightarrow> (real \<Rightarrow> real) \<Rightarrow> canvas \<Rightarrow> mouse_event \<Rightarrow> app_state \<Rightarrow> app_state" where
  "hueWheelCanvas_mousedown lib fl hueWheelCanvas e st =
     setHueFromMouse lib fl hueWheelCanvas e (st\<lparr>isDraggingHue := True\<rparr>)"

definition hueWheelCanvas_mousemove :: "'c tinycolor_lib \<Rightarrow> (real \<Rightarrow> real) \<Rightarrow> canvas \<Rightarrow> mouse_event \<Rightarrow> app_state \<Rightarrow> app_state" where
  "hueWheelCanvas_mousemove lib fl hueWheelCanvas e st =
     (if isDraggingHue st then setHueFromMouse lib fl hueWheelCanvas e st else st)"

text \<open>Lines 525-533 and 541-549, the body shared by the two saturation/lightness
  handlers. The script divides by the width and the height of the canvas; the theorems
  below take them to be positive (in JavaScript a division by zero gives an infinity or
  NaN, in HOL it gives 0).\<close>

definition setSLFromMouse :: "'c tinycolor_lib \<Rightarrow> (real \<Rightarrow> real) \<Rightarrow> canvas \<Rightarrow> mouse_event \<Rightarrow> app_state \<Rightarrow> app_state" where
  "setSLFromMouse lib fl slPickerCanvas e st =
     (let x = fl (clientX e - rect_left slPickerCanvas);
          y = fl (clientY e - rect_top slPickerCanvas)
      in updateColorFromPicker lib
           (st\<lparr>currentSaturation := max 0 (min 1 (fl (x / canvas_width slPickerCanvas))),
               currentLightness := fl (1 - max 0 (min 1 (fl (y / canvas_height slPickerCanvas))))\<rparr>))"

definition slPickerCanvas_mousedown :: "'c tinycolor_lib \<Rightarrow> (real \<Rightarrow> real) \<Rightarrow> canvas \<Rightarrow> mouse_event \<Rightarrow> app_state \<Rightarrow> app_state" where
  "slPickerCanvas_mousedown lib fl slPickerCanvas e st =
     setSLFromMouse lib fl slPickerCanvas e (st\<lparr>isDraggingSL := True\<rparr>)"

definition slPickerCanvas_mousemove :: "'c tinycolor_lib \<Rightarrow> (real \<Rightarrow> real) \<Rightarrow> canvas \<Rightarrow> mouse_event \<Rightarrow> app_state \<Rightarrow> app_state" where
  "slPickerCanvas_mousemove lib fl slPickerCanvas e st =
     (if isDraggingSL st then setSLFromMouse lib fl slPickerCanvas e st else st)"

definition document_mouseup :: "app_state \<Rightarrow> app_state" where
  "document_mouseup st = st\<lparr>isDraggingHue := False, isDraggingSL := False\<rparr>"

text \<open>The \<^verbatim>\<open>input\<close> handler of the hex text field (lines 445-459); it reads the text
  the field holds.\<close>

definition baseColorInput_input :: "'c tinycolor_lib \<Rightarrow> app_state \<Rightarrow> app_state" where
  "baseColorInput_input lib st =
     (let color = tinycolor lib (JString (baseColorInput_value st))
      in if isValid lib color
         then (let hsl = toHsl lib color
               in updateColorFromPicker lib
                    (st\<lparr>currentHue := hsl_h hsl,
                        currentSaturation := hsl_s hsl,
                        currentLightness := hsl_l hsl\<rparr>))
         else st)"

text \<open>The click handler of the random palette button (lines 400-405).\<close>

definition randomPaletteBtn_click :: "'c tinycolor_lib \<Rightarrow> (nat \<Rightarrow> real) \<Rightarrow> app_state \<Rightarrow> app_state" where
  "randomPaletteBtn_click lib rnd st =
     (case generatePalette rnd (randomDraws st) of
        (newGeneratedPalette, k) \<Rightarrow>
          st\<lparr>paletteDisplay := displayPalette lib newGeneratedPalette ''Random Palette'',
              randomDraws := k\<rparr>)"

text \<open>
  The state when the script starts (lines 32-36), given what the page's form fields
  hold, and \<^verbatim>\<open>initializeApp\<close> (lines 566-585).
\<close>

definition startup_state :: "string \<Rightarrow> string \<Rightarrow> string \<Rightarrow> app_state" where
  "startup_state baseColor ruleValue ruleText =
     \<lparr>currentHue = 0, currentSaturation = 1, currentLightness = 1 / 2,
      isDraggingHue = False, isDraggingSL = False,
      baseColorInput_value = baseColor,
      harmonyRuleSelect_value = ruleValue, harmonyRuleSelect_text = ruleText,
      paletteDisplay = NothingDisplayed, alerts = [], randomDraws = 0\<rparr>"

definition initializeApp :: "'c tinycolor_lib \<Rightarrow> app_state \<Rightarrow> app_state" where
  "initializeApp lib st =
     (let initialColor = tinycolor lib (JString (baseColorInput_value st));
          st = (if isValid lib initialColor
                then (let hsl = toHsl lib initialColor
                      in st\<lparr>currentHue := hsl_h hsl,
                            currentSaturation := hsl_s hsl,
                            currentLightness := hsl_l hsl\<rparr>)
                else st)
      in snd (handleGenerateHarmony lib st))"

text \<open>
  What the user can do, and the handler that runs. Typing sets the text of the field
  and choosing a rule sets the value and the label of the selector before the handler
  reads them. The mouse handlers run with the arithmetic of JavaScript, \<open>fl64\<close>.
\<close>

datatype event =
    RandomPaletteClick
  | GenerateHarmonyClick
  | HarmonyRuleChange string string
  | BaseColorInput string
  | HueWheelMouseDown mouse_event
  | HueWheelMouseMove mouse_event
  | SLPickerMouseDown mouse_event
  | SLPickerMouseMove mouse_event
  | MouseUp

fun handle_event :: "'c tinycolor_lib \<Rightarrow> canvas \<Rightarrow> canvas \<Rightarrow> (nat \<Rightarrow> real) \<Rightarrow> event \<Rightarrow> app_state \<Rightarrow> app_state" where
  "handle_event lib hw sl rnd RandomPaletteClick st = randomPaletteBtn_click lib rnd st"
| "handle_event lib hw sl rnd GenerateHarmonyClick st = updateColorFromPicker lib st"
| "handle_event lib hw sl rnd (HarmonyRuleChange v t) st =
     updateColorFromPicker lib (st\<lparr>harmonyRuleSelect_value := v, harmonyRuleSelect_text := t\<rparr>)"
| "handle_event lib hw sl rnd (BaseColorInput text) st =
     baseColorInput_input lib (st\<lparr>baseColorInput_value := text\<rparr>)"
| "handle_event lib hw sl rnd (HueWheelMouseDown e) st = hueWheelCanvas_mousedown lib fl64 hw e st"
| "handle_event lib hw sl rnd (HueWheelMouseMove e) st = hueWheelCanvas_mousemove lib fl64 hw e st"
| "handle_event lib hw sl rnd (SLPickerMouseDown e) st = slPickerCanvas_mousedown lib fl64 sl e st"
| "handle_event lib hw sl rnd (SLPickerMouseMove e) st = slPickerCanvas_mousemove lib fl64 sl e st"
| "handle_event lib hw sl rnd MouseUp st = document_mouseup st"

text \<open>The range of the picker state as the claims have it, with the hue below 360, and
  the range with the hue 360 allowed (the comment of line 32 reads \<^verbatim>\<open>(0-360)\<close>).\<close>

definition picker_in_range :: "app_state \<Rightarrow> bool" where
  "picker_in_range st =
     (0 \<le> currentHue st \<and> currentHue st < 360 \<and>
      0 \<le> currentSaturation st \<and> currentSaturation st \<le> 1 \<and>
      0 \<le> currentLightness st \<and> currentLightness st \<le> 1)"

definition picker_in_closed_range :: "app_state \<Rightarrow> bool" where
  "picker_in_closed_range st =
     (0 \<le> currentHue st \<and> currentHue st \<le> 360 \<and>
      0 \<le> currentSaturation st \<and> currentSaturation st \<le> 1 \<and>
      0 \<le> currentLightness st \<and> currentLightness st \<le> 1)"

definition hsl_in_range :: "hsl \<Rightarrow> bool" where
  "hsl_in_range c =
     (0 \<le> hsl_h c \<and> hsl_h c < 360 \<and> 0 \<le> hsl_s c \<and> hsl_s c \<le> 1 \<and> 0 \<le> hsl_l c \<and> hsl_l c \<le> 1)"

subsection \<open>Notions the claims use\<close>

text \<open>The seven harmony rules that have a \<^verbatim>\<open>case\<close> of their own in the
  \<^verbatim>\<open>switch\<close>.\<close>

definition harmony_rules :: "string list" where
  "harmony_rules =
     [''analogous'', ''monochromatic'', ''splitcomplement'', ''triad'', ''tetrad'',
      ''complement'', ''shades'']"

text \<open>
  Modelled from the spec: what section 4.1 says of the sizes of the library's color
  combinations (\<^verbatim>\<open>analogous(count)\<close>, \<^verbatim>\<open>monochromatic(count)\<close>, "triad: 3 colors",
  "tetrad: 4 colors"), for the two counts script.js asks for.
\<close>

definition returns_requested_counts :: "'c tinycolor_lib \<Rightarrow> 'c \<Rightarrow> bool" where
  "returns_requested_counts lib base =
     (length (analogous lib base (NUM_COLORS_PER_PALETTE + 1)) = NUM_COLORS_PER_PALETTE + 1 \<and>
      length (monochromatic lib base NUM_COLORS_PER_PALETTE) = NUM_COLORS_PER_PALETTE \<and>
      length (triad lib base) = 3 \<and>
      length (tetrad lib base) = 4)"

text \<open>
  Modelled from the spec: a hex string as section 4.1 describes it ("with or without
  leading \<^verbatim>\<open>#\<close>, 3 or 6 hex digits"), the format the alert of
  \<^verbatim>\<open>generateHarmonyPalette\<close> asks for.
\<close>

definition is_hex_string :: "string \<Rightarrow> bool" where
  "is_hex_string s =
     (let ds = (case s of [] \<Rightarrow> [] | c # r \<Rightarrow> if c = CHR ''#'' then r else s)
      in (length ds = 3 \<or> length ds = 6) \<and> list_all is_hex_digit ds)"

text \<open>The hue of a color string in whole degrees, as the library reads it.\<close>

definition rounded_hue :: "'c tinycolor_lib \<Rightarrow> string \<Rightarrow> int" where
  "rounded_hue lib s = \<lfloor>hsl_h (toHsl lib (tinycolor lib (JString s))) + 1 / 2\<rfloor>"

text \<open>
  Modelled from the spec: the angle given to \<^verbatim>\<open>setFromWheelAngle\<close> (section 4.3), as
  the position of a pointer at the distance \<open>r\<close> from the centre of a canvas in the
  direction of \<open>a\<close> degrees. The angle is measured in the coordinates of the canvas, from
  the positive x axis towards the positive y axis (which points down the screen).
\<close>

definition pointer_at :: "canvas \<Rightarrow> real \<Rightarrow> real \<Rightarrow> mouse_event" where
  "pointer_at cv r a =
     \<lparr>clientX = rect_left cv + canvas_width cv / 2 + r * cos (a * pi / 180),
      clientY = rect_top cv + canvas_height cv / 2 + r * sin (a * pi / 180)\<rparr>"

section \<open>A model of the color library\<close>

text \<open>
  Modelled from the spec: the color library of section 4.1 (ColorModel), which
  script.js imports by URL as \<^verbatim>\<open>tinycolor2\<close> and which is not among the sources.
  The model realises the contract of section 4.1 with the algorithms of tinycolor2
  (colors kept as red, green and blue channels in \<open>[0, 255]\<close>; every operator goes
  through HSL or HSV and back), in exact arithmetic. Of the strings the constructor
  reads, the model knows hex strings of 3, 4, 6 and 8 digits with or without
  \<^verbatim>\<open>#\<close>, \<^verbatim>\<open>transparent\<close> and the seventeen basic color names; it reports every
  other string as invalid (the \<^verbatim>\<open>rgb(...)\<close>, \<^verbatim>\<open>hsl(...)\<close> and \<^verbatim>\<open>hsv(...)\<close>
  notations and the remaining color names are left out). The alpha channel plays no
  part in \<^verbatim>\<open>toHexString\<close> and is left out. JavaScript computes in floating
  point: where a channel lies within a rounding error of a half, the library's hex
  digit can differ by one from the model's. The theorems about script.js below hold
  for every library; this model provides the concrete inputs of their witnesses and
  of the counterexamples.
\<close>

record tc2_color =
  tc_r :: real
  tc_g :: real
  tc_b :: real
  tc_ok :: bool

text \<open>Modelled from the spec: the remainder \<^verbatim>\<open>a % m\<close> of JavaScript numbers (the
  quotient is truncated towards zero) and \<^verbatim>\<open>Math.round\<close>.\<close>

definition js_fmod :: "real \<Rightarrow> real \<Rightarrow> real" where
  "js_fmod a m = (let q = a / m in a - m * of_int (if 0 \<le> q then \<lfloor>q\<rfloor> else \<lceil>q\<rceil>))"

definition mathRound :: "real \<Rightarrow> int" where
  "mathRound x = \<lfloor>x + 1 / 2\<rfloor>"

definition clamp01 :: "real \<Rightarrow> real" where
  "clamp01 x = min 1 (max 0 x)"

text \<open>Modelled from the spec: the library's scaling of a number in \<open>[0, mx]\<close> to
  \<open>[0, 1]\<close>; a saturation, lightness or value of at most 1 is first written as a
  percentage and cut to two decimals.\<close>

definition bound01 :: "real \<Rightarrow> real \<Rightarrow> real" where
  "bound01 n mx =
     (let n = min mx (max 0 n)
      in if \<bar>n - mx\<bar> < 1 / 1000000 then 1 else js_fmod n mx / mx)"

definition bound01_percent :: "real \<Rightarrow> real \<Rightarrow> real" where
  "bound01_percent n mx =
     (let n = min mx (max 0 n);
          n = of_int \<lfloor>n * mx\<rfloor> / 100
      in if \<bar>n - mx\<bar> < 1 / 1000000 then 1 else js_fmod n mx / mx)"

definition bound01_converted :: "real \<Rightarrow> real" where
  "bound01_converted n = (if n \<le> 1 then bound01_percent (n * 100) 100 else bound01 n 100)"

text \<open>Modelled from the spec: the conversions between RGB, HSL and HSV (section 4.1,
  \<^verbatim>\<open>fromHSL\<close>, \<^verbatim>\<open>toHSL\<close>).\<close>

definition hue2rgb :: "real \<Rightarrow> real \<Rightarrow> real \<Rightarrow> real" where
  "hue2rgb p q t0 =
     (let t = (if t0 < 0 then t0 + 1 else t0);
          t = (if 1 < t then t - 1 else t)
      in if t < 1 / 6 then p + (q - p) * 6 * t
         else if t < 1 / 2 then q
         else if t < 2 / 3 then p + (q - p) * (2 / 3 - t) * 6
         else p)"

definition hslToRgb :: "real \<Rightarrow> real \<Rightarrow> real \<Rightarrow> real \<times> real \<times> real" where
  "hslToRgb h0 s0 l0 =
     (let h = bound01 h0 360; s = bound01_converted s0; l = bound01_converted l0
      in if s = 0 then (l * 255, l * 255, l * 255)
         else
           let q = (if l < 1 / 2 then l * (1 + s) else l + s - l * s);
               p = 2 * l - q
           in (hue2rgb p q (h + 1 / 3) * 255, hue2rgb p q h * 255, hue2rgb p q (h - 1 / 3) * 255))"

definition rgb_hue :: "real \<Rightarrow> real \<Rightarrow> real \<Rightarrow> real" where
  "rgb_hue r g b =
     (let mx = max r (max g b); mn = min r (min g b); d = mx - mn
      in if mx = mn then 0
         else (if mx = r then (g - b) / d + (if g < b then 6 else 0)
               else if mx = g then (b - r) / d + 2
               else (r - g) / d + 4) / 6)"

definition rgbToHsl :: "real \<Rightarrow> real \<Rightarrow> real \<Rightarrow> real \<times> real \<times> real" where
  "rgbToHsl r0 g0 b0 =
     (let r = bound01 r0 255; g = bound01 g0 255; b = bound01 b0 255;
          mx = max r (max g b); mn = min r (min g b); l = (mx + mn) / 2
      in if mx = mn then (0, 0, l)
         else
           let d = mx - mn;
               s = (if 1 / 2 < l then d / (2 - mx - mn) else d / (mx + mn))
           in (rgb_hue r g b, s, l))"

definition rgbToHsv :: "real \<Rightarrow> real \<Rightarrow> real \<Rightarrow> real \<times> real \<times> real" where
  "rgbToHsv r0 g0 b0 =
     (let r = bound01 r0 255; g = bound01 g0 255; b = bound01 b0 255;
          mx = max r (max g b); mn = min r (min g b); d = mx - mn;
          s = (if mx = 0 then 0 else d / mx)
      in (rgb_hue r g b, s, mx))"

definition hsvToRgb :: "real \<Rightarrow> real \<Rightarrow> real \<Rightarrow> real \<times> real \<times> real" where
  "hsvToRgb h0 s0 v0 =
     (let h = bound01 h0 360 * 6; s = bound01_converted s0; v = bound01_converted v0;
          i = \<lfloor>h\<rfloor>; f = h - of_int i;
          p = v * (1 - s); q = v * (1 - f * s); t = v * (1 - (1 - f) * s);
          m = i mod 6;
          r = (if m = 0 then v else if m = 1 then q else if m = 2 then p
               else if m = 3 then p else if m = 4 then t else v);
          g = (if m = 0 then t else if m = 1 then v else if m = 2 then v
               else if m = 3 then q else if m = 4 then p else p);
          b = (if m = 0 then p else if m = 1 then p else if m = 2 then t
               else if m = 3 then v else if m = 4 then v else q)
      in (r * 255, g * 255, b * 255))"

text \<open>Modelled from the spec: a color object. Each channel is kept within \<open>[0, 255]\<close>,
  and a channel below 1 is rounded.\<close>

definition tc2_channel :: "real \<Rightarrow> real" where
  "tc2_channel x = (let c = min 255 (max x 0) in if c < 1 then of_int (mathRound c) else c)"

definition tc2_make :: "bool \<Rightarrow> real \<times> real \<times> real \<Rightarrow> tc2_color" where
  "tc2_make ok rgb =
     (case rgb of (r, g, b) \<Rightarrow>
        \<lparr>tc_r = tc2_channel r, tc_g = tc2_channel g, tc_b = tc2_channel b, tc_ok = ok\<rparr>)"

text \<open>Modelled from the spec: reading a color string (section 4.1, \<^verbatim>\<open>fromHex\<close>). The
  string is trimmed and put in lower case; a color name stands for its hex digits.\<close>

definition is_space :: "char \<Rightarrow> bool" where
  "is_space c = (c \<in> set [CHR '' '', CHR 0x09, CHR 0x0A, CHR 0x0B, CHR 0x0C, CHR 0x0D])"

definition js_trim :: "string \<Rightarrow> string" where
  "js_trim s = rev (dropWhile is_space (rev (dropWhile is_space s)))"

definition to_lower :: "char \<Rightarrow> char" where
  "to_lower c =
     (case map_of (zip ''ABCDEFGHIJKLMNOPQRSTUVWXYZ'' ''abcdefghijklmnopqrstuvwxyz'') c of
        Some d \<Rightarrow> d | None \<Rightarrow> c)"

definition names :: "(string \<times> string) list" where
  "names =
     [(''aqua'', ''0ff''), (''black'', ''000''), (''blue'', ''00f''), (''fuchsia'', ''f0f''),
      (''gray'', ''808080''), (''green'', ''008000''), (''lime'', ''0f0''),
      (''maroon'', ''800000''), (''navy'', ''000080''), (''olive'', ''808000''),
      (''orange'', ''ffa500''), (''purple'', ''800080''), (''red'', ''f00''),
      (''silver'', ''c0c0c0''), (''teal'', ''008080''), (''white'', ''fff''),
      (''yellow'', ''ff0'')]"

definition hex_digit_value :: "char \<Rightarrow> int option" where
  "hex_digit_value c =
     map_of
       [(CHR ''0'', 0), (CHR ''1'', 1), (CHR ''2'', 2), (CHR ''3'', 3), (CHR ''4'', 4),
        (CHR ''5'', 5), (CHR ''6'', 6), (CHR ''7'', 7), (CHR ''8'', 8), (CHR ''9'', 9),
        (CHR ''a'', 10), (CHR ''b'', 11), (CHR ''c'', 12), (CHR ''d'', 13), (CHR ''e'', 14),
        (CHR ''f'', 15)] c"

definition parseIntFromHex :: "char \<Rightarrow> char \<Rightarrow> int option" where
  "parseIntFromHex a b =
     (case (hex_digit_value a, hex_digit_value b) of
        (Some x, Some y) \<Rightarrow> Some (16 * x + y)
      | _ \<Rightarrow> None)"

definition hex_triple :: "int option \<Rightarrow> int option \<Rightarrow> int option \<Rightarrow> int option \<Rightarrow> (int \<times> int \<times> int) option" where
  "hex_triple r g b a =
     (case (r, g, b, a) of
        (Some x, Some y, Some z, Some w) \<Rightarrow> Some (x, y, z)
      | _ \<Rightarrow> None)"

fun hex_channels :: "string \<Rightarrow> (int \<times> int \<times> int) option" where
  "hex_channels [r1, r2, g1, g2, b1, b2, a1, a2] =
     hex_triple (parseIntFromHex r1 r2) (parseIntFromHex g1 g2) (parseIntFromHex b1 b2)
       (parseIntFromHex a1 a2)"
| "hex_channels [r1, r2, g1, g2, b1, b2] =
     hex_triple (parseIntFromHex r1 r2) (parseIntFromHex g1 g2) (parseIntFromHex b1 b2) (Some 255)"
| "hex_channels [r, g, b, a] =
     hex_triple (parseIntFromHex r r) (parseIntFromHex g g) (parseIntFromHex b b)
       (parseIntFromHex a a)"
| "hex_channels [r, g, b] =
     hex_triple (parseIntFromHex r r) (parseIntFromHex g g) (parseIntFromHex b b) (Some 255)"
| "hex_channels _ = None"

definition toLowerCase :: "string \<Rightarrow> string" where
  "toLowerCase s = map to_lower s"

definition named_color :: "string \<Rightarrow> string" where
  "named_color color = (case map_of names color of Some hex \<Rightarrow> hex | None \<Rightarrow> color)"

definition strip_hash :: "string \<Rightarrow> string" where
  "strip_hash color = (case color of [] \<Rightarrow> [] | c # ds \<Rightarrow> if c = CHR ''#'' then ds else color)"

definition stringInputToObject :: "string \<Rightarrow> (int \<times> int \<times> int) option" where
  "stringInputToObject color0 =
     (let color = named_color (toLowerCase (js_trim color0))
      in if color = ''transparent'' then Some (0, 0, 0)
         else hex_channels (strip_hash color))"

definition rgbToRgb :: "real \<Rightarrow> real \<Rightarrow> real \<Rightarrow> real \<times> real \<times> real" where
  "rgbToRgb r g b = (bound01 r 255 * 255, bound01 g 255 * 255, bound01 b 255 * 255)"

text \<open>Modelled from the spec: the constructor \<^verbatim>\<open>tinycolor(...)\<close>. It never fails: an
  input it cannot read gives an invalid color, black. \<^verbatim>\<open>undefined\<close> is read as the
  empty string.\<close>

definition tc2_tinycolor :: "jsval \<Rightarrow> tc2_color" where
  "tc2_tinycolor v =
     (case v of
        JString s \<Rightarrow>
          (case stringInputToObject s of
             Some (r, g, b) \<Rightarrow> tc2_make True (rgbToRgb (of_int r) (of_int g) (of_int b))
           | None \<Rightarrow> tc2_make False (0, 0, 0))
      | JUndefined \<Rightarrow> tc2_make False (0, 0, 0)
      | JHslObject h s l \<Rightarrow> tc2_make True (hslToRgb h s l))"

text \<open>Modelled from the spec: \<^verbatim>\<open>toHexString\<close>, \<^verbatim>\<open>toHsl\<close> and \<^verbatim>\<open>toHsv\<close>.\<close>

definition hex_digit_of :: "int \<Rightarrow> char" where
  "hex_digit_of n = ''0123456789abcdef'' ! nat n"

definition hex2 :: "int \<Rightarrow> string" where
  "hex2 n = [hex_digit_of (n div 16), hex_digit_of (n mod 16)]"

definition tc2_toHexString :: "tc2_color \<Rightarrow> string" where
  "tc2_toHexString c =
     CHR ''#'' # hex2 (mathRound (tc_r c)) @ hex2 (mathRound (tc_g c)) @ hex2 (mathRound (tc_b c))"

definition tc2_toHsl :: "tc2_color \<Rightarrow> hsl" where
  "tc2_toHsl c =
     (case rgbToHsl (tc_r c) (tc_g c) (tc_b c) of
        (h, s, l) \<Rightarrow> \<lparr>hsl_h = h * 360, hsl_s = s, hsl_l = l\<rparr>)"

definition tc2_toHsv :: "tc2_color \<Rightarrow> real \<times> real \<times> real" where
  "tc2_toHsv c =
     (case rgbToHsv (tc_r c) (tc_g c) (tc_b c) of (h, s, v) \<Rightarrow> (h * 360, s, v))"

definition tc2_fromHsl :: "real \<Rightarrow> real \<Rightarrow> real \<Rightarrow> tc2_color" where
  "tc2_fromHsl h s l = tc2_make True (hslToRgb h s l)"

definition tc2_fromHsv :: "real \<Rightarrow> real \<Rightarrow> real \<Rightarrow> tc2_color" where
  "tc2_fromHsv h s v = tc2_make True (hsvToRgb h s v)"

text \<open>Modelled from the spec: the operators of section 4.1 (\<^verbatim>\<open>lighten\<close>, \<^verbatim>\<open>darken\<close>,
  \<^verbatim>\<open>desaturate\<close>, \<^verbatim>\<open>spin\<close>, \<^verbatim>\<open>complement\<close>, \<^verbatim>\<open>clone\<close>). \<^verbatim>\<open>clone\<close> reads
  the color's own string again.\<close>

definition tc2_clone :: "tc2_color \<Rightarrow> tc2_color" where
  "tc2_clone c = tc2_tinycolor (JString (tc2_toHexString c))"

definition tc2_lighten :: "tc2_color \<Rightarrow> real \<Rightarrow> tc2_color" where
  "tc2_lighten c amount =
     (let x = tc2_toHsl c
      in tc2_fromHsl (hsl_h x) (hsl_s x) (clamp01 (hsl_l x + amount / 100)))"

definition tc2_darken :: "tc2_color \<Rightarrow> real \<Rightarrow> tc2_color" where
  "tc2_darken c amount =
     (let x = tc2_toHsl c
      in tc2_fromHsl (hsl_h x) (hsl_s x) (clamp01 (hsl_l x - amount / 100)))"

definition tc2_desaturate :: "tc2_color \<Rightarrow> real \<Rightarrow> tc2_color" where
  "tc2_desaturate c amount =
     (let x = tc2_toHsl c
      in tc2_fromHsl (hsl_h x) (clamp01 (hsl_s x - amount / 100)) (hsl_l x))"

definition tc2_spin :: "tc2_color \<Rightarrow> real \<Rightarrow> tc2_color" where
  "tc2_spin c amount =
     (let x = tc2_toHsl c; hue = js_fmod (hsl_h x + amount) 360
      in tc2_fromHsl (if hue < 0 then 360 + hue else hue) (hsl_s x) (hsl_l x))"

definition tc2_complement :: "tc2_color \<Rightarrow> tc2_color" where
  "tc2_complement c =
     (let x = tc2_toHsl c
      in tc2_fromHsl (js_fmod (hsl_h x + 180) 360) (hsl_s x) (hsl_l x))"

text \<open>Modelled from the spec: the color combinations of section 4.1. \<^verbatim>\<open>analogous\<close>
  steps the hue by 12 degrees from 6 steps per requested color below the base;
  \<^verbatim>\<open>monochromatic\<close> keeps the HSV hue and saturation and steps the value by
  \<open>1 / results\<close> modulo 1; a count of 0 stands for the default of 6.\<close>

fun tc2_analogous_loop :: "nat \<Rightarrow> real \<Rightarrow> real \<Rightarrow> real \<Rightarrow> tc2_color list" where
  "tc2_analogous_loop 0 h s l = []"
| "tc2_analogous_loop (Suc n) h s l =
     (let h' = js_fmod (h + 12) 360 in tc2_fromHsl h' s l # tc2_analogous_loop n h' s l)"

definition tc2_analogous :: "tc2_color \<Rightarrow> nat \<Rightarrow> tc2_color list" where
  "tc2_analogous c results0 =
     (let results = (if results0 = 0 then 6 else results0);
          x = tc2_toHsl c;
          h = js_fmod (hsl_h x - real (12 * results div 2) + 720) 360
      in c # tc2_analogous_loop (results - 1) h (hsl_s x) (hsl_l x))"

fun tc2_monochromatic_loop :: "nat \<Rightarrow> real \<Rightarrow> real \<Rightarrow> real \<Rightarrow> real \<Rightarrow> tc2_color list" where
  "tc2_monochromatic_loop 0 modification h s v = []"
| "tc2_monochromatic_loop (Suc n) modification h s v =
     tc2_fromHsv h s v # tc2_monochromatic_loop n modification h s (js_fmod (v + modification) 1)"

definition tc2_monochromatic :: "tc2_color \<Rightarrow> nat \<Rightarrow> tc2_color list" where
  "tc2_monochromatic c results0 =
     (let results = (if results0 = 0 then 6 else results0)
      in case tc2_toHsv c of
           (h, s, v) \<Rightarrow> tc2_monochromatic_loop results (1 / real results) h s v)"

definition tc2_splitcomplement :: "tc2_color \<Rightarrow> tc2_color list" where
  "tc2_splitcomplement c =
     (let x = tc2_toHsl c
      in [c,
          tc2_fromHsl (js_fmod (hsl_h x + 72) 360) (hsl_s x) (hsl_l x),
          tc2_fromHsl (js_fmod (hsl_h x + 216) 360) (hsl_s x) (hsl_l x)])"

definition tc2_triad :: "tc2_color \<Rightarrow> tc2_color list" where
  "tc2_triad c =
     (let x = tc2_toHsl c
      in [c,
          tc2_fromHsl (js_fmod (hsl_h x + 120) 360) (hsl_s x) (hsl_l x),
          tc2_fromHsl (js_fmod (hsl_h x + 240) 360) (hsl_s x) (hsl_l x)])"

definition tc2_tetrad :: "tc2_color \<Rightarrow> tc2_color list" where
  "tc2_tetrad c =
     (let x = tc2_toHsl c
      in [c,
          tc2_fromHsl (js_fmod (hsl_h x + 90) 360) (hsl_s x) (hsl_l x),
          tc2_fromHsl (js_fmod (hsl_h x + 180) 360) (hsl_s x) (hsl_l x),
          tc2_fromHsl (js_fmod (hsl_h x + 270) 360) (hsl_s x) (hsl_l x)])"

definition tc2 :: "tc2_color tinycolor_lib" where
  "tc2 =
     \<lparr>tinycolor = tc2_tinycolor, isValid = tc_ok, toHexString = tc2_toHexString,
      toHsl = tc2_toHsl, clone = tc2_clone, lighten = tc2_lighten, darken = tc2_darken,
      desaturate = tc2_desaturate, spin = tc2_spin, complement = tc2_complement,
      analogous = tc2_analogous, monochromatic = tc2_monochromatic,
      splitcomplement = tc2_splitcomplement, triad = tc2_triad, tetrad = tc2_tetrad\<rparr>"

text \<open>The channels of every color the model makes round to bytes.\<close>

definition byte :: "int \<Rightarrow> bool" where
  "byte n = (0 \<le> n \<and> n \<le> 255)"

definition tc2_wf :: "tc2_color \<Rightarrow> bool" where
  "tc2_wf c = (byte (mathRound (tc_r c)) \<and> byte (mathRound (tc_g c)) \<and> byte (mathRound (tc_b c)))"

section \<open>Facts about script.js\<close>

subsection \<open>Random palettes\<close>

declare getRandomHexColor_loop.simps [simp del]

declare generatePalette_loop.simps [simp del]

lemma hexChars_nth_is_hex_digit: "n < 16 \<Longrightarrow> is_hex_digit (hexChars ! n)"
proof -
  have "\<forall>n\<in>{..<16::nat}. is_hex_digit (hexChars ! n)"
    by (simp add: lessThan_nat_numeral lessThan_Suc hexChars_def is_hex_digit_def)
  then show "n < 16 \<Longrightarrow> is_hex_digit (hexChars ! n)" by simp
qed

lemma random_digit:
  fixes r :: real
  assumes "0 \<le> r" "r < 1"
  shows "\<exists>c. js_char_at hexChars \<lfloor>r * 16\<rfloor> = [c] \<and> is_hex_digit c"
proof -
  have lo: "0 \<le> \<lfloor>r * 16\<rfloor>" using assms by simp
  have hi: "\<lfloor>r * 16\<rfloor> < 16" using assms by (simp add: floor_less_iff)
  have "nat \<lfloor>r * 16\<rfloor> < 16" using lo hi by linarith
  then have "is_hex_digit (hexChars ! nat \<lfloor>r * 16\<rfloor>)" by (rule hexChars_nth_is_hex_digit)
  moreover have "js_char_at hexChars \<lfloor>r * 16\<rfloor> = [hexChars ! nat \<lfloor>r * 16\<rfloor>]"
    using lo hi by (simp add: js_char_at_def hexChars_def)
  ultimately show ?thesis by blast
qed

lemma getRandomHexColor_loop_digits:
  "\<forall>j. 0 \<le> rnd j \<and> rnd j < 1 \<Longrightarrow> i \<le> 6 \<Longrightarrow>
     \<exists>ds. getRandomHexColor_loop rnd i k hexColor = (hexColor @ ds, k + (6 - i))
           \<and> length ds = 6 - i \<and> list_all is_hex_digit ds"
proof (induction rnd i k hexColor rule: getRandomHexColor_loop.induct)
  case (1 rnd i k hexColor)
  show ?case
  proof (cases "i < 6")
    case True
    obtain c where c: "js_char_at hexChars \<lfloor>rnd k * 16\<rfloor> = [c]" "is_hex_digit c"
      using random_digit "1.prems"(1) by blast
    from True have "i + 1 \<le> 6" by simp
    from "1.IH"[OF True "1.prems"(1) this] obtain ds where ds:
      "getRandomHexColor_loop rnd (i + 1) (k + 1) (hexColor @ js_char_at hexChars \<lfloor>rnd k * 16\<rfloor>)
         = ((hexColor @ js_char_at hexChars \<lfloor>rnd k * 16\<rfloor>) @ ds, k + 1 + (6 - (i + 1)))"
      "length ds = 6 - (i + 1)" "list_all is_hex_digit ds"
      by blast
    have "getRandomHexColor_loop rnd i k hexColor = (hexColor @ (c # ds), k + (6 - i))"
      using True ds(1) c(1) by (subst getRandomHexColor_loop.simps) simp
    moreover have "length (c # ds) = 6 - i" using True ds(2) by simp
    moreover have "list_all is_hex_digit (c # ds)" using c(2) ds(3) by simp
    ultimately show ?thesis by blast
  next
    case False
    with "1.prems" have "i = 6" by simp
    then show ?thesis by (subst getRandomHexColor_loop.simps) simp
  qed
qed

lemma getRandomHexColor_hex:
  assumes "\<forall>j. 0 \<le> rnd j \<and> rnd j < 1"
  shows "is_hex_color (fst (getRandomHexColor rnd k)) \<and> snd (getRandomHexColor rnd k) = k + 6"
proof -
  obtain ds where "getRandomHexColor_loop rnd 0 k ''#'' = (''#'' @ ds, k + (6 - 0))"
    "length ds = 6 - 0" "list_all is_hex_digit ds"
    using getRandomHexColor_loop_digits[OF assms, of 0 k "''#''"] by auto
  then show ?thesis by (simp add: getRandomHexColor_def is_hex_color_def)
qed

lemma generatePalette_loop_hex:
  "\<forall>j. 0 \<le> rnd j \<and> rnd j < 1 \<Longrightarrow> i \<le> NUM_COLORS_PER_PALETTE \<Longrightarrow> list_all is_hex_color colors \<Longrightarrow>
     length (fst (generatePalette_loop rnd i k colors)) = length colors + (NUM_COLORS_PER_PALETTE - i)
     \<and> list_all is_hex_color (fst (generatePalette_loop rnd i k colors))"
proof (induction rnd i k colors rule: generatePalette_loop.induct)
  case (1 rnd i k colors)
  show ?case
  proof (cases "i < NUM_COLORS_PER_PALETTE")
    case True
    obtain c k' where ck: "getRandomHexColor rnd k = (c, k')" by (cases "getRandomHexColor rnd k")
    have hc: "is_hex_color c" using getRandomHexColor_hex[OF "1.prems"(1), of k] ck by simp
    have le: "i + 1 \<le> NUM_COLORS_PER_PALETTE" using True by simp
    have all: "list_all is_hex_color (colors @ [c])" using "1.prems"(3) hc by simp
    note IH = "1.IH"[OF True ck[symmetric] "1.prems"(1) le all]
    have unf: "generatePalette_loop rnd i k colors = generatePalette_loop rnd (i + 1) k' (colors @ [c])"
      using True ck by (subst generatePalette_loop.simps) simp
    show ?thesis using IH True unfolding unf by simp
  next
    case False
    then show ?thesis using "1.prems" by (subst (1 2) generatePalette_loop.simps) simp
  qed
qed

subsection \<open>Harmony palettes\<close>

lemma length_analogous:
  "length (analogous lib base 6) = 6 \<Longrightarrow> length (harmonyColors_analogous lib base) = 5"
  by (simp add: harmonyColors_analogous_def hexStrings_def js_slice_def NUM_COLORS_PER_PALETTE_def)

lemma length_monochromatic:
  "length (monochromatic lib base 5) = 5 \<Longrightarrow> length (harmonyColors_monochromatic lib base) = 5"
  by (simp add: harmonyColors_monochromatic_def hexStrings_def NUM_COLORS_PER_PALETTE_def)

lemma length_splitcomplement: "length (harmonyColors_splitcomplement lib base) = 5"
  by (simp add: harmonyColors_splitcomplement_def js_slice_def NUM_COLORS_PER_PALETTE_def Let_def)

lemma length_triad:
  "length (triad lib base) = 3 \<Longrightarrow> length (harmonyColors_triad lib base) = 5"
  by (simp add: harmonyColors_triad_def hexStrings_def js_slice_def NUM_COLORS_PER_PALETTE_def Let_def)

lemma length_tetrad:
  "length (tetrad lib base) = 4 \<Longrightarrow> length (harmonyColors_tetrad lib base) = 5"
  by (simp add: harmonyColors_tetrad_def hexStrings_def js_slice_def NUM_COLORS_PER_PALETTE_def Let_def)

lemma length_complement: "length (harmonyColors_complement lib base) = 5"
  by (simp add: harmonyColors_complement_def js_slice_def NUM_COLORS_PER_PALETTE_def Let_def)

lemma length_shades: "length (harmonyColors_shades lib base) = 5"
  by (simp add: harmonyColors_shades_def js_slice_def NUM_COLORS_PER_PALETTE_def)

lemma harmonyColors_of_rule:
  "harmonyColors_of lib base ''analogous'' = harmonyColors_analogous lib base"
  "harmonyColors_of lib base ''monochromatic'' = harmonyColors_monochromatic lib base"
  "harmonyColors_of lib base ''splitcomplement'' = harmonyColors_splitcomplement lib base"
  "harmonyColors_of lib base ''triad'' = harmonyColors_triad lib base"
  "harmonyColors_of lib base ''tetrad'' = harmonyColors_tetrad lib base"
  "harmonyColors_of lib base ''complement'' = harmonyColors_complement lib base"
  "harmonyColors_of lib base ''shades'' = harmonyColors_shades lib base"
  by (simp_all add: harmonyColors_of_def)

lemma length_harmonyColors_of:
  assumes "returns_requested_counts lib base" "rule \<in> set harmony_rules"
  shows "length (harmonyColors_of lib base rule) = 5"
proof -
  from assms(1) have c: "length (analogous lib base 6) = 6" "length (monochromatic lib base 5) = 5"
    "length (triad lib base) = 3" "length (tetrad lib base) = 4"
    by (simp_all add: returns_requested_counts_def NUM_COLORS_PER_PALETTE_def)
  have r: "rule = ''analogous'' \<or> rule = ''monochromatic'' \<or> rule = ''splitcomplement''
    \<or> rule = ''triad'' \<or> rule = ''tetrad'' \<or> rule = ''complement'' \<or> rule = ''shades''"
    using assms(2) unfolding harmony_rules_def by simp
  from r show ?thesis
  proof (elim disjE)
    assume "rule = ''analogous''"
    then show ?thesis by (simp only: harmonyColors_of_rule length_analogous[OF c(1)])
  next
    assume "rule = ''monochromatic''"
    then show ?thesis by (simp only: harmonyColors_of_rule length_monochromatic[OF c(2)])
  next
    assume "rule = ''splitcomplement''"
    then show ?thesis by (simp only: harmonyColors_of_rule length_splitcomplement)
  next
    assume "rule = ''triad''"
    then show ?thesis by (simp only: harmonyColors_of_rule length_triad[OF c(3)])
  next
    assume "rule = ''tetrad''"
    then show ?thesis by (simp only: harmonyColors_of_rule length_tetrad[OF c(4)])
  next
    assume "rule = ''complement''"
    then show ?thesis by (simp only: harmonyColors_of_rule length_complement)
  next
    assume "rule = ''shades''"
    then show ?thesis by (simp only: harmonyColors_of_rule length_shades)
  qed
qed

lemma harmonyColors_of_default:
  "rule \<notin> set harmony_rules \<Longrightarrow> harmonyColors_of lib base rule = [JString (toHexString lib base)]"
  by (simp add: harmonyColors_of_def harmony_rules_def)

lemma generateHarmonyPalette_valid:
  "isValid lib (tinycolor lib (JString h)) \<Longrightarrow>
   generateHarmonyPalette lib h rule =
     Inr (map (normalizeHex lib) (harmonyColors_of lib (tinycolor lib (JString h)) rule))"
  by (simp add: generateHarmonyPalette_def)

lemma generateHarmonyPalette_invalid:
  "\<not> isValid lib (tinycolor lib (JString h)) \<Longrightarrow>
   generateHarmonyPalette lib h rule = Inl InvalidBaseColor"
  by (simp add: generateHarmonyPalette_def)

lemma complement_colors_normalized:
  assumes "isValid lib (tinycolor lib (JString h))"
  shows "generateHarmonyPalette lib h ''complement'' =
     Inr (map (normalizeHex lib)
       [JString (toHexString lib (tinycolor lib (JString h))),
        JString (toHexString lib (lighten lib (clone lib (tinycolor lib (JString h))) 20)),
        JString (toHexString lib (complement lib (tinycolor lib (JString h)))),
        JString (toHexString lib (lighten lib
          (tinycolor lib (JString (toHexString lib (complement lib (tinycolor lib (JString h)))))) 20)),
        JString (toHexString lib (desaturate lib (spin lib (clone lib (tinycolor lib (JString h))) 30) 10))])"
  using generateHarmonyPalette_valid[OF assms, of "''complement''"]
  by (simp add: harmonyColors_of_rule harmonyColors_complement_def js_slice_def
      NUM_COLORS_PER_PALETTE_def Let_def)

lemma shades_colors_normalized:
  assumes "isValid lib (tinycolor lib (JString h))"
  shows "generateHarmonyPalette lib h ''shades'' =
     Inr (map (normalizeHex lib)
       [JString (toHexString lib (darken lib (clone lib (tinycolor lib (JString h))) 30)),
        JString (toHexString lib (darken lib (clone lib (tinycolor lib (JString h))) 15)),
        JString (toHexString lib (tinycolor lib (JString h))),
        JString (toHexString lib (lighten lib (clone lib (tinycolor lib (JString h))) 15)),
        JString (toHexString lib (lighten lib (clone lib (tinycolor lib (JString h))) 30))])"
  using generateHarmonyPalette_valid[OF assms, of "''shades''"]
  by (simp add: harmonyColors_of_rule harmonyColors_shades_def js_slice_def
      NUM_COLORS_PER_PALETTE_def)

lemma monochromatic_colors_normalized:
  assumes "isValid lib (tinycolor lib (JString h))"
  shows "generateHarmonyPalette lib h ''monochromatic'' =
     Inr (map (\<lambda>tc. normalizeHex lib (JString (toHexString lib tc)))
            (monochromatic lib (tinycolor lib (JString h)) 5))"
  using generateHarmonyPalette_valid[OF assms, of "''monochromatic''"]
  by (simp add: harmonyColors_of_rule harmonyColors_monochromatic_def hexStrings_def
      NUM_COLORS_PER_PALETTE_def comp_def)

subsection \<open>JavaScript numbers\<close>

text \<open>Rounding to the nearest integer, ties to even: it fixes the integers, stays within
  one half and is monotone and odd.\<close>

lemma round_even_of_int [simp]: "round_even (of_int k) = k"
  by (simp add: round_even_def)

lemma round_even_cases:
  "round_even x = \<lfloor>x\<rfloor> \<and> x - of_int \<lfloor>x\<rfloor> \<le> 1 / 2 \<or>
   round_even x = \<lfloor>x\<rfloor> + 1 \<and> 1 / 2 \<le> x - of_int \<lfloor>x\<rfloor>"
  unfolding round_even_def Let_def by (cases "x - of_int \<lfloor>x\<rfloor> < 1 / 2"; cases "1 / 2 < x - of_int \<lfloor>x\<rfloor>"; simp)

lemma round_even_bounds: "x - 1 / 2 \<le> of_int (round_even x) \<and> of_int (round_even x) \<le> x + 1 / 2"
proof -
  have "of_int \<lfloor>x\<rfloor> \<le> x" "x < of_int \<lfloor>x\<rfloor> + 1" by linarith+
  then show ?thesis using round_even_cases[of x] by (elim disjE conjE; simp; linarith)
qed

lemma round_even_near:
  assumes "\<bar>x - of_int k\<bar> < 1 / 2"
  shows "round_even x = k"
proof -
  have b: "x - 1 / 2 \<le> of_int (round_even x)" "of_int (round_even x) \<le> x + 1 / 2"
    using round_even_bounds[of x] by simp_all
  have "\<bar>real_of_int (round_even x) - of_int k\<bar> < 1" using assms b by linarith
  then have "\<bar>real_of_int (round_even x - k)\<bar> < 1" by simp
  then have "\<bar>round_even x - k\<bar> < 1" by linarith
  then show ?thesis by simp
qed

lemma round_even_mono:
  assumes "x \<le> y"
  shows "round_even x \<le> round_even y"
proof (cases "\<lfloor>x\<rfloor> = \<lfloor>y\<rfloor>")
  case True
  have "x - of_int \<lfloor>x\<rfloor> \<le> y - of_int \<lfloor>x\<rfloor>" using assms by simp
  then show ?thesis unfolding round_even_def Let_def True[symmetric]
    by (simp; linarith)
next
  case False
  then have lt: "\<lfloor>x\<rfloor> < \<lfloor>y\<rfloor>" using assms floor_mono[of x y] by linarith
  have "round_even x \<le> \<lfloor>x\<rfloor> + 1" using round_even_cases[of x] by linarith
  moreover have "\<lfloor>y\<rfloor> \<le> round_even y" using round_even_cases[of y] by linarith
  ultimately show ?thesis using lt by linarith
qed


lemma round_even_zero [simp]: "round_even 0 = 0"
  using round_even_of_int[of 0] by simp

lemma ulp_pos: "0 < ulp x"
  by (simp add: ulp_def)

lemma binade_abs_less:
  assumes "x \<noteq> 0"
  shows "\<bar>x\<bar> < 2 powr (of_int (binade x) + 1)"
proof -
  have "log 2 \<bar>x\<bar> < of_int \<lfloor>log 2 \<bar>x\<bar>\<rfloor> + 1" by linarith
  also have "\<dots> \<le> of_int (binade x) + 1" by (simp add: binade_def)
  finally have "log 2 \<bar>x\<bar> < of_int (binade x) + 1" .
  then have "2 powr (log 2 \<bar>x\<bar>) < 2 powr (of_int (binade x) + 1)" by simp
  then show ?thesis using assms by simp
qed

lemma binade_abs_ge:
  assumes "x \<noteq> 0" and "- 1022 < binade x"
  shows "2 powr (of_int (binade x)) \<le> \<bar>x\<bar>"
proof -
  have b: "binade x = \<lfloor>log 2 \<bar>x\<bar>\<rfloor>" using assms(2) by (simp add: binade_def max_def split: if_splits)
  have "of_int (binade x) \<le> log 2 \<bar>x\<bar>" unfolding b by linarith
  then have "2 powr (of_int (binade x)) \<le> 2 powr (log 2 \<bar>x\<bar>)" by simp
  then show ?thesis using assms(1) by simp
qed

lemma binade_minus [simp]: "binade (- x) = binade x"
  by (simp add: binade_def)

lemma ulp_minus [simp]: "ulp (- x) = ulp x"
  by (simp add: ulp_def)


lemma floor_minus_nonint:
  fixes x :: real
  assumes "x \<noteq> of_int \<lfloor>x\<rfloor>"
  shows "\<lfloor>- x\<rfloor> = - \<lfloor>x\<rfloor> - 1"
proof -
  have "of_int \<lfloor>x\<rfloor> \<le> x" "x < of_int \<lfloor>x\<rfloor> + 1" by linarith+
  then have "of_int \<lfloor>x\<rfloor> < x" using assms by linarith
  have a: "of_int (- \<lfloor>x\<rfloor> - 1) \<le> - x" by (simp, linarith)
  have b: "- x < of_int (- \<lfloor>x\<rfloor> - 1) + 1" using \<open>of_int \<lfloor>x\<rfloor> < x\<close> by simp
  show ?thesis using a b by (rule floor_unique)
qed

lemma round_even_minus: "round_even (- x) = - round_even x"
proof (cases "x = of_int \<lfloor>x\<rfloor>")
  case True
  have "round_even (- of_int \<lfloor>x\<rfloor>) = - round_even (of_int \<lfloor>x\<rfloor>)"
    using round_even_of_int[of "- \<lfloor>x\<rfloor>"] by simp
  then show ?thesis using True by simp
next
  case False
  define f where "f = \<lfloor>x\<rfloor>"
  define d where "d = x - of_int f"
  have "of_int \<lfloor>x\<rfloor> \<le> x" "x < of_int \<lfloor>x\<rfloor> + 1" by linarith+
  then have d: "0 < d" "d < 1" using False unfolding d_def f_def by linarith+
  have fl: "\<lfloor>- x\<rfloor> = - f - 1" using floor_minus_nonint[OF False] by (simp add: f_def)
  have dm: "- x - of_int (- f - 1) = 1 - d" by (simp add: d_def)
  have a: "round_even x = (if d < 1 / 2 then f else if 1 / 2 < d then f + 1 else if even f then f else f + 1)"
    by (simp add: round_even_def Let_def f_def d_def)
  have b: "round_even (- x) = (if 1 - d < 1 / 2 then - f - 1 else if 1 / 2 < 1 - d then - f
                               else if even (- f - 1) then - f - 1 else - f)"
    unfolding round_even_def Let_def fl dm by simp
  consider "d < 1 / 2" | "1 / 2 < d" | "d = 1 / 2" by linarith
  then show ?thesis
  proof cases
    case 1 then show ?thesis unfolding a b by simp
  next
    case 2 then show ?thesis unfolding a b by simp
  next
    case 3 then show ?thesis unfolding a b by simp
  qed
qed

lemma fl64_zero [simp]: "fl64 0 = 0"
  by (simp add: fl64_def)

lemma fl64_minus: "fl64 (- x) = - fl64 x"
  by (simp add: fl64_def round_even_minus)

lemma fl64_nonneg: "0 \<le> x \<Longrightarrow> 0 \<le> fl64 x"
proof -
  assume "0 \<le> x"
  then have "0 \<le> x / ulp x" using ulp_pos[of x] by simp
  then have "round_even 0 \<le> round_even (x / ulp x)" by (rule round_even_mono)
  then show ?thesis using ulp_pos[of x] by (simp add: fl64_def)
qed

lemma fl64_upper:
  assumes "0 < x"
  shows "fl64 x \<le> 2 powr (of_int (binade x) + 1)"
proof -
  have u: "0 < ulp x" by (rule ulp_pos)
  have "x < 2 powr (of_int (binade x) + 1)" using binade_abs_less[of x] assms by simp
  then have "x / ulp x \<le> 2 powr (of_int (binade x) + 1) / ulp x"
    using u by (simp add: divide_right_mono)
  also have "\<dots> = 2 powr 53" by (simp add: ulp_def powr_diff[symmetric])
  also have "\<dots> = of_int (2 ^ 53)" by simp
  finally have "round_even (x / ulp x) \<le> round_even (of_int (2 ^ 53))" by (rule round_even_mono)
  then have "round_even (x / ulp x) \<le> 2 ^ 53" by (simp only: round_even_of_int)
  then have "real_of_int (round_even (x / ulp x)) \<le> 2 powr 53" by simp
  then have "real_of_int (round_even (x / ulp x)) * ulp x \<le> 2 powr 53 * ulp x"
    using u by (simp add: mult_right_mono)
  also have "2 powr 53 * ulp x = 2 powr (of_int (binade x) + 1)"
    unfolding ulp_def powr_add[symmetric] by (simp add: add.commute)
  finally show ?thesis using assms by (simp add: fl64_def)
qed

lemma fl64_lower:
  assumes "0 < x" and "- 1022 < binade x"
  shows "2 powr (of_int (binade x)) \<le> fl64 x"
proof -
  have u: "0 < ulp x" by (rule ulp_pos)
  have "2 powr (of_int (binade x)) \<le> x" using binade_abs_ge[of x] assms by simp
  then have "2 powr (of_int (binade x)) / ulp x \<le> x / ulp x"
    using u by (simp add: divide_right_mono)
  moreover have "2 powr (of_int (binade x)) / ulp x = 2 powr 52" by (simp add: ulp_def powr_diff[symmetric])
  moreover have "(2::real) powr 52 = of_int (2 ^ 52)" by simp
  ultimately have "real_of_int (2 ^ 52) \<le> x / ulp x" by simp
  then have "round_even (of_int (2 ^ 52)) \<le> round_even (x / ulp x)" by (rule round_even_mono)
  then have "2 ^ 52 \<le> round_even (x / ulp x)" by (simp only: round_even_of_int)
  then have "2 powr 52 \<le> real_of_int (round_even (x / ulp x))" by simp
  then have "2 powr 52 * ulp x \<le> real_of_int (round_even (x / ulp x)) * ulp x"
    using u by (simp add: mult_right_mono)
  moreover have "2 powr 52 * ulp x = 2 powr (of_int (binade x))"
    unfolding ulp_def powr_add[symmetric] by simp
  ultimately show ?thesis using assms by (simp add: fl64_def)
qed

lemma binade_mono:
  assumes "0 < x" and "x \<le> y"
  shows "binade x \<le> binade y"
proof -
  have "log 2 \<bar>x\<bar> \<le> log 2 \<bar>y\<bar>" using assms by simp
  then have "\<lfloor>log 2 \<bar>x\<bar>\<rfloor> \<le> \<lfloor>log 2 \<bar>y\<bar>\<rfloor>" by (rule floor_mono)
  then show ?thesis by (simp add: binade_def)
qed

lemma fl64_mono_pos:
  assumes "0 < x" and "x \<le> y"
  shows "fl64 x \<le> fl64 y"
proof (cases "binade x = binade y")
  case True
  then have u: "ulp y = ulp x" by (simp add: ulp_def)
  have "x / ulp x \<le> y / ulp x" using assms ulp_pos[of x] by (simp add: divide_right_mono)
  then have "round_even (x / ulp x) \<le> round_even (y / ulp x)" by (rule round_even_mono)
  then have "real_of_int (round_even (x / ulp x)) * ulp x \<le> real_of_int (round_even (y / ulp x)) * ulp x"
    using ulp_pos[of x] by (simp add: mult_right_mono)
  then show ?thesis using assms by (simp add: fl64_def u)
next
  case False
  then have lt: "binade x < binade y" using binade_mono[OF assms] by simp
  have "- 1022 \<le> binade x" by (simp add: binade_def)
  then have n: "- 1022 < binade y" using lt by simp
  have y: "0 < y" using assms by simp
  have "fl64 x \<le> 2 powr (of_int (binade x) + 1)" by (rule fl64_upper[OF assms(1)])
  also have "\<dots> = 2 powr (of_int (binade x + 1))" by simp
  also have "\<dots> \<le> 2 powr (of_int (binade y))"
    using lt by simp
  also have "\<dots> \<le> fl64 y" by (rule fl64_lower[OF y n])
  finally show ?thesis .
qed

lemma fl64_mono:
  assumes "x \<le> y"
  shows "fl64 x \<le> fl64 y"
proof -
  consider "0 < x" | "x \<le> 0" "0 \<le> y" | "y < 0" using assms by linarith
  then show ?thesis
  proof cases
    case 1
    then show ?thesis using assms by (rule fl64_mono_pos)
  next
    case 2
    have "0 \<le> fl64 (- x)" using 2(1) by (simp add: fl64_nonneg)
    then have "fl64 x \<le> 0" by (simp add: fl64_minus)
    moreover have "0 \<le> fl64 y" using 2(2) by (rule fl64_nonneg)
    ultimately show ?thesis by simp
  next
    case 3
    then have "0 < - y" "- y \<le> - x" using assms by simp_all
    then have "fl64 (- y) \<le> fl64 (- x)" by (rule fl64_mono_pos)
    then show ?thesis by (simp add: fl64_minus)
  qed
qed


lemma fl64_representable:
  assumes k: "\<bar>k\<bar> < 2 ^ 53" and j: "- 1074 \<le> j"
  shows "fl64 (of_int k * 2 powr of_int j) = of_int k * 2 powr of_int j"
proof (cases "k = 0")
  case True
  then show ?thesis by simp
next
  case False
  define x where "x = real_of_int k * 2 powr of_int j"
  define e where "e = binade x - 52"
  have x0: "x \<noteq> 0" using False by (simp add: x_def)
  have ax: "\<bar>x\<bar> = real_of_int \<bar>k\<bar> * 2 powr of_int j" by (simp add: x_def abs_mult)
  have "real_of_int \<bar>k\<bar> < real_of_int (2 ^ 53)" using k by (simp only: of_int_less_iff)
  then have "real_of_int \<bar>k\<bar> < 2 powr 53" by simp
  then have "\<bar>x\<bar> < 2 powr 53 * 2 powr of_int j" unfolding ax by simp
  also have "\<dots> = 2 powr (of_int (53 + j))" unfolding powr_add[symmetric] by simp
  finally have "\<bar>x\<bar> < 2 powr (of_int (53 + j))" .
  then have "log 2 \<bar>x\<bar> < of_int (53 + j)" using x0 by (simp add: log_less_iff)
  then have "\<lfloor>log 2 \<bar>x\<bar>\<rfloor> < 53 + j" by (simp only: floor_less_iff)
  then have ej: "e \<le> j" using j by (simp add: e_def binade_def)
  have u: "ulp x = 2 powr of_int e" by (simp add: ulp_def e_def)
  have "2 powr of_int j / 2 powr of_int e = (2::real) powr (of_int (j - e))"
    unfolding powr_diff[symmetric] by simp
  also have "\<dots> = 2 powr (real (nat (j - e)))" using ej by simp
  also have "\<dots> = 2 ^ nat (j - e)" by (simp only: powr_realpow zero_less_numeral)
  finally have q: "2 powr of_int j / 2 powr of_int e = (2::real) ^ nat (j - e)" .
  have "x / 2 powr of_int e = real_of_int k * (2 powr of_int j / 2 powr of_int e)"
    by (simp add: x_def)
  also have "\<dots> = real_of_int (k * 2 ^ nat (j - e))" unfolding q by simp
  finally have r: "round_even (x / 2 powr of_int e) = k * 2 ^ nat (j - e)"
    by (simp only: round_even_of_int)
  have "fl64 x = real_of_int (k * 2 ^ nat (j - e)) * 2 powr of_int e"
    using x0 by (simp only: fl64_def u r if_False)
  also have "\<dots> = real_of_int k * ((2 powr of_int j / 2 powr of_int e) * 2 powr of_int e)"
    unfolding q by simp
  also have "\<dots> = x" by (simp add: x_def)
  finally show ?thesis by (simp only: x_def)
qed

lemma fl64_of_int: "\<bar>k\<bar> < 2 ^ 53 \<Longrightarrow> fl64 (of_int k) = of_int k"
  using fl64_representable[of k 0] by simp

lemma fl64_dyadic:
  assumes "\<bar>k\<bar> < 2 ^ 53" and "m \<le> 1074"
  shows "fl64 (of_int k / 2 ^ m) = of_int k / 2 ^ m"
proof -
  have "(2::real) powr of_int (- int m) = 1 / 2 ^ m"
    by (simp add: powr_minus powr_realpow divide_inverse)
  then show ?thesis using fl64_representable[of k "- int m"] assms by simp
qed

lemma fl64_numerals:
  "fl64 1 = 1" "fl64 2 = 2" "fl64 4 = 4" "fl64 96 = 96" "fl64 100 = 100" "fl64 196 = 196"
  "fl64 360 = 360" "fl64 720 = 720" "fl64 (- 720) = - 720"
  using fl64_of_int[of 1] fl64_of_int[of 2] fl64_of_int[of 4] fl64_of_int[of 96]
    fl64_of_int[of 100] fl64_of_int[of 196] fl64_of_int[of 360] fl64_of_int[of 720]
    fl64_of_int[of "- 720"]
  by simp_all

subsection \<open>Event handlers\<close>

lemma handleGenerateHarmony_picker:
  "currentHue (snd (handleGenerateHarmony lib st)) = currentHue st \<and>
   currentSaturation (snd (handleGenerateHarmony lib st)) = currentSaturation st \<and>
   currentLightness (snd (handleGenerateHarmony lib st)) = currentLightness st"
  by (simp add: handleGenerateHarmony_def Let_def split: sum.splits)

lemma updateColorFromPicker_picker:
  "currentHue (updateColorFromPicker lib st) = currentHue st"
  "currentSaturation (updateColorFromPicker lib st) = currentSaturation st"
  "currentLightness (updateColorFromPicker lib st) = currentLightness st"
  using handleGenerateHarmony_picker[of lib st] by (simp_all add: updateColorFromPicker_def)

lemma updateColorFromPicker_in_range:
  "picker_in_closed_range (updateColorFromPicker lib st) = picker_in_closed_range st"
  by (simp add: picker_in_closed_range_def updateColorFromPicker_picker)

lemma updateColorFromPicker_displays:
  assumes "isValid lib (tinycolor lib (JString (toHexString lib
             (tinycolor lib (JHslObject (currentHue st) (currentSaturation st) (currentLightness st))))))"
  shows "paletteDisplay (updateColorFromPicker lib st) \<noteq> NothingDisplayed"
  using assms
  by (simp add: updateColorFromPicker_def handleGenerateHarmony_def generateHarmonyPalette_def
      Let_def displayPalette_def)

lemma atan2_range: "- pi < atan2 y x \<and> atan2 y x \<le> pi"
proof -
  have b: "- (pi / 2) < arctan (y / x)" "arctan (y / x) < pi / 2"
    by (rule arctan_lbound, rule arctan_ubound)
  have p: "0 < pi" by simp
  consider "0 < x" | "x < 0" "0 \<le> y" | "x < 0" "y < 0" | "x = 0"
    by linarith
  then show ?thesis
  proof cases
    case 1
    then show ?thesis using b p by (simp add: atan2_def)
  next
    case 2
    then have "y / x \<le> 0" by (simp add: divide_nonneg_neg)
    then have "arctan (y / x) \<le> 0" using arctan_monotone'[of "y / x" 0] by simp
    then show ?thesis using 2 b p by (simp add: atan2_def)
  next
    case 3
    then have "0 < y / x" by (simp add: divide_neg_neg)
    then have "0 < arctan (y / x)" using arctan_monotone[of 0 "y / x"] by simp
    then show ?thesis using 3 b p by (simp add: atan2_def)
  next
    case 4
    have "- (pi / 2) \<le> pi" using p by linarith
    then show ?thesis unfolding atan2_def using 4 p by (simp; linarith)
  qed
qed

text \<open>The angle in degrees that the hue wheel handlers compute, in double
  arithmetic.\<close>

lemma Math_PI_fl64_range: "2 \<le> Math_PI fl64 \<and> Math_PI fl64 \<le> 4"
proof -
  have "fl64 2 \<le> fl64 pi" using pi_ge_two by (rule fl64_mono)
  moreover have "fl64 pi \<le> fl64 4" using pi_less_4 by (intro fl64_mono) simp
  ultimately show ?thesis by (simp add: Math_PI_def fl64_numerals)
qed

lemma Math_atan2_fl64_range:
  "- Math_PI fl64 \<le> Math_atan2 fl64 y x \<and> Math_atan2 fl64 y x \<le> Math_PI fl64"
proof -
  have "fl64 (- pi) \<le> fl64 (atan2 y x)" using atan2_range[of y x] by (intro fl64_mono) simp
  moreover have "fl64 (atan2 y x) \<le> fl64 pi" using atan2_range[of y x] by (intro fl64_mono) simp
  ultimately show ?thesis by (simp add: Math_PI_def Math_atan2_def fl64_minus)
qed

lemma angleDeg_fl64_range:
  "- 360 \<le> fl64 (fl64 (Math_atan2 fl64 y x * 180) / Math_PI fl64) \<and>
   fl64 (fl64 (Math_atan2 fl64 y x * 180) / Math_PI fl64) \<le> 360"
proof -
  define P where "P = Math_PI fl64"
  define a where "a = Math_atan2 fl64 y x"
  define b where "b = fl64 (a * 180)"
  have P: "2 \<le> P" "P \<le> 4" using Math_PI_fl64_range by (simp_all add: P_def)
  have a: "- P \<le> a" "a \<le> P" using Math_atan2_fl64_range[of y x] by (simp_all add: a_def P_def)
  have "- 720 \<le> a * 180" "a * 180 \<le> 720" using a P by simp_all
  then have "fl64 (- 720) \<le> fl64 (a * 180)" "fl64 (a * 180) \<le> fl64 720"
    by (simp_all add: fl64_mono)
  then have b: "- 720 \<le> b" "b \<le> 720" by (simp_all add: b_def fl64_numerals)
  have "- 360 * P \<le> b" "b \<le> 360 * P" using b P by simp_all
  then have "- 360 \<le> b / P" "b / P \<le> 360" using P by (simp_all add: pos_le_divide_eq pos_divide_le_eq)
  then have "fl64 (- 360) \<le> fl64 (b / P)" "fl64 (b / P) \<le> fl64 360"
    by (simp_all add: fl64_mono)
  then show ?thesis by (simp add: fl64_minus fl64_numerals b_def a_def P_def)
qed

lemma normalize_angleDeg_fl64_range:
  assumes "- 360 \<le> a" and "a \<le> 360"
  shows "0 \<le> normalize_angleDeg fl64 a \<and> normalize_angleDeg fl64 a \<le> 360"
proof (cases "a < 0")
  case True
  have "fl64 0 \<le> fl64 (a + 360)" using assms(1) by (intro fl64_mono) simp
  moreover have "fl64 (a + 360) \<le> fl64 360" using True by (intro fl64_mono) simp
  ultimately show ?thesis using True by (simp add: normalize_angleDeg_def fl64_numerals)
next
  case False
  then show ?thesis using assms(2) by (simp add: normalize_angleDeg_def)
qed

lemma arctan_le_self:
  assumes "0 \<le> t"
  shows "arctan t \<le> t"
proof -
  have "(\<lambda>x. x - arctan x) 0 \<le> (\<lambda>x. x - arctan x) t"
  proof (rule DERIV_nonneg_imp_nondecreasing[OF assms])
    fix x :: real
    have d: "DERIV (\<lambda>x. x - arctan x) x :> 1 - inverse (1 + x\<^sup>2)"
      by (intro derivative_intros DERIV_arctan)
    have "inverse (1 + x\<^sup>2) \<le> 1" by (simp add: inverse_le_1_iff)
    then have "0 \<le> 1 - inverse (1 + x\<^sup>2)" by simp
    then show "\<exists>y. DERIV (\<lambda>x. x - arctan x) x :> y \<and> 0 \<le> y" using d by blast
  qed
  then show ?thesis by simp
qed

lemma arctan_ge_half:
  assumes "0 \<le> t" and "t \<le> 1"
  shows "t / 2 \<le> arctan t"
proof -
  have "(\<lambda>x. arctan x - x / 2) 0 \<le> (\<lambda>x. arctan x - x / 2) t"
  proof (rule DERIV_nonneg_imp_nondecreasing[OF assms(1)])
    fix x :: real
    assume x: "0 \<le> x" "x \<le> t"
    have d: "DERIV (\<lambda>x. arctan x - x / 2) x :> inverse (1 + x\<^sup>2) - 1 / 2"
      by (auto intro!: derivative_eq_intros)
    have "x\<^sup>2 \<le> 1" using x assms(2) by (simp add: power_le_one)
    then have "1 + x\<^sup>2 \<le> 2" by simp
    moreover have "0 < 1 + x\<^sup>2" by (simp add: add_pos_nonneg)
    ultimately have "inverse 2 \<le> inverse (1 + x\<^sup>2)" by (simp only: le_imp_inverse_le)
    then have "0 \<le> inverse (1 + x\<^sup>2) - 1 / 2" by simp
    then show "\<exists>y. DERIV (\<lambda>x. arctan x - x / 2) x :> y \<and> 0 \<le> y" using d by blast
  qed
  then show ?thesis by simp
qed

lemma fl64_below_360: "fl64 (360 - 270 / 2 ^ 54) = 360"
proof -
  define x :: real where "x = 360 - 270 / 2 ^ 54"
  have x: "0 < x" "2 powr 8 \<le> x" "x < 2 powr (8 + 1)" by (simp_all add: x_def)
  have "\<lfloor>log 2 x\<rfloor> = 8"
    using x floor_log_eq_powr_iff[of x 2 8] by simp
  then have b: "binade x = 8" using x(1) by (simp add: binade_def)
  have u: "ulp x = 1 / 2 ^ 44"
    unfolding ulp_def b using powr_neg_numeral[of 2 "num.Bit0 (num.Bit0 (num.Bit1 (num.Bit1 (num.Bit0 num.One))))"]
    by simp
  have "\<bar>x / ulp x - of_int (360 * 2 ^ 44)\<bar> < 1 / 2" unfolding u by (simp add: x_def)
  then have r: "round_even (x / ulp x) = 360 * 2 ^ 44" by (rule round_even_near)
  have "fl64 x = of_int (round_even (x / ulp x)) * ulp x" using x(1) by (simp add: fl64_def)
  also have "\<dots> = of_int (360 * 2 ^ 44) * ulp x" by (simp only: r)
  also have "\<dots> = of_int (360 * 2 ^ 44) * (1 / 2 ^ 44)" by (simp only: u)
  also have "\<dots> = 360" by simp
  finally show ?thesis by (simp only: x_def)
qed

lemma angleDeg_just_below_zero:
  "- (270 / 2 ^ 54) \<le> fl64 (fl64 (Math_atan2 fl64 (- (1 / 2 ^ 46)) 96 * 180) / Math_PI fl64) \<and>
   fl64 (fl64 (Math_atan2 fl64 (- (1 / 2 ^ 46)) 96 * 180) / Math_PI fl64) \<le> - (45 / 2 ^ 54)"
proof -
  define t :: real where "t = 1 / 2 ^ 46 / 96"
  define P where "P = Math_PI fl64"
  define a where "a = Math_atan2 fl64 (- (1 / 2 ^ 46)) 96"
  define b where "b = fl64 (a * 180)"
  have P: "2 \<le> P" "P \<le> 4" using Math_PI_fl64_range by (simp_all add: P_def)
  have t: "0 \<le> t" "t \<le> 1" "t \<le> 3 / 2 ^ 54" "1 / 2 ^ 54 \<le> t / 2" by (simp_all add: t_def)
  have at: "atan2 (- (1 / 2 ^ 46)) 96 = - arctan t"
    by (simp add: atan2_def t_def arctan_minus[symmetric])
  have "- (3 / 2 ^ 54) \<le> - arctan t" using arctan_le_self[OF t(1)] t(3) by simp
  then have "fl64 (real_of_int (- 3) / 2 ^ 54) \<le> fl64 (- arctan t)" by (intro fl64_mono) simp
  then have a1: "- (3 / 2 ^ 54) \<le> a"
    unfolding a_def Math_atan2_def at using fl64_dyadic[of "- 3" 54] by simp
  have "- arctan t \<le> - (1 / 2 ^ 54)" using arctan_ge_half[OF t(1,2)] t(4) by simp
  then have "fl64 (- arctan t) \<le> fl64 (real_of_int (- 1) / 2 ^ 54)" by (intro fl64_mono) simp
  then have a2: "a \<le> - (1 / 2 ^ 54)"
    unfolding a_def Math_atan2_def at using fl64_dyadic[of "- 1" 54] by simp
  have "real_of_int (- 540) / 2 ^ 54 \<le> a * 180" using a1 by simp
  then have "fl64 (real_of_int (- 540) / 2 ^ 54) \<le> fl64 (a * 180)" by (rule fl64_mono)
  then have b1: "- (540 / 2 ^ 54) \<le> b" using fl64_dyadic[of "- 540" 54] by (simp add: b_def)
  have "a * 180 \<le> real_of_int (- 180) / 2 ^ 54" using a2 by simp
  then have "fl64 (a * 180) \<le> fl64 (real_of_int (- 180) / 2 ^ 54)" by (rule fl64_mono)
  then have b2: "b \<le> - (180 / 2 ^ 54)" using fl64_dyadic[of "- 180" 54] by (simp add: b_def)
  have bneg: "b \<le> 0" using b2 by simp
  have "b / 2 \<le> b / P" using bneg P(1) by (intro divide_left_mono_neg) simp_all
  then have "real_of_int (- 270) / 2 ^ 54 \<le> b / P" using b1 by simp
  then have "fl64 (real_of_int (- 270) / 2 ^ 54) \<le> fl64 (b / P)" by (rule fl64_mono)
  then have c1: "- (270 / 2 ^ 54) \<le> fl64 (b / P)" using fl64_dyadic[of "- 270" 54] by simp
  have "b / P \<le> b / 4" using bneg P by (intro divide_left_mono_neg) simp_all
  then have "b / P \<le> real_of_int (- 45) / 2 ^ 54" using b2 by simp
  then have "fl64 (b / P) \<le> fl64 (real_of_int (- 45) / 2 ^ 54)" by (rule fl64_mono)
  then have c2: "fl64 (b / P) \<le> - (45 / 2 ^ 54)" using fl64_dyadic[of "- 45" 54] by simp
  show ?thesis using c1 c2 by (simp add: b_def a_def P_def)
qed

lemma angleDeg_rounds_to_360:
  "normalize_angleDeg fl64
     (fl64 (fl64 (Math_atan2 fl64 (- (1 / 2 ^ 46)) 96 * 180) / Math_PI fl64)) = 360"
proof -
  define c where "c = fl64 (fl64 (Math_atan2 fl64 (- (1 / 2 ^ 46)) 96 * 180) / Math_PI fl64)"
  have c: "- (270 / 2 ^ 54) \<le> c" "c \<le> - (45 / 2 ^ 54)"
    using angleDeg_just_below_zero by (simp_all add: c_def)
  have neg: "c < 0" using c(2) by simp
  have "fl64 (360 - 270 / 2 ^ 54) \<le> fl64 (c + 360)" using c(1) by (intro fl64_mono) simp
  then have lo: "360 \<le> fl64 (c + 360)" by (simp only: fl64_below_360)
  have "fl64 (c + 360) \<le> fl64 360" using neg by (intro fl64_mono) simp
  then have hi: "fl64 (c + 360) \<le> 360" by (simp only: fl64_numerals)
  have "fl64 (c + 360) = 360" using lo hi by simp
  then show ?thesis unfolding c_def[symmetric] normalize_angleDeg_def using neg by simp
qed

lemma atan2_polar:
  assumes r: "0 < r" and lo: "- pi < \<theta>" and hi: "\<theta> \<le> pi"
  shows "atan2 (r * sin \<theta>) (r * cos \<theta>) = \<theta>"
proof -
  have q: "r * sin \<theta> / (r * cos \<theta>) = tan \<theta>" using r by (simp add: tan_def)
  consider "- (pi / 2) < \<theta>" "\<theta> < pi / 2" | "\<theta> = pi / 2" | "\<theta> = - (pi / 2)"
    | "pi / 2 < \<theta>" | "\<theta> < - (pi / 2)" by linarith
  then show ?thesis
  proof cases
    case 1
    then have "0 < cos \<theta>" by (rule cos_gt_zero_pi)
    then have "0 < r * cos \<theta>" using r by simp
    then have "atan2 (r * sin \<theta>) (r * cos \<theta>) = arctan (tan \<theta>)"
      unfolding atan2_def q by simp
    then show ?thesis using arctan_tan[OF 1] by simp
  next
    case 2
    show ?thesis unfolding 2 using r by (simp add: atan2_def)
  next
    case 3
    show ?thesis unfolding 3 using r by (simp add: atan2_def)
  next
    case 4
    have b: "- (pi / 2) < \<theta> - pi" "\<theta> - pi < pi / 2" using 4 hi by simp_all
    have "0 < cos (\<theta> - pi)" using b by (rule cos_gt_zero_pi)
    then have c: "r * cos \<theta> < 0" using r by (simp add: mult_pos_neg)
    have "0 \<le> sin \<theta>" using 4 hi by (intro sin_ge_zero) simp_all
    then have s: "0 \<le> r * sin \<theta>" using r by simp
    have "tan \<theta> = tan (\<theta> - pi)" using tan_periodic_pi[of "\<theta> - pi"] by simp
    then have "arctan (tan \<theta>) = \<theta> - pi" using arctan_tan[OF b] by simp
    moreover have "atan2 (r * sin \<theta>) (r * cos \<theta>) = arctan (tan \<theta>) + pi"
      unfolding atan2_def q using c s by simp
    ultimately show ?thesis by simp
  next
    case 5
    have b: "- (pi / 2) < \<theta> + pi" "\<theta> + pi < pi / 2" using 5 lo by simp_all
    have "0 < cos (\<theta> + pi)" using b by (rule cos_gt_zero_pi)
    then have c: "r * cos \<theta> < 0" using r by (simp add: mult_pos_neg)
    have "0 < \<theta> + pi" using lo by simp
    then have "0 < sin (\<theta> + pi)" using b(2) by (intro sin_gt_zero2) simp_all
    then have s: "r * sin \<theta> < 0" using r by (simp add: mult_pos_neg)
    have "arctan (tan \<theta>) = \<theta> + pi" using arctan_tan[OF b] by simp
    moreover have "atan2 (r * sin \<theta>) (r * cos \<theta>) = arctan (tan \<theta>) - pi"
      unfolding atan2_def q using c s by simp
    ultimately show ?thesis by simp
  qed
qed

lemma sin_cos_turns:
  "sin (x + 2 * pi * of_int n) = sin x" "cos (x + 2 * pi * of_int n) = cos x"
  by (simp_all add: sin_add cos_add)

lemma exact_angle_of_direction:
  assumes r: "0 < r"
  shows "normalize_angleDeg (\<lambda>v. v)
           (atan2 (r * sin (a * pi / 180)) (r * cos (a * pi / 180)) * 180 / pi) =
         a - 360 * of_int \<lfloor>a / 360\<rfloor>"
proof -
  define n where "n = \<lfloor>a / 360\<rfloor>"
  define a' where "a' = a - 360 * of_int n"
  have "of_int n \<le> a / 360" "a / 360 < of_int n + 1" unfolding n_def by linarith+
  then have a': "0 \<le> a'" "a' < 360" by (simp_all add: a'_def)
  have e: "a * pi / 180 = a' * pi / 180 + 2 * pi * of_int n" by (simp add: a'_def field_simps)
  have sc: "sin (a * pi / 180) = sin (a' * pi / 180)" "cos (a * pi / 180) = cos (a' * pi / 180)"
    unfolding e by (rule sin_cos_turns)+
  have p: "0 < pi" by simp
  show ?thesis
  proof (cases "a' \<le> 180")
    case True
    have "0 \<le> a' * pi / 180" using a'(1) p by simp
    then have "- pi < a' * pi / 180" using p by linarith
    moreover have "a' * pi / 180 \<le> pi" using True p by simp
    ultimately have "atan2 (r * sin (a' * pi / 180)) (r * cos (a' * pi / 180)) = a' * pi / 180"
      by (rule atan2_polar[OF r])
    then show ?thesis unfolding sc n_def[symmetric] using a' by (simp add: normalize_angleDeg_def a'_def)
  next
    case False
    define \<theta> where "\<theta> = a' * pi / 180 - 2 * pi"
    have t: "a' * pi / 180 = \<theta> + 2 * pi * of_int 1" by (simp add: \<theta>_def)
    have sc': "sin (a' * pi / 180) = sin \<theta>" "cos (a' * pi / 180) = cos \<theta>"
      unfolding t by (rule sin_cos_turns)+
    have "pi < a' * pi / 180" using False p by simp
    then have lo: "- pi < \<theta>" by (simp add: \<theta>_def)
    have "a' * pi / 180 < 2 * pi" using a'(2) p by simp
    then have hi: "\<theta> < 0" by (simp add: \<theta>_def)
    then have "\<theta> \<le> pi" using p by linarith
    then have at: "atan2 (r * sin \<theta>) (r * cos \<theta>) = \<theta>" by (rule atan2_polar[OF r lo])
    have d: "\<theta> * 180 / pi = a' - 360" by (simp add: \<theta>_def field_simps)
    have "\<theta> * 180 / pi < 0" unfolding d using a'(2) by simp
    then show ?thesis unfolding sc sc' at n_def[symmetric]
      by (simp add: normalize_angleDeg_def d a'_def)
  qed
qed

lemma setHueFromMouse_picker:
  "currentHue (setHueFromMouse lib fl cv e st) =
     normalize_angleDeg fl
       (fl (fl (Math_atan2 fl
                  (fl (fl (clientY e - rect_top cv) - fl (canvas_height cv / 2)))
                  (fl (fl (clientX e - rect_left cv) - fl (canvas_width cv / 2))) * 180) /
            Math_PI fl)) \<and>
   currentSaturation (setHueFromMouse lib fl cv e st) = currentSaturation st \<and>
   currentLightness (setHueFromMouse lib fl cv e st) = currentLightness st"
  by (simp add: setHueFromMouse_def Let_def updateColorFromPicker_picker)

lemma setHueFromMouse_hue_range:
  "0 \<le> currentHue (setHueFromMouse lib fl64 cv e st) \<and>
   currentHue (setHueFromMouse lib fl64 cv e st) \<le> 360"
proof -
  let ?y = "fl64 (fl64 (clientY e - rect_top cv) - fl64 (canvas_height cv / 2))"
  let ?x = "fl64 (fl64 (clientX e - rect_left cv) - fl64 (canvas_width cv / 2))"
  let ?a = "fl64 (fl64 (Math_atan2 fl64 ?y ?x * 180) / Math_PI fl64)"
  have r: "- 360 \<le> ?a" "?a \<le> 360" using angleDeg_fl64_range[of ?y ?x] by simp_all
  have h: "currentHue (setHueFromMouse lib fl64 cv e st) = normalize_angleDeg fl64 ?a"
    using setHueFromMouse_picker[of lib fl64 cv e st] by simp
  show ?thesis unfolding h by (rule normalize_angleDeg_fl64_range[OF r])
qed

lemma setHueFromMouse_in_range:
  "picker_in_closed_range st \<Longrightarrow> picker_in_closed_range (setHueFromMouse lib fl64 cv e st)"
  using setHueFromMouse_hue_range[of lib cv e st] setHueFromMouse_picker[of lib fl64 cv e st]
  by (simp add: picker_in_closed_range_def)

lemma setSLFromMouse_picker:
  "currentHue (setSLFromMouse lib fl cv e st) = currentHue st \<and>
   currentSaturation (setSLFromMouse lib fl cv e st) =
     max 0 (min 1 (fl (fl (clientX e - rect_left cv) / canvas_width cv))) \<and>
   currentLightness (setSLFromMouse lib fl cv e st) =
     fl (1 - max 0 (min 1 (fl (fl (clientY e - rect_top cv) / canvas_height cv))))"
  by (simp add: setSLFromMouse_def Let_def updateColorFromPicker_picker)

lemma setSLFromMouse_in_range:
  "picker_in_closed_range st \<Longrightarrow> picker_in_closed_range (setSLFromMouse lib fl64 cv e st)"
proof -
  assume a: "picker_in_closed_range st"
  let ?m = "max 0 (min 1 (fl64 (fl64 (clientY e - rect_top cv) / canvas_height cv)))"
  have "fl64 0 \<le> fl64 (1 - ?m)" by (intro fl64_mono) simp
  moreover have "fl64 (1 - ?m) \<le> fl64 1" by (intro fl64_mono) simp
  ultimately have l: "0 \<le> fl64 (1 - ?m)" "fl64 (1 - ?m) \<le> 1" by (simp_all add: fl64_numerals)
  show ?thesis
    using a l setSLFromMouse_picker[of lib fl64 cv e st] by (simp add: picker_in_closed_range_def)
qed

lemma baseColorInput_input_in_range:
  assumes "picker_in_closed_range st"
    and "isValid lib (tinycolor lib (JString (baseColorInput_value st))) \<longrightarrow>
         hsl_in_range (toHsl lib (tinycolor lib (JString (baseColorInput_value st))))"
  shows "picker_in_closed_range (baseColorInput_input lib st)"
  using assms
  by (auto simp add: baseColorInput_input_def Let_def updateColorFromPicker_picker
      picker_in_closed_range_def hsl_in_range_def)

lemma randomPaletteBtn_click_in_range:
  "picker_in_closed_range st \<Longrightarrow> picker_in_closed_range (randomPaletteBtn_click lib rnd st)"
  by (simp add: randomPaletteBtn_click_def picker_in_closed_range_def split: prod.splits)

text \<open>A pointer one unit in the last place above the horizontal through the centre of
  the wheel, to the right of the centre: the angle is a tiny negative number, and adding
  360 to it rounds to 360.\<close>

lemma edge_pointer_offsets:
  "fl64 (fl64 (clientY \<lparr>clientX = 196, clientY = 100\<rparr> -
               rect_top \<lparr>rect_left = 0, rect_top = 1 / 2 ^ 46, canvas_width = 200, canvas_height = 200\<rparr>) -
         fl64 (canvas_height \<lparr>rect_left = 0, rect_top = 1 / 2 ^ 46, canvas_width = 200, canvas_height = 200\<rparr> / 2)) =
     - (1 / 2 ^ 46)"
  "fl64 (fl64 (clientX \<lparr>clientX = 196, clientY = 100\<rparr> -
               rect_left \<lparr>rect_left = 0, rect_top = 1 / 2 ^ 46, canvas_width = 200, canvas_height = 200\<rparr>) -
         fl64 (canvas_width \<lparr>rect_left = 0, rect_top = 1 / 2 ^ 46, canvas_width = 200, canvas_height = 200\<rparr> / 2)) =
     96"
proof -
  have y: "fl64 (100 - 1 / 2 ^ 46) = 100 - 1 / 2 ^ 46"
  proof -
    have e: "real_of_int (100 * 2 ^ 46 - 1) / 2 ^ 46 = 100 - 1 / 2 ^ 46" by simp
    have "fl64 (real_of_int (100 * 2 ^ 46 - 1) / 2 ^ 46) = real_of_int (100 * 2 ^ 46 - 1) / 2 ^ 46"
      by (rule fl64_dyadic) simp_all
    then show ?thesis unfolding e .
  qed
  have d: "fl64 (- (1 / 2 ^ 46)) = - (1 / 2 ^ 46)"
  proof -
    have e: "real_of_int 1 / 2 ^ 46 = 1 / 2 ^ 46" by simp
    have "fl64 (real_of_int 1 / 2 ^ 46) = real_of_int 1 / 2 ^ 46"
      by (rule fl64_dyadic) simp_all
    then show ?thesis unfolding e by (simp only: fl64_minus)
  qed
  have c: "fl64 (200 / 2) = 100" by (simp add: fl64_numerals)
  have z: "(100::real) - 1 / 2 ^ 46 - 100 = - (1 / 2 ^ 46)" by simp
  show "fl64 (fl64 (clientY \<lparr>clientX = 196, clientY = 100\<rparr> -
               rect_top \<lparr>rect_left = 0, rect_top = 1 / 2 ^ 46, canvas_width = 200, canvas_height = 200\<rparr>) -
         fl64 (canvas_height \<lparr>rect_left = 0, rect_top = 1 / 2 ^ 46, canvas_width = 200, canvas_height = 200\<rparr> / 2)) =
     - (1 / 2 ^ 46)"
    by (simp only: mouse_event.select_convs canvas.select_convs y c z d)
  show "fl64 (fl64 (clientX \<lparr>clientX = 196, clientY = 100\<rparr> -
               rect_left \<lparr>rect_left = 0, rect_top = 1 / 2 ^ 46, canvas_width = 200, canvas_height = 200\<rparr>) -
         fl64 (canvas_width \<lparr>rect_left = 0, rect_top = 1 / 2 ^ 46, canvas_width = 200, canvas_height = 200\<rparr> / 2)) =
     96"
    by (simp add: fl64_numerals)
qed

lemma hue_at_edge_pointer:
  "currentHue (setHueFromMouse lib fl64
     \<lparr>rect_left = 0, rect_top = 1 / 2 ^ 46, canvas_width = 200, canvas_height = 200\<rparr>
     \<lparr>clientX = 196, clientY = 100\<rparr> st) = 360"
proof -
  have h: "currentHue (setHueFromMouse lib fl64
     \<lparr>rect_left = 0, rect_top = 1 / 2 ^ 46, canvas_width = 200, canvas_height = 200\<rparr>
     \<lparr>clientX = 196, clientY = 100\<rparr> st) =
     normalize_angleDeg fl64
       (fl64 (fl64 (Math_atan2 fl64
          (fl64 (fl64 (clientY \<lparr>clientX = 196, clientY = 100\<rparr> -
               rect_top \<lparr>rect_left = 0, rect_top = 1 / 2 ^ 46, canvas_width = 200, canvas_height = 200\<rparr>) -
             fl64 (canvas_height \<lparr>rect_left = 0, rect_top = 1 / 2 ^ 46, canvas_width = 200, canvas_height = 200\<rparr> / 2)))
          (fl64 (fl64 (clientX \<lparr>clientX = 196, clientY = 100\<rparr> -
               rect_left \<lparr>rect_left = 0, rect_top = 1 / 2 ^ 46, canvas_width = 200, canvas_height = 200\<rparr>) -
             fl64 (canvas_width \<lparr>rect_left = 0, rect_top = 1 / 2 ^ 46, canvas_width = 200, canvas_height = 200\<rparr> / 2))) * 180) /
          Math_PI fl64))"
    using setHueFromMouse_picker[of lib fl64] by blast
  show ?thesis unfolding h edge_pointer_offsets by (rule angleDeg_rounds_to_360)
qed

text \<open>In exact arithmetic the hue is the direction of the pointer, reduced to
  \<open>[0, 360)\<close>.\<close>

lemma exact_hue_of_direction:
  assumes "0 < r"
  shows "currentHue (setHueFromMouse lib (\<lambda>v. v) cv (pointer_at cv r a) st) =
         a - 360 * of_int \<lfloor>a / 360\<rfloor>"
proof -
  have y: "clientY (pointer_at cv r a) - rect_top cv - canvas_height cv / 2 = r * sin (a * pi / 180)"
    and x: "clientX (pointer_at cv r a) - rect_left cv - canvas_width cv / 2 = r * cos (a * pi / 180)"
    by (simp_all add: pointer_at_def)
  have "currentHue (setHueFromMouse lib (\<lambda>v. v) cv (pointer_at cv r a) st) =
     normalize_angleDeg (\<lambda>v. v)
       (atan2 (clientY (pointer_at cv r a) - rect_top cv - canvas_height cv / 2)
              (clientX (pointer_at cv r a) - rect_left cv - canvas_width cv / 2) * 180 / pi)"
    using setHueFromMouse_picker[of lib "\<lambda>v. v" cv "pointer_at cv r a" st]
    by (simp add: Math_atan2_def Math_PI_def)
  then show ?thesis unfolding y x by (simp only: exact_angle_of_direction[OF assms])
qed

section \<open>Facts about the model of the color library\<close>

lemma tc2_fields:
  "tinycolor tc2 = tc2_tinycolor" "isValid tc2 = tc_ok" "toHexString tc2 = tc2_toHexString"
  "toHsl tc2 = tc2_toHsl" "clone tc2 = tc2_clone" "lighten tc2 = tc2_lighten"
  "darken tc2 = tc2_darken" "desaturate tc2 = tc2_desaturate" "spin tc2 = tc2_spin"
  "complement tc2 = tc2_complement" "analogous tc2 = tc2_analogous"
  "monochromatic tc2 = tc2_monochromatic" "splitcomplement tc2 = tc2_splitcomplement"
  "triad tc2 = tc2_triad" "tetrad tc2 = tc2_tetrad"
  by (simp_all add: tc2_def)

lemma hex_digit_of_props_nat:
  "\<forall>n\<in>{..<16::nat}. \<not> is_space (hex_digit_of (int n)) \<and> to_lower (hex_digit_of (int n)) = hex_digit_of (int n)
      \<and> hex_digit_value (hex_digit_of (int n)) = Some (int n)"
  by (simp add: lessThan_nat_numeral lessThan_Suc hex_digit_of_def is_space_def to_lower_def
      hex_digit_value_def)

lemma hex_digit_of_props:
  assumes "0 \<le> k" "k < 16"
  shows "\<not> is_space (hex_digit_of k)" "to_lower (hex_digit_of k) = hex_digit_of k"
    "hex_digit_value (hex_digit_of k) = Some k"
proof -
  have "nat k \<in> {..<16}" using assms by simp
  then have "\<not> is_space (hex_digit_of (int (nat k))) \<and>
      to_lower (hex_digit_of (int (nat k))) = hex_digit_of (int (nat k)) \<and>
      hex_digit_value (hex_digit_of (int (nat k))) = Some (int (nat k))"
    using hex_digit_of_props_nat by blast
  then show "\<not> is_space (hex_digit_of k)" "to_lower (hex_digit_of k) = hex_digit_of k"
    "hex_digit_value (hex_digit_of k) = Some k"
    using assms by simp_all
qed

lemma parseIntFromHex_hex2:
  assumes "0 \<le> n" "n \<le> 255"
  shows "parseIntFromHex (hex_digit_of (n div 16)) (hex_digit_of (n mod 16)) = Some n"
proof -
  have d: "0 \<le> n div 16" "n div 16 < 16" using assms by simp_all
  have m: "0 \<le> n mod 16" "n mod 16 < 16" by simp_all
  show ?thesis
    by (simp add: parseIntFromHex_def hex_digit_of_props(3)[OF d] hex_digit_of_props(3)[OF m])
qed

lemma hex2_chars:
  assumes "byte n"
  shows "\<exists>a b. hex2 n = [a, b] \<and> \<not> is_space a \<and> \<not> is_space b \<and> to_lower a = a \<and> to_lower b = b
           \<and> parseIntFromHex a b = Some n"
proof -
  have n: "0 \<le> n" "n \<le> 255" using assms by (simp_all add: byte_def)
  have d: "0 \<le> n div 16" "n div 16 < 16" using n by simp_all
  have m: "0 \<le> n mod 16" "n mod 16 < 16" by simp_all
  show ?thesis
    using hex_digit_of_props[OF d] hex_digit_of_props[OF m] parseIntFromHex_hex2[OF n]
    by (simp add: hex2_def)
qed

lemma stringInputToObject_hex6:
  assumes "byte r" "byte g" "byte b"
  shows "stringInputToObject (CHR ''#'' # hex2 r @ hex2 g @ hex2 b) = Some (r, g, b)"
proof -
  obtain r1 r2 where r: "hex2 r = [r1, r2]" "\<not> is_space r1" "\<not> is_space r2" "to_lower r1 = r1"
    "to_lower r2 = r2" "parseIntFromHex r1 r2 = Some r"
    using hex2_chars[OF assms(1)] by blast
  obtain g1 g2 where g: "hex2 g = [g1, g2]" "\<not> is_space g1" "\<not> is_space g2" "to_lower g1 = g1"
    "to_lower g2 = g2" "parseIntFromHex g1 g2 = Some g"
    using hex2_chars[OF assms(2)] by blast
  obtain b1 b2 where b: "hex2 b = [b1, b2]" "\<not> is_space b1" "\<not> is_space b2" "to_lower b1 = b1"
    "to_lower b2 = b2" "parseIntFromHex b1 b2 = Some b"
    using hex2_chars[OF assms(3)] by blast
  let ?s = "[CHR ''#'', r1, r2, g1, g2, b1, b2]"
  have t: "js_trim ?s = ?s"
    using b(3) by (simp add: js_trim_def is_space_def)
  have l: "toLowerCase ?s = ?s"
    using r g b by (simp add: toLowerCase_def to_lower_def)
  have n: "named_color ?s = ?s"
    by (simp add: named_color_def names_def)
  have h: "strip_hash ?s = [r1, r2, g1, g2, b1, b2]"
    by (simp add: strip_hash_def)
  show ?thesis
    unfolding r(1) g(1) b(1) stringInputToObject_def
    by (simp add: t l n h hex_triple_def r(6) g(6) b(6))
qed

lemma rgbToRgb_byte:
  assumes "byte r" "byte g" "byte b"
  shows "rgbToRgb (of_int r) (of_int g) (of_int b) = (of_int r, of_int g, of_int b)"
proof -
  have one: "bound01 (of_int n) 255 * 255 = of_int n" if "byte n" for n
  proof (cases "n = 255")
    case True
    then show ?thesis by (simp add: bound01_def)
  next
    case False
    then have n: "0 \<le> n" "n \<le> 254" using that by (simp_all add: byte_def)
    have lt: "real_of_int n / 255 < 1" using n by simp
    have ge: "0 \<le> real_of_int n / 255" using n by simp
    have fl: "\<lfloor>real_of_int n / 255\<rfloor> = 0" using lt ge by (simp add: floor_eq_iff)
    have far: "\<not> \<bar>real_of_int n - 255\<bar> < 1 / 1000000"
    proof -
      have "real_of_int n \<le> 254" using n(2) by simp
      then show ?thesis by simp
    qed
    have mm: "min 255 (max 0 (real_of_int n)) = real_of_int n" using n by simp
    show ?thesis
      unfolding bound01_def Let_def mm js_fmod_def
      using far fl ge by simp
  qed
  show ?thesis by (simp add: rgbToRgb_def one[OF assms(1)] one[OF assms(2)] one[OF assms(3)])
qed

lemma tc2_channel_byte: "byte n \<Longrightarrow> tc2_channel (of_int n) = of_int n"
proof -
  assume a: "byte n"
  then have n: "0 \<le> n" "n \<le> 255" by (simp_all add: byte_def)
  have mm: "min 255 (max (real_of_int n) 0) = real_of_int n" using n by simp
  show ?thesis
  proof (cases "n = 0")
    case True
    then show ?thesis by (simp add: tc2_channel_def mathRound_def)
  next
    case False
    then have "1 \<le> n" using n by simp
    then have "\<not> real_of_int n < 1" by simp
    then show ?thesis unfolding tc2_channel_def Let_def mm by simp
  qed
qed

lemma tc2_tinycolor_hex6:
  assumes "byte r" "byte g" "byte b"
  shows "tc2_tinycolor (JString (CHR ''#'' # hex2 r @ hex2 g @ hex2 b)) =
           \<lparr>tc_r = of_int r, tc_g = of_int g, tc_b = of_int b, tc_ok = True\<rparr>"
  by (simp add: tc2_tinycolor_def stringInputToObject_hex6[OF assms] rgbToRgb_byte[OF assms]
      tc2_make_def tc2_channel_byte[OF assms(1)] tc2_channel_byte[OF assms(2)]
      tc2_channel_byte[OF assms(3)])

lemma bound01_range: "0 < mx \<Longrightarrow> 0 \<le> bound01 x mx \<and> bound01 x mx \<le> 1"
proof -
  assume mx: "0 < mx"
  define n where "n = min mx (max 0 x)"
  have n: "0 \<le> n" "n \<le> mx" using mx by (simp_all add: n_def)
  show ?thesis
  proof (cases "\<bar>n - mx\<bar> < 1 / 1000000")
    case True
    then show ?thesis by (simp add: bound01_def n_def[symmetric])
  next
    case False
    then have lt: "n < mx" using n by linarith
    have q0: "0 \<le> n / mx" using n mx by simp
    have q1: "n / mx < 1" using lt mx by simp
    have fl: "\<lfloor>n / mx\<rfloor> = 0" using q0 q1 by (simp add: floor_eq_iff)
    have "js_fmod n mx = n" using q0 fl by (simp add: js_fmod_def Let_def)
    then have "bound01 x mx = n / mx" using False by (simp add: bound01_def n_def[symmetric])
    then show ?thesis using q0 q1 by simp
  qed
qed

lemma ratio_range:
  fixes a d :: real
  assumes "0 < d" "- d \<le> a" "a \<le> d"
  shows "- 1 \<le> a / d" "a / d \<le> 1"
  using assms by (simp_all add: pos_le_divide_eq pos_divide_le_eq)

lemma rgb_hue_range:
  assumes "max r (max g b) \<noteq> min r (min g b)"
  shows "0 \<le> rgb_hue r g b \<and> rgb_hue r g b < 1"
proof -
  define mx where "mx = max r (max g b)"
  define mn where "mn = min r (min g b)"
  define d where "d = mx - mn"
  have le: "mn \<le> r" "mn \<le> g" "mn \<le> b" "r \<le> mx" "g \<le> mx" "b \<le> mx"
    by (simp_all add: mx_def mn_def)
  have "mn \<le> mx" using le by linarith
  then have d: "0 < d" using assms by (simp add: d_def mx_def mn_def)
  have gb: "- 1 \<le> (g - b) / d" "(g - b) / d \<le> 1"
    using ratio_range[OF d, of "g - b"] le by (simp_all add: d_def)
  have br: "- 1 \<le> (b - r) / d" "(b - r) / d \<le> 1"
    using ratio_range[OF d, of "b - r"] le by (simp_all add: d_def)
  have rg: "- 1 \<le> (r - g) / d" "(r - g) / d \<le> 1"
    using ratio_range[OF d, of "r - g"] le by (simp_all add: d_def)
  have neg: "g < b \<Longrightarrow> (g - b) / d < 0" using d by (simp add: divide_neg_pos)
  have pos: "\<not> g < b \<Longrightarrow> 0 \<le> (g - b) / d" using d by simp
  have hue: "rgb_hue r g b =
      (if mx = r then (g - b) / d + (if g < b then 6 else 0)
       else if mx = g then (b - r) / d + 2 else (r - g) / d + 4) / 6"
    using assms by (simp add: rgb_hue_def Let_def mx_def mn_def d_def)
  show ?thesis
    unfolding hue using gb br rg neg pos by (auto split: if_splits)
qed

lemma rgbToHsl_range:
  assumes "rgbToHsl r0 g0 b0 = (h, s, l)"
  shows "0 \<le> h \<and> h < 1 \<and> 0 \<le> s \<and> s \<le> 1 \<and> 0 \<le> l \<and> l \<le> 1"
proof -
  define r where "r = bound01 r0 255"
  define g where "g = bound01 g0 255"
  define b where "b = bound01 b0 255"
  define mx where "mx = max r (max g b)"
  define mn where "mn = min r (min g b)"
  have rr: "0 \<le> r" "r \<le> 1" "0 \<le> g" "g \<le> 1" "0 \<le> b" "b \<le> 1"
    using bound01_range[of 255 r0] bound01_range[of 255 g0] bound01_range[of 255 b0]
    by (simp_all add: r_def g_def b_def)
  have m: "0 \<le> mn" "mn \<le> mx" "mx \<le> 1"
    using rr by (simp_all add: mx_def mn_def min_le_iff_disj le_max_iff_disj)
  have l01: "0 \<le> (mx + mn) / 2" "(mx + mn) / 2 \<le> 1" using m by simp_all
  show ?thesis
  proof (cases "mx = mn")
    case True
    then have "rgbToHsl r0 g0 b0 = (0, 0, (mx + mn) / 2)"
      by (simp add: rgbToHsl_def Let_def r_def g_def b_def mx_def mn_def)
    then show ?thesis using assms l01 by simp
  next
    case False
    then have lt: "mn < mx" using m by simp
    have eq: "rgbToHsl r0 g0 b0 =
        (rgb_hue r g b,
         (if 1 / 2 < (mx + mn) / 2 then (mx - mn) / (2 - mx - mn) else (mx - mn) / (mx + mn)),
         (mx + mn) / 2)"
      using False by (simp add: rgbToHsl_def Let_def r_def g_def b_def mx_def mn_def)
    have hr: "0 \<le> rgb_hue r g b \<and> rgb_hue r g b < 1"
      using rgb_hue_range[of r g b] False by (simp add: mx_def mn_def)
    have s1: "0 \<le> (mx - mn) / (2 - mx - mn) \<and> (mx - mn) / (2 - mx - mn) \<le> 1"
    proof -
      have "0 < 2 - mx - mn" using lt m by linarith
      moreover have "mx - mn \<le> 2 - mx - mn" using m by linarith
      moreover have "0 \<le> mx - mn" using lt by simp
      ultimately show ?thesis by (simp add: pos_divide_le_eq)
    qed
    have s2: "0 \<le> (mx - mn) / (mx + mn) \<and> (mx - mn) / (mx + mn) \<le> 1"
    proof -
      have "0 < mx + mn" using lt m by linarith
      moreover have "mx - mn \<le> mx + mn" using m by linarith
      moreover have "0 \<le> mx - mn" using lt by simp
      ultimately show ?thesis by (simp add: pos_divide_le_eq)
    qed
    show ?thesis using assms eq hr s1 s2 l01 by (auto split: if_splits)
  qed
qed

lemma tc2_toHsl_in_range: "hsl_in_range (tc2_toHsl c)"
proof -
  obtain h s l where e: "rgbToHsl (tc_r c) (tc_g c) (tc_b c) = (h, s, l)"
    by (cases "rgbToHsl (tc_r c) (tc_g c) (tc_b c)") auto
  have r: "0 \<le> h \<and> h < 1 \<and> 0 \<le> s \<and> s \<le> 1 \<and> 0 \<le> l \<and> l \<le> 1"
    using rgbToHsl_range[OF e] .
  then show ?thesis by (simp add: tc2_toHsl_def e hsl_in_range_def)
qed

lemma byte_mathRound_channel: "byte (mathRound (tc2_channel x))"
proof -
  define c where "c = min 255 (max x 0)"
  have c: "0 \<le> c" "c \<le> 255" by (simp_all add: c_def)
  show ?thesis
  proof (cases "c < 1")
    case True
    have "0 \<le> \<lfloor>c + 1 / 2\<rfloor>" using c by simp
    moreover have "\<lfloor>c + 1 / 2\<rfloor> \<le> 1" using True by (simp add: floor_le_iff)
    ultimately show ?thesis
      using True by (simp add: tc2_channel_def c_def[symmetric] mathRound_def byte_def)
  next
    case False
    have "0 \<le> \<lfloor>c + 1 / 2\<rfloor>" using c by simp
    moreover have "\<lfloor>c + 1 / 2\<rfloor> \<le> 255" using c by (simp add: floor_le_iff)
    ultimately show ?thesis
      using False by (simp add: tc2_channel_def c_def[symmetric] mathRound_def byte_def)
  qed
qed

lemma tc2_make_wf: "tc2_wf (tc2_make ok rgb)"
  by (cases rgb) (simp add: tc2_wf_def tc2_make_def byte_mathRound_channel)

lemma tc2_tinycolor_wf: "tc2_wf (tc2_tinycolor v)"
  by (cases v) (simp_all add: tc2_tinycolor_def tc2_make_wf split: option.splits)

lemma tc2_toHexString_roundtrip:
  assumes "tc2_wf c"
  shows "tc_ok (tc2_tinycolor (JString (tc2_toHexString c))) \<and>
         tc2_toHexString (tc2_tinycolor (JString (tc2_toHexString c))) = tc2_toHexString c"
proof -
  have b: "byte (mathRound (tc_r c))" "byte (mathRound (tc_g c))" "byte (mathRound (tc_b c))"
    using assms by (simp_all add: tc2_wf_def)
  show ?thesis
    unfolding tc2_toHexString_def[of c] tc2_tinycolor_hex6[OF b]
    by (simp add: tc2_toHexString_def mathRound_def)
qed

lemma tc2_hex_output_valid:
  "isValid tc2 (tinycolor tc2 (JString (toHexString tc2 (tinycolor tc2 v))))"
  using tc2_toHexString_roundtrip[OF tc2_tinycolor_wf[of v]] by (simp add: tc2_fields)

lemma tc2_normalizeHex:
  "tc2_wf c \<Longrightarrow> normalizeHex tc2 (JString (tc2_toHexString c)) = tc2_toHexString c"
  using tc2_toHexString_roundtrip[of c] by (simp add: normalizeHex_def tc2_fields)

lemmas tc2_num_defs =
  tc2_toHsl_def tc2_toHsv_def tc2_fromHsl_def tc2_fromHsv_def tc2_make_def tc2_channel_def
  hslToRgb_def hsvToRgb_def rgbToHsl_def rgbToHsv_def rgb_hue_def hue2rgb_def
  bound01_def bound01_percent_def bound01_converted_def js_fmod_def mathRound_def clamp01_def
  tc2_lighten_def tc2_darken_def tc2_desaturate_def tc2_spin_def tc2_complement_def
  tc2_toHexString_def hex2_def hex_digit_of_def Let_def

lemma tc2_parse_hex6:
  assumes "s = CHR ''#'' # hex2 r @ hex2 g @ hex2 b" "byte r" "byte g" "byte b"
  shows "tc2_tinycolor (JString s) = \<lparr>tc_r = of_int r, tc_g = of_int g, tc_b = of_int b, tc_ok = True\<rparr>"
  using tc2_tinycolor_hex6[OF assms(2-4)] assms(1) by simp

lemma parse_3498db:
  "tc2_tinycolor (JString ''#3498db'') = \<lparr>tc_r = 52, tc_g = 152, tc_b = 219, tc_ok = True\<rparr>"
  using tc2_parse_hex6[of "''#3498db''" 52 152 219] by (simp add: hex2_def hex_digit_of_def byte_def)

lemma parse_000105:
  "tc2_tinycolor (JString ''#000105'') = \<lparr>tc_r = 0, tc_g = 1, tc_b = 5, tc_ok = True\<rparr>"
  using tc2_parse_hex6[of "''#000105''" 0 1 5] by (simp add: hex2_def hex_digit_of_def byte_def)

lemma parse_050400:
  "tc2_tinycolor (JString ''#050400'') = \<lparr>tc_r = 5, tc_g = 4, tc_b = 0, tc_ok = True\<rparr>"
  using tc2_parse_hex6[of "''#050400''" 5 4 0] by (simp add: hex2_def hex_digit_of_def byte_def)

lemma tc2_fromHsl_wf: "tc2_wf (tc2_fromHsl h s l)"
  by (simp add: tc2_fromHsl_def tc2_make_wf)

lemma tc2_fromHsv_wf: "tc2_wf (tc2_fromHsv h s v)"
  by (simp add: tc2_fromHsv_def tc2_make_wf)

lemma tc2_ops_wf:
  "tc2_wf (tc2_lighten c a)" "tc2_wf (tc2_darken c a)" "tc2_wf (tc2_desaturate c a)"
  "tc2_wf (tc2_spin c a)" "tc2_wf (tc2_complement c)" "tc2_wf (tc2_clone c)"
  by (simp_all add: tc2_lighten_def tc2_darken_def tc2_desaturate_def tc2_spin_def
      tc2_complement_def tc2_clone_def Let_def tc2_fromHsl_wf tc2_tinycolor_wf)

lemma tc2_monochromatic_loop_wf:
  "list_all tc2_wf (tc2_monochromatic_loop n m h s v)"
  by (induction n arbitrary: v) (simp_all add: tc2_fromHsv_wf)

lemma tc2_monochromatic_wf: "list_all tc2_wf (tc2_monochromatic c n)"
  by (simp add: tc2_monochromatic_def Let_def tc2_monochromatic_loop_wf split: prod.splits)

lemma tc2_normalize_all:
  "list_all tc2_wf cs \<Longrightarrow>
   map (\<lambda>tc. normalizeHex tc2 (JString (tc2_toHexString tc))) cs = map tc2_toHexString cs"
  by (induction cs) (simp_all add: tc2_normalizeHex)

lemma tc2_clone_bytes:
  assumes "byte r" "byte g" "byte b"
  shows "tc2_clone \<lparr>tc_r = of_int r, tc_g = of_int g, tc_b = of_int b, tc_ok = True\<rparr> =
           \<lparr>tc_r = of_int r, tc_g = of_int g, tc_b = of_int b, tc_ok = True\<rparr>"
proof -
  have "tc2_toHexString \<lparr>tc_r = of_int r, tc_g = of_int g, tc_b = of_int b, tc_ok = True\<rparr> =
          CHR ''#'' # hex2 r @ hex2 g @ hex2 b"
    by (simp add: tc2_toHexString_def mathRound_def)
  then show ?thesis by (simp add: tc2_clone_def tc2_tinycolor_hex6[OF assms])
qed

lemma tc2_complement_hexes:
  assumes "tc2_tinycolor (JString h) = base" "tc_ok base" "tc2_clone base = base"
  shows "generateHarmonyPalette tc2 h ''complement'' =
     Inr [tc2_toHexString base,
          tc2_toHexString (tc2_lighten base 20),
          tc2_toHexString (tc2_complement base),
          tc2_toHexString (tc2_lighten
            (tc2_tinycolor (JString (tc2_toHexString (tc2_complement base)))) 20),
          tc2_toHexString (tc2_desaturate (tc2_spin base 30) 10)]"
proof -
  have v: "isValid tc2 (tinycolor tc2 (JString h))" using assms(1,2) by (simp add: tc2_fields)
  have w: "tc2_wf base" using tc2_tinycolor_wf[of "JString h"] assms(1) by simp
  show ?thesis
    unfolding complement_colors_normalized[OF v]
    by (simp add: tc2_fields assms tc2_normalizeHex tc2_ops_wf w)
qed

lemma tc2_shades_hexes:
  assumes "tc2_tinycolor (JString h) = base" "tc_ok base" "tc2_clone base = base"
  shows "generateHarmonyPalette tc2 h ''shades'' =
     Inr [tc2_toHexString (tc2_darken base 30),
          tc2_toHexString (tc2_darken base 15),
          tc2_toHexString base,
          tc2_toHexString (tc2_lighten base 15),
          tc2_toHexString (tc2_lighten base 30)]"
proof -
  have v: "isValid tc2 (tinycolor tc2 (JString h))" using assms(1,2) by (simp add: tc2_fields)
  have w: "tc2_wf base" using tc2_tinycolor_wf[of "JString h"] assms(1) by simp
  show ?thesis
    unfolding shades_colors_normalized[OF v]
    by (simp add: tc2_fields assms tc2_normalizeHex tc2_ops_wf w)
qed

lemma tc2_monochromatic_hexes:
  assumes "tc2_tinycolor (JString h) = base" "tc_ok base"
  shows "generateHarmonyPalette tc2 h ''monochromatic'' =
     Inr (map tc2_toHexString (tc2_monochromatic base 5))"
proof -
  have v: "isValid tc2 (tinycolor tc2 (JString h))" using assms by (simp add: tc2_fields)
  show ?thesis
    unfolding monochromatic_colors_normalized[OF v]
    by (simp add: tc2_fields assms tc2_normalize_all tc2_monochromatic_wf)
qed

lemma bytes_3498db: "byte 52" "byte 152" "byte 219" "byte 0" "byte 1" "byte 5" "byte 255" "byte 4"
  by (simp_all add: byte_def)

lemma clone_3498db:
  "tc2_clone \<lparr>tc_r = 52, tc_g = 152, tc_b = 219, tc_ok = True\<rparr> =
     \<lparr>tc_r = 52, tc_g = 152, tc_b = 219, tc_ok = True\<rparr>"
  using tc2_clone_bytes[of 52 152 219] by (simp add: bytes_3498db)

lemma clone_000105:
  "tc2_clone \<lparr>tc_r = 0, tc_g = 1, tc_b = 5, tc_ok = True\<rparr> =
     \<lparr>tc_r = 0, tc_g = 1, tc_b = 5, tc_ok = True\<rparr>"
  using tc2_clone_bytes[of 0 1 5] by (simp add: bytes_3498db)

lemma clone_ff0000:
  "tc2_clone \<lparr>tc_r = 255, tc_g = 0, tc_b = 0, tc_ok = True\<rparr> =
     \<lparr>tc_r = 255, tc_g = 0, tc_b = 0, tc_ok = True\<rparr>"
  using tc2_clone_bytes[of 255 0 0] by (simp add: bytes_3498db)

lemma parse_ff0000:
  "tc2_tinycolor (JString ''#ff0000'') = \<lparr>tc_r = 255, tc_g = 0, tc_b = 0, tc_ok = True\<rparr>"
  using tc2_parse_hex6[of "''#ff0000''" 255 0 0] by (simp add: hex2_def hex_digit_of_def byte_def)

lemma parse_red:
  "tc2_tinycolor (JString ''red'') = \<lparr>tc_r = 255, tc_g = 0, tc_b = 0, tc_ok = True\<rparr>"
proof -
  have t: "js_trim ''red'' = ''red''" by (simp add: js_trim_def is_space_def)
  have l: "toLowerCase ''red'' = ''red''" by (simp add: toLowerCase_def to_lower_def)
  have n: "named_color ''red'' = ''f00''" by (simp add: named_color_def names_def)
  have h: "strip_hash ''f00'' = ''f00''" by (simp add: strip_hash_def)
  have c: "hex_channels ''f00'' = Some (255, 0, 0)"
    by (simp add: hex_triple_def parseIntFromHex_def hex_digit_value_def)
  have s: "stringInputToObject ''red'' = Some (255, 0, 0)"
    unfolding stringInputToObject_def t l n Let_def h c by simp
  show ?thesis
    using rgbToRgb_byte[of 255 0 0] tc2_channel_byte[of 255] tc2_channel_byte[of 0]
    by (simp add: tc2_tinycolor_def s tc2_make_def byte_def)
qed

lemma parse_invalid:
  "\<not> tc_ok (tc2_tinycolor (JString ''notacolor''))"
  "\<not> tc_ok (tc2_tinycolor (JString ''''))"
  "\<not> tc_ok (tc2_tinycolor (JString ''#12''))"
proof -
  have a: "stringInputToObject ''notacolor'' = None"
  proof -
    have t: "js_trim ''notacolor'' = ''notacolor''" by (simp add: js_trim_def is_space_def)
    have l: "toLowerCase ''notacolor'' = ''notacolor''" by (simp add: toLowerCase_def to_lower_def)
    have n: "named_color ''notacolor'' = ''notacolor''" by (simp add: named_color_def names_def)
    have h: "strip_hash ''notacolor'' = ''notacolor''" by (simp add: strip_hash_def)
    show ?thesis unfolding stringInputToObject_def t l n Let_def h by simp
  qed
  have b: "stringInputToObject '''' = None"
    by (simp add: stringInputToObject_def js_trim_def toLowerCase_def named_color_def names_def
        strip_hash_def)
  have c: "stringInputToObject ''#12'' = None"
  proof -
    have t: "js_trim ''#12'' = ''#12''" by (simp add: js_trim_def is_space_def)
    have l: "toLowerCase ''#12'' = ''#12''" by (simp add: toLowerCase_def to_lower_def)
    have n: "named_color ''#12'' = ''#12''" by (simp add: named_color_def names_def)
    have h: "strip_hash ''#12'' = ''12''" by (simp add: strip_hash_def)
    show ?thesis unfolding stringInputToObject_def t l n Let_def h by simp
  qed
  show "\<not> tc_ok (tc2_tinycolor (JString ''notacolor''))"
    "\<not> tc_ok (tc2_tinycolor (JString ''''))"
    "\<not> tc_ok (tc2_tinycolor (JString ''#12''))"
    by (simp_all add: tc2_tinycolor_def a b c tc2_make_def)
qed

lemma length_tc2_analogous_loop: "length (tc2_analogous_loop n h s l) = n"
  by (induction n arbitrary: h) (simp_all add: Let_def)

lemma length_tc2_monochromatic_loop: "length (tc2_monochromatic_loop n m h s v) = n"
  by (induction n arbitrary: v) simp_all

lemma tc2_returns_requested_counts: "returns_requested_counts tc2 c"
  by (simp add: returns_requested_counts_def tc2_fields NUM_COLORS_PER_PALETTE_def
      tc2_analogous_def tc2_monochromatic_def tc2_triad_def tc2_tetrad_def Let_def
      length_tc2_analogous_loop length_tc2_monochromatic_loop split: prod.splits)

lemma complement_000105:
  "tc2_toHexString \<lparr>tc_r = 0, tc_g = 1, tc_b = 5, tc_ok = True\<rparr> = ''#000105''"
  "tc2_toHexString (tc2_lighten \<lparr>tc_r = 0, tc_g = 1, tc_b = 5, tc_ok = True\<rparr> 20) = ''#00156b''"
  "tc2_toHexString (tc2_complement \<lparr>tc_r = 0, tc_g = 1, tc_b = 5, tc_ok = True\<rparr>) = ''#050400''"
  "tc2_toHexString (tc2_lighten \<lparr>tc_r = 5, tc_g = 4, tc_b = 0, tc_ok = True\<rparr> 20) = ''#6b5600''"
  by (simp_all add: tc2_num_defs)

lemma spin_desaturate_000105:
  "tc2_toHexString (tc2_desaturate (tc2_spin \<lparr>tc_r = 0, tc_g = 1, tc_b = 5, tc_ok = True\<rparr> 30) 10)
     = ''#020005''"
  by (simp add: tc2_num_defs)

lemma desaturate_spin_000105:
  "tc2_toHexString (tc2_spin (tc2_desaturate \<lparr>tc_r = 0, tc_g = 1, tc_b = 5, tc_ok = True\<rparr> 10) 30)
     = ''#010005''"
  by (simp add: tc2_num_defs)

lemma shades_3498db:
  "tc2_toHexString (tc2_darken \<lparr>tc_r = 52, tc_g = 152, tc_b = 219, tc_ok = True\<rparr> 30) = ''#124364''"
  "tc2_toHexString (tc2_darken \<lparr>tc_r = 52, tc_g = 152, tc_b = 219, tc_ok = True\<rparr> 15) = ''#1d6fa5''"
  "tc2_toHexString \<lparr>tc_r = 52, tc_g = 152, tc_b = 219, tc_ok = True\<rparr> = ''#3498db''"
  "tc2_toHexString (tc2_lighten \<lparr>tc_r = 52, tc_g = 152, tc_b = 219, tc_ok = True\<rparr> 15) = ''#75b9e7''"
  "tc2_toHexString (tc2_lighten \<lparr>tc_r = 52, tc_g = 152, tc_b = 219, tc_ok = True\<rparr> 30) = ''#b6daf2''"
  by (simp_all add: tc2_num_defs)

lemma shades_ff0000:
  "tc2_toHexString (tc2_darken \<lparr>tc_r = 255, tc_g = 0, tc_b = 0, tc_ok = True\<rparr> 30) = ''#660000''"
  "tc2_toHexString (tc2_darken \<lparr>tc_r = 255, tc_g = 0, tc_b = 0, tc_ok = True\<rparr> 15) = ''#b30000''"
  "tc2_toHexString \<lparr>tc_r = 255, tc_g = 0, tc_b = 0, tc_ok = True\<rparr> = ''#ff0000''"
  "tc2_toHexString (tc2_lighten \<lparr>tc_r = 255, tc_g = 0, tc_b = 0, tc_ok = True\<rparr> 15) = ''#ff4d4d''"
  "tc2_toHexString (tc2_lighten \<lparr>tc_r = 255, tc_g = 0, tc_b = 0, tc_ok = True\<rparr> 30) = ''#ff9999''"
  by (simp_all add: tc2_num_defs)

lemma hsl_ff0000:
  "tc2_toHsl \<lparr>tc_r = 255, tc_g = 0, tc_b = 0, tc_ok = True\<rparr> = \<lparr>hsl_h = 0, hsl_s = 1, hsl_l = 1 / 2\<rparr>"
  by (simp add: tc2_num_defs)

lemma tc2_tinycolor_hsl: "tc2_tinycolor (JHslObject h s l) = tc2_fromHsl h s l"
  by (simp add: tc2_tinycolor_def tc2_fromHsl_def)

lemma fromHsl_red:
  "tc2_fromHsl 0 1 (1 / 2) = \<lparr>tc_r = 255, tc_g = 0, tc_b = 0, tc_ok = True\<rparr>"
  by (simp add: tc2_num_defs)

lemma hsv_3498db:
  "tc2_toHsv \<lparr>tc_r = 52, tc_g = 152, tc_b = 219, tc_ok = True\<rparr> = (34080 / 167, 167 / 219, 73 / 85)"
  by (simp add: tc2_toHsv_def rgbToHsv_def rgb_hue_def bound01_def js_fmod_def Let_def)

lemma monochromatic_steps_3498db:
  "tc2_monochromatic \<lparr>tc_r = 52, tc_g = 152, tc_b = 219, tc_ok = True\<rparr> 5 =
     [tc2_fromHsv (34080 / 167) (167 / 219) (73 / 85),
      tc2_fromHsv (34080 / 167) (167 / 219) (1 / 17),
      tc2_fromHsv (34080 / 167) (167 / 219) (22 / 85),
      tc2_fromHsv (34080 / 167) (167 / 219) (39 / 85),
      tc2_fromHsv (34080 / 167) (167 / 219) (56 / 85)]"
  by (simp add: tc2_monochromatic_def hsv_3498db eval_nat_numeral js_fmod_def Let_def)

lemma monochromatic_hex_3498db:
  "tc2_toHexString (tc2_fromHsv (34080 / 167) (167 / 219) (73 / 85)) = ''#3498db''"
  "tc2_toHexString (tc2_fromHsv (34080 / 167) (167 / 219) (1 / 17)) = ''#040a0f''"
  "tc2_toHexString (tc2_fromHsv (34080 / 167) (167 / 219) (22 / 85)) = ''#102e42''"
  "tc2_toHexString (tc2_fromHsv (34080 / 167) (167 / 219) (39 / 85)) = ''#1c5175''"
  "tc2_toHexString (tc2_fromHsv (34080 / 167) (167 / 219) (56 / 85)) = ''#2875a8''"
  by (simp_all add: tc2_num_defs)

lemma monochromatic_3498db:
  "map tc2_toHexString (tc2_monochromatic \<lparr>tc_r = 52, tc_g = 152, tc_b = 219, tc_ok = True\<rparr> 5) =
     [''#3498db'', ''#040a0f'', ''#102e42'', ''#1c5175'', ''#2875a8'']"
  by (simp add: monochromatic_steps_3498db monochromatic_hex_3498db)

lemma parse_040a0f:
  "tc2_tinycolor (JString ''#040a0f'') = \<lparr>tc_r = 4, tc_g = 10, tc_b = 15, tc_ok = True\<rparr>"
  using tc2_parse_hex6[of "''#040a0f''" 4 10 15] by (simp add: hex2_def hex_digit_of_def byte_def)

lemma hsl_040a0f:
  "tc2_toHsl \<lparr>tc_r = 4, tc_g = 10, tc_b = 15, tc_ok = True\<rparr> =
     \<lparr>hsl_h = 2280 / 11, hsl_s = 11 / 19, hsl_l = 19 / 510\<rparr>"
  by (simp add: tc2_num_defs)

lemma hsl_3498db:
  "tc2_toHsl \<lparr>tc_r = 52, tc_g = 152, tc_b = 219, tc_ok = True\<rparr> =
     \<lparr>hsl_h = 34080 / 167, hsl_s = 167 / 239, hsl_l = 271 / 510\<rparr>"
  by (simp add: tc2_num_defs)

lemma rounded_hues:
  "rounded_hue tc2 ''#3498db'' = 204" "rounded_hue tc2 ''#040a0f'' = 207"
  by (simp_all add: rounded_hue_def tc2_fields parse_3498db parse_040a0f hsl_3498db hsl_040a0f)

text \<open>
  The model gives the hex strings that the library's README shows for the color
  \<^verbatim>\<open>#f00\<close>: \<^verbatim>\<open>lighten()\<close>, \<^verbatim>\<open>darken()\<close>, \<^verbatim>\<open>desaturate()\<close>,
  \<^verbatim>\<open>complement()\<close>, \<^verbatim>\<open>analogous()\<close>, \<^verbatim>\<open>monochromatic()\<close>,
  \<^verbatim>\<open>splitcomplement()\<close> and \<^verbatim>\<open>triad()\<close>.
\<close>

lemma hsv_ff0000:
  "tc2_toHsv \<lparr>tc_r = 255, tc_g = 0, tc_b = 0, tc_ok = True\<rparr> = (0, 1, 1)"
  by (simp add: tc2_toHsv_def rgbToHsv_def rgb_hue_def bound01_def js_fmod_def Let_def)

lemma tc2_analogous_loop_numeral:
  "tc2_analogous_loop (numeral k) h s l =
     (let h' = js_fmod (h + 12) 360 in tc2_fromHsl h' s l # tc2_analogous_loop (pred_numeral k) h' s l)"
  by (simp add: numeral_eq_Suc)

lemma analogous_steps_ff0000:
  "tc2_analogous \<lparr>tc_r = 255, tc_g = 0, tc_b = 0, tc_ok = True\<rparr> 6 =
     [\<lparr>tc_r = 255, tc_g = 0, tc_b = 0, tc_ok = True\<rparr>,
      tc2_fromHsl 336 1 (1 / 2), tc2_fromHsl 348 1 (1 / 2), tc2_fromHsl 0 1 (1 / 2),
      tc2_fromHsl 12 1 (1 / 2), tc2_fromHsl 24 1 (1 / 2)]"
  by (simp add: tc2_analogous_def hsl_ff0000 tc2_analogous_loop_numeral js_fmod_def Let_def)

lemma monochromatic_steps_ff0000:
  "tc2_monochromatic \<lparr>tc_r = 255, tc_g = 0, tc_b = 0, tc_ok = True\<rparr> 6 =
     [tc2_fromHsv 0 1 1, tc2_fromHsv 0 1 (1 / 6), tc2_fromHsv 0 1 (1 / 3),
      tc2_fromHsv 0 1 (1 / 2), tc2_fromHsv 0 1 (2 / 3), tc2_fromHsv 0 1 (5 / 6)]"
  by (simp add: tc2_monochromatic_def hsv_ff0000 eval_nat_numeral js_fmod_def Let_def)

lemma splitcomplement_steps_ff0000:
  "tc2_splitcomplement \<lparr>tc_r = 255, tc_g = 0, tc_b = 0, tc_ok = True\<rparr> =
     [\<lparr>tc_r = 255, tc_g = 0, tc_b = 0, tc_ok = True\<rparr>,
      tc2_fromHsl 72 1 (1 / 2), tc2_fromHsl 216 1 (1 / 2)]"
  by (simp add: tc2_splitcomplement_def hsl_ff0000 js_fmod_def Let_def)

lemma triad_steps_ff0000:
  "tc2_triad \<lparr>tc_r = 255, tc_g = 0, tc_b = 0, tc_ok = True\<rparr> =
     [\<lparr>tc_r = 255, tc_g = 0, tc_b = 0, tc_ok = True\<rparr>,
      tc2_fromHsl 120 1 (1 / 2), tc2_fromHsl 240 1 (1 / 2)]"
  by (simp add: tc2_triad_def hsl_ff0000 js_fmod_def Let_def)

lemma hex_fromHsl_examples:
  "tc2_toHexString (tc2_fromHsl 336 1 (1 / 2)) = ''#ff0066''"
  "tc2_toHexString (tc2_fromHsl 348 1 (1 / 2)) = ''#ff0033''"
  "tc2_toHexString (tc2_fromHsl 0 1 (1 / 2)) = ''#ff0000''"
  "tc2_toHexString (tc2_fromHsl 12 1 (1 / 2)) = ''#ff3300''"
  "tc2_toHexString (tc2_fromHsl 24 1 (1 / 2)) = ''#ff6600''"
  "tc2_toHexString (tc2_fromHsl 72 1 (1 / 2)) = ''#ccff00''"
  "tc2_toHexString (tc2_fromHsl 216 1 (1 / 2)) = ''#0066ff''"
  "tc2_toHexString (tc2_fromHsl 120 1 (1 / 2)) = ''#00ff00''"
  "tc2_toHexString (tc2_fromHsl 240 1 (1 / 2)) = ''#0000ff''"
  by (simp_all add: tc2_num_defs)

lemma hex_fromHsv_examples:
  "tc2_toHexString (tc2_fromHsv 0 1 1) = ''#ff0000''"
  "tc2_toHexString (tc2_fromHsv 0 1 (1 / 6)) = ''#2a0000''"
  "tc2_toHexString (tc2_fromHsv 0 1 (1 / 3)) = ''#550000''"
  "tc2_toHexString (tc2_fromHsv 0 1 (1 / 2)) = ''#800000''"
  "tc2_toHexString (tc2_fromHsv 0 1 (2 / 3)) = ''#aa0000''"
  "tc2_toHexString (tc2_fromHsv 0 1 (5 / 6)) = ''#d40000''"
  by (simp_all add: tc2_num_defs)

lemma tc2_readme_examples:
  "tc2_tinycolor (JString ''#f00'') = \<lparr>tc_r = 255, tc_g = 0, tc_b = 0, tc_ok = True\<rparr>"
  "tc2_toHexString (tc2_lighten \<lparr>tc_r = 255, tc_g = 0, tc_b = 0, tc_ok = True\<rparr> 10) = ''#ff3333''"
  "tc2_toHexString (tc2_darken \<lparr>tc_r = 255, tc_g = 0, tc_b = 0, tc_ok = True\<rparr> 10) = ''#cc0000''"
  "tc2_toHexString (tc2_desaturate \<lparr>tc_r = 255, tc_g = 0, tc_b = 0, tc_ok = True\<rparr> 10) = ''#f20d0d''"
  "tc2_toHexString (tc2_complement \<lparr>tc_r = 255, tc_g = 0, tc_b = 0, tc_ok = True\<rparr>) = ''#00ffff''"
  "map tc2_toHexString (tc2_analogous \<lparr>tc_r = 255, tc_g = 0, tc_b = 0, tc_ok = True\<rparr> 6) =
     [''#ff0000'', ''#ff0066'', ''#ff0033'', ''#ff0000'', ''#ff3300'', ''#ff6600'']"
  "map tc2_toHexString (tc2_monochromatic \<lparr>tc_r = 255, tc_g = 0, tc_b = 0, tc_ok = True\<rparr> 6) =
     [''#ff0000'', ''#2a0000'', ''#550000'', ''#800000'', ''#aa0000'', ''#d40000'']"
  "map tc2_toHexString (tc2_splitcomplement \<lparr>tc_r = 255, tc_g = 0, tc_b = 0, tc_ok = True\<rparr>) =
     [''#ff0000'', ''#ccff00'', ''#0066ff'']"
  "map tc2_toHexString (tc2_triad \<lparr>tc_r = 255, tc_g = 0, tc_b = 0, tc_ok = True\<rparr>) =
     [''#ff0000'', ''#00ff00'', ''#0000ff'']"
proof -
  show "tc2_tinycolor (JString ''#f00'') = \<lparr>tc_r = 255, tc_g = 0, tc_b = 0, tc_ok = True\<rparr>"
  proof -
    have t: "js_trim ''#f00'' = ''#f00''" by (simp add: js_trim_def is_space_def)
    have l: "toLowerCase ''#f00'' = ''#f00''" by (simp add: toLowerCase_def to_lower_def)
    have n: "named_color ''#f00'' = ''#f00''" by (simp add: named_color_def names_def)
    have h: "strip_hash ''#f00'' = ''f00''" by (simp add: strip_hash_def)
    have c: "hex_channels ''f00'' = Some (255, 0, 0)"
      by (simp add: hex_triple_def parseIntFromHex_def hex_digit_value_def)
    have s: "stringInputToObject ''#f00'' = Some (255, 0, 0)"
      unfolding stringInputToObject_def t l n Let_def h c by simp
    show ?thesis
      using rgbToRgb_byte[of 255 0 0] tc2_channel_byte[of 255] tc2_channel_byte[of 0]
      by (simp add: tc2_tinycolor_def s tc2_make_def byte_def)
  qed
qed (simp_all add: analogous_steps_ff0000 monochromatic_steps_ff0000 splitcomplement_steps_ff0000
      triad_steps_ff0000 hex_fromHsl_examples hex_fromHsv_examples shades_ff0000 tc2_num_defs)


section \<open>The claims\<close>

text \<open>
  Claim C1. For every base color string the library reads as valid, the palette that
  \<^verbatim>\<open>generateHarmonyPalette\<close> returns has exactly 5 elements for each of the rules
  analogous, monochromatic, splitcomplement, triad, tetrad, complement and shades, and
  for any other rule it is the one-element list of the normalized base color. The
  library is assumed to return as many colors as section 4.1 of the spec says
  (\<open>returns_requested_counts\<close>).
\<close>

theorem harmony_palette_length:
  assumes "isValid lib (tinycolor lib (JString h))"
    and "returns_requested_counts lib (tinycolor lib (JString h))"
  shows "\<exists>p. generateHarmonyPalette lib h rule = Inr p \<and>
           (if rule \<in> set harmony_rules then length p = 5
            else p = [normalizeHex lib (JString (toHexString lib (tinycolor lib (JString h))))])"
proof (cases "rule \<in> set harmony_rules")
  case True
  then show ?thesis
    using generateHarmonyPalette_valid[OF assms(1), of rule] length_harmonyColors_of[OF assms(2) True]
    by simp
next
  case False
  then show ?thesis
    using generateHarmonyPalette_valid[OF assms(1), of rule]
      harmonyColors_of_default[OF False, of lib "tinycolor lib (JString h)"]
    by (simp add: normalizeHex_def)
qed

theorem harmony_palette_length_witness:
  "isValid tc2 (tinycolor tc2 (JString ''#3498db'')) \<and>
   returns_requested_counts tc2 (tinycolor tc2 (JString ''#3498db'')) \<and>
   (\<exists>p. generateHarmonyPalette tc2 ''#3498db'' ''triad'' = Inr p \<and> length p = 5) \<and>
   (\<exists>p. generateHarmonyPalette tc2 ''#3498db'' ''rainbow'' = Inr p \<and> p = [''#3498db''])"
proof -
  have v: "isValid tc2 (tinycolor tc2 (JString ''#3498db''))"
    by (simp add: tc2_fields parse_3498db)
  have c: "returns_requested_counts tc2 (tinycolor tc2 (JString ''#3498db''))"
    by (rule tc2_returns_requested_counts)
  have n: "normalizeHex tc2 (JString (toHexString tc2 (tinycolor tc2 (JString ''#3498db'')))) = ''#3498db''"
    using tc2_normalizeHex[OF tc2_tinycolor_wf[of "JString ''#3498db''"]]
    by (simp add: tc2_fields parse_3498db shades_3498db)
  have t: "\<exists>p. generateHarmonyPalette tc2 ''#3498db'' ''triad'' = Inr p \<and> length p = 5"
    using harmony_palette_length[OF v c, of "''triad''"] by (simp add: harmony_rules_def)
  have r: "\<exists>p. generateHarmonyPalette tc2 ''#3498db'' ''rainbow'' = Inr p \<and> p = [''#3498db'']"
    using harmony_palette_length[OF v c, of "''rainbow''"] by (simp add: harmony_rules_def n)
  show ?thesis using v c t r by simp
qed

text \<open>
  Claim C2, as amended. For every valid base color, the rule \<^verbatim>\<open>complement\<close> gives
  the five colors base, a copy of base lightened by 20, the complement of base, the
  complement (read back from its hex string) lightened by 20, and a copy of base spun
  by 30 degrees and then desaturated by 10, each normalized to hex. The claim has the
  last two operations in the other order (desaturated, then spun).
\<close>

theorem complement_palette:
  assumes "isValid lib (tinycolor lib (JString h))"
  shows "generateHarmonyPalette lib h ''complement'' =
     Inr (map (normalizeHex lib)
       [JString (toHexString lib (tinycolor lib (JString h))),
        JString (toHexString lib (lighten lib (clone lib (tinycolor lib (JString h))) 20)),
        JString (toHexString lib (complement lib (tinycolor lib (JString h)))),
        JString (toHexString lib (lighten lib
          (tinycolor lib (JString (toHexString lib (complement lib (tinycolor lib (JString h)))))) 20)),
        JString (toHexString lib (desaturate lib (spin lib (clone lib (tinycolor lib (JString h))) 30) 10))])"
  using assms by (rule complement_colors_normalized)

theorem complement_palette_witness:
  "isValid tc2 (tinycolor tc2 (JString ''#000105'')) \<and>
   generateHarmonyPalette tc2 ''#000105'' ''complement'' =
     Inr [''#000105'', ''#00156b'', ''#050400'', ''#6b5600'', ''#020005''] \<and>
   normalizeHex tc2 (JString (toHexString tc2
     (desaturate tc2 (spin tc2 (clone tc2 (tinycolor tc2 (JString ''#000105''))) 30) 10))) = ''#020005''"
proof -
  have v: "isValid tc2 (tinycolor tc2 (JString ''#000105''))"
    by (simp add: tc2_fields parse_000105)
  have p: "generateHarmonyPalette tc2 ''#000105'' ''complement'' =
     Inr [''#000105'', ''#00156b'', ''#050400'', ''#6b5600'', ''#020005'']"
    using tc2_complement_hexes[OF parse_000105 _ clone_000105]
    by (simp add: complement_000105 parse_050400 spin_desaturate_000105)
  show ?thesis using complement_palette[OF v] v p by simp
qed

text \<open>
  The claim as stated fails for the base color \<^verbatim>\<open>#000105\<close>: the fifth element of
  the palette is \<^verbatim>\<open>#020005\<close>, while the base desaturated by 10 and then spun by 30
  degrees is \<^verbatim>\<open>#010005\<close>.
\<close>

theorem complement_fifth_element_counterexample:
  "generateHarmonyPalette tc2 ''#000105'' ''complement'' =
     Inr [''#000105'', ''#00156b'', ''#050400'', ''#6b5600'', ''#020005''] \<and>
   normalizeHex tc2 (JString (toHexString tc2
     (spin tc2 (desaturate tc2 (clone tc2 (tinycolor tc2 (JString ''#000105''))) 10) 30))) = ''#010005'' \<and>
   generateHarmonyPalette tc2 ''#000105'' ''complement'' \<noteq>
     Inr (map (normalizeHex tc2)
       [JString (toHexString tc2 (tinycolor tc2 (JString ''#000105''))),
        JString (toHexString tc2 (lighten tc2 (clone tc2 (tinycolor tc2 (JString ''#000105''))) 20)),
        JString (toHexString tc2 (complement tc2 (tinycolor tc2 (JString ''#000105'')))),
        JString (toHexString tc2 (lighten tc2
          (tinycolor tc2 (JString (toHexString tc2 (complement tc2 (tinycolor tc2 (JString ''#000105'')))))) 20)),
        JString (toHexString tc2
          (spin tc2 (desaturate tc2 (clone tc2 (tinycolor tc2 (JString ''#000105''))) 10) 30))])"
proof -
  have p: "generateHarmonyPalette tc2 ''#000105'' ''complement'' =
     Inr [''#000105'', ''#00156b'', ''#050400'', ''#6b5600'', ''#020005'']"
    using tc2_complement_hexes[OF parse_000105 _ clone_000105]
    by (simp add: complement_000105 parse_050400 spin_desaturate_000105)
  have w: "tc2_wf (tc2_spin (tc2_desaturate \<lparr>tc_r = 0, tc_g = 1, tc_b = 5, tc_ok = True\<rparr> 10) 30)"
    by (rule tc2_ops_wf)
  have q: "normalizeHex tc2 (JString (toHexString tc2
     (spin tc2 (desaturate tc2 (clone tc2 (tinycolor tc2 (JString ''#000105''))) 10) 30))) = ''#010005''"
    using tc2_normalizeHex[OF w]
    by (simp add: tc2_fields parse_000105 clone_000105 desaturate_spin_000105)
  show ?thesis by (simp add: p q)
qed

text \<open>
  Claim C3, as amended. Pressing the mouse on the hue wheel sets the hue to the angle of
  the pointer around the centre of the canvas in degrees, as the script computes it in
  double arithmetic: \<^verbatim>\<open>Math.atan2(y - centerY, x - centerX) * 180 / Math.PI\<close>, plus
  360 when that is negative. The new hue lies in \<open>[0, 360]\<close>, the bound 360 included;
  saturation and lightness are unchanged, and a move while dragging does the same. In
  exact arithmetic the hue is the direction of the pointer reduced to \<open>[0, 360)\<close>: a
  pointer in the direction of 370 degrees gives the hue 10, one in the direction of
  -10 degrees the hue 350.
\<close>

theorem hue_wheel_sets_hue:
  "currentHue (hueWheelCanvas_mousedown lib fl cv e st) =
     normalize_angleDeg fl
       (fl (fl (Math_atan2 fl
                  (fl (fl (clientY e - rect_top cv) - fl (canvas_height cv / 2)))
                  (fl (fl (clientX e - rect_left cv) - fl (canvas_width cv / 2))) * 180) /
            Math_PI fl)) \<and>
   0 \<le> currentHue (hueWheelCanvas_mousedown lib fl64 cv e st) \<and>
   currentHue (hueWheelCanvas_mousedown lib fl64 cv e st) \<le> 360 \<and>
   currentSaturation (hueWheelCanvas_mousedown lib fl cv e st) = currentSaturation st \<and>
   currentLightness (hueWheelCanvas_mousedown lib fl cv e st) = currentLightness st \<and>
   hueWheelCanvas_mousemove lib fl cv e (st\<lparr>isDraggingHue := True\<rparr>) =
     hueWheelCanvas_mousedown lib fl cv e st \<and>
   (0 < r \<longrightarrow>
      currentHue (hueWheelCanvas_mousedown lib (\<lambda>v. v) cv (pointer_at cv r a) st) =
        a - 360 * of_int \<lfloor>a / 360\<rfloor>)"
proof -
  have h: "currentHue (hueWheelCanvas_mousedown lib fl cv e st) =
     normalize_angleDeg fl
       (fl (fl (Math_atan2 fl
                  (fl (fl (clientY e - rect_top cv) - fl (canvas_height cv / 2)))
                  (fl (fl (clientX e - rect_left cv) - fl (canvas_width cv / 2))) * 180) /
            Math_PI fl))"
    "currentSaturation (hueWheelCanvas_mousedown lib fl cv e st) = currentSaturation st"
    "currentLightness (hueWheelCanvas_mousedown lib fl cv e st) = currentLightness st"
    using setHueFromMouse_picker[of lib fl cv e "st\<lparr>isDraggingHue := True\<rparr>"]
    by (simp_all add: hueWheelCanvas_mousedown_def)
  have n: "0 \<le> currentHue (hueWheelCanvas_mousedown lib fl64 cv e st)"
    "currentHue (hueWheelCanvas_mousedown lib fl64 cv e st) \<le> 360"
    using setHueFromMouse_hue_range[of lib cv e "st\<lparr>isDraggingHue := True\<rparr>"]
    by (simp_all add: hueWheelCanvas_mousedown_def)
  have m: "hueWheelCanvas_mousemove lib fl cv e (st\<lparr>isDraggingHue := True\<rparr>) =
     hueWheelCanvas_mousedown lib fl cv e st"
    by (simp add: hueWheelCanvas_mousemove_def hueWheelCanvas_mousedown_def)
  have x: "0 < r \<longrightarrow>
      currentHue (hueWheelCanvas_mousedown lib (\<lambda>v. v) cv (pointer_at cv r a) st) =
        a - 360 * of_int \<lfloor>a / 360\<rfloor>"
    using exact_hue_of_direction[of r lib cv a "st\<lparr>isDraggingHue := True\<rparr>"]
    by (simp add: hueWheelCanvas_mousedown_def)
  show ?thesis using h n m x by blast
qed

theorem hue_wheel_sets_hue_witness:
  "(0::real) < 50 \<and>
   currentHue (hueWheelCanvas_mousedown tc2 (\<lambda>v. v)
       \<lparr>rect_left = 0, rect_top = 0, canvas_width = 200, canvas_height = 200\<rparr>
       (pointer_at \<lparr>rect_left = 0, rect_top = 0, canvas_width = 200, canvas_height = 200\<rparr> 50 370)
       (startup_state ''#3498db'' ''triad'' ''Triad'')) = 10 \<and>
   currentHue (hueWheelCanvas_mousedown tc2 (\<lambda>v. v)
       \<lparr>rect_left = 0, rect_top = 0, canvas_width = 200, canvas_height = 200\<rparr>
       (pointer_at \<lparr>rect_left = 0, rect_top = 0, canvas_width = 200, canvas_height = 200\<rparr> 50 (- 10))
       (startup_state ''#3498db'' ''triad'' ''Triad'')) = 350 \<and>
   currentHue (hueWheelCanvas_mousedown tc2 fl64
       \<lparr>rect_left = 0, rect_top = 0, canvas_width = 200, canvas_height = 200\<rparr>
       \<lparr>clientX = 150, clientY = 100\<rparr> (startup_state ''#3498db'' ''triad'' ''Triad'')) = 0 \<and>
   currentSaturation (hueWheelCanvas_mousedown tc2 fl64
       \<lparr>rect_left = 0, rect_top = 0, canvas_width = 200, canvas_height = 200\<rparr>
       \<lparr>clientX = 150, clientY = 100\<rparr> (startup_state ''#3498db'' ''triad'' ''Triad'')) = 1 \<and>
   currentLightness (hueWheelCanvas_mousedown tc2 fl64
       \<lparr>rect_left = 0, rect_top = 0, canvas_width = 200, canvas_height = 200\<rparr>
       \<lparr>clientX = 150, clientY = 100\<rparr> (startup_state ''#3498db'' ''triad'' ''Triad'')) = 1 / 2"
proof -
  let ?cv = "\<lparr>rect_left = 0, rect_top = 0, canvas_width = 200, canvas_height = 200\<rparr>"
  let ?st = "startup_state ''#3498db'' ''triad'' ''Triad''"
  have a: "currentHue (hueWheelCanvas_mousedown tc2 (\<lambda>v. v) ?cv (pointer_at ?cv 50 370) ?st) = 10"
    using hue_wheel_sets_hue[where lib = tc2 and fl = fl64 and cv = ?cv
        and e = "\<lparr>clientX = 150, clientY = 100\<rparr>" and st = ?st and r = 50 and a = 370]
    by simp
  have b: "currentHue (hueWheelCanvas_mousedown tc2 (\<lambda>v. v) ?cv (pointer_at ?cv 50 (- 10)) ?st) = 350"
    using hue_wheel_sets_hue[where lib = tc2 and fl = fl64 and cv = ?cv
        and e = "\<lparr>clientX = 150, clientY = 100\<rparr>" and st = ?st and r = 50 and a = "- 10"]
    by simp
  have c: "currentHue (hueWheelCanvas_mousedown tc2 fl64 ?cv \<lparr>clientX = 150, clientY = 100\<rparr> ?st) = 0"
    "currentSaturation (hueWheelCanvas_mousedown tc2 fl64 ?cv \<lparr>clientX = 150, clientY = 100\<rparr> ?st) = 1"
    "currentLightness (hueWheelCanvas_mousedown tc2 fl64 ?cv \<lparr>clientX = 150, clientY = 100\<rparr> ?st) = 1 / 2"
    using hue_wheel_sets_hue[where lib = tc2 and fl = fl64 and cv = ?cv
        and e = "\<lparr>clientX = 150, clientY = 100\<rparr>" and st = ?st and r = 50 and a = 0]
      fl64_of_int[of 150] fl64_of_int[of 50]
    by (simp_all add: fl64_numerals Math_atan2_def atan2_def normalize_angleDeg_def
        startup_state_def)
  show ?thesis using a b c by simp
qed

text \<open>
  The claim as stated fails for a wheel of 200 by 200 pixels whose bounding rectangle
  is \<open>2 ^ -46\<close> below a whole pixel, with the pointer at \<open>(196, 100)\<close>: the pointer is
  one unit in the last place above the horizontal through the centre, the angle is a
  tiny negative number, and adding 360 rounds to 360, which is not in \<open>[0, 360)\<close>.
\<close>

theorem wheel_hue_360_counterexample:
  "currentHue (hueWheelCanvas_mousedown tc2 fl64
       \<lparr>rect_left = 0, rect_top = 1 / 2 ^ 46, canvas_width = 200, canvas_height = 200\<rparr>
       \<lparr>clientX = 196, clientY = 100\<rparr> (startup_state ''#3498db'' ''triad'' ''Triad'')) = 360 \<and>
   \<not> currentHue (hueWheelCanvas_mousedown tc2 fl64
       \<lparr>rect_left = 0, rect_top = 1 / 2 ^ 46, canvas_width = 200, canvas_height = 200\<rparr>
       \<lparr>clientX = 196, clientY = 100\<rparr> (startup_state ''#3498db'' ''triad'' ''Triad'')) < 360"
  unfolding hueWheelCanvas_mousedown_def hue_at_edge_pointer by simp

text \<open>
  Claim C4, as amended. For every base color string the library reports as invalid (as
  it does \<^verbatim>\<open>notacolor\<close>, the empty string and \<^verbatim>\<open>#12\<close>), \<^verbatim>\<open>generateHarmonyPalette\<close>
  fails with \<open>InvalidBaseColor\<close> and returns no palette, and typing the string into the
  hex field changes nothing but the text of the field: the picker state and the
  displayed palette stay as they were. The claim speaks of every malformed string; the
  script rejects those the library's parser rejects, and no others.
\<close>

theorem invalid_base_color_rejected:
  assumes "\<not> isValid lib (tinycolor lib (JString s))"
  shows "generateHarmonyPalette lib s rule = Inl InvalidBaseColor \<and>
         handle_event lib hw sl rnd (BaseColorInput s) st = st\<lparr>baseColorInput_value := s\<rparr>"
  using assms by (simp add: generateHarmonyPalette_def baseColorInput_input_def)

theorem invalid_base_color_rejected_witness:
  "\<not> isValid tc2 (tinycolor tc2 (JString ''notacolor'')) \<and>
   \<not> isValid tc2 (tinycolor tc2 (JString '''')) \<and>
   \<not> isValid tc2 (tinycolor tc2 (JString ''#12'')) \<and>
   generateHarmonyPalette tc2 ''notacolor'' ''triad'' = Inl InvalidBaseColor \<and>
   generateHarmonyPalette tc2 '''' ''triad'' = Inl InvalidBaseColor \<and>
   generateHarmonyPalette tc2 ''#12'' ''triad'' = Inl InvalidBaseColor \<and>
   handle_event tc2
       \<lparr>rect_left = 0, rect_top = 0, canvas_width = 200, canvas_height = 200\<rparr>
       \<lparr>rect_left = 0, rect_top = 0, canvas_width = 200, canvas_height = 200\<rparr>
       (\<lambda>j. 1 / 2) (BaseColorInput ''notacolor'') (startup_state ''#3498db'' ''triad'' ''Triad'') =
     (startup_state ''#3498db'' ''triad'' ''Triad'')\<lparr>baseColorInput_value := ''notacolor''\<rparr>"
proof -
  have a: "\<not> isValid tc2 (tinycolor tc2 (JString ''notacolor''))"
    and b: "\<not> isValid tc2 (tinycolor tc2 (JString ''''))"
    and c: "\<not> isValid tc2 (tinycolor tc2 (JString ''#12''))"
    by (simp_all add: tc2_fields parse_invalid)
  show ?thesis
    using a b c
      invalid_base_color_rejected[OF a, of "''triad''"
        "\<lparr>rect_left = 0, rect_top = 0, canvas_width = 200, canvas_height = 200\<rparr>"
        "\<lparr>rect_left = 0, rect_top = 0, canvas_width = 200, canvas_height = 200\<rparr>"
        "\<lambda>j. 1 / 2" "startup_state ''#3498db'' ''triad'' ''Triad''"]
      invalid_base_color_rejected[OF b, of "''triad''"]
      invalid_base_color_rejected[OF c, of "''triad''"]
    by simp
qed

text \<open>
  The claim as stated fails for the string \<^verbatim>\<open>red\<close>, which is not a hex string: in
  the model of the library, as in tinycolor2, it is read as a color name, so
  \<^verbatim>\<open>generateHarmonyPalette\<close> returns a palette and not \<open>InvalidBaseColor\<close>, and
  typing it into the hex field moves the hue from 120 to 0 and displays a palette
  where none was displayed.
\<close>

theorem named_color_accepted_counterexample:
  "\<not> is_hex_string ''red'' \<and>
   generateHarmonyPalette tc2 ''red'' ''shades'' =
     Inr [''#660000'', ''#b30000'', ''#ff0000'', ''#ff4d4d'', ''#ff9999''] \<and>
   generateHarmonyPalette tc2 ''red'' ''shades'' \<noteq> Inl InvalidBaseColor \<and>
   currentHue ((startup_state ''#3498db'' ''shades'' ''Shades'')
       \<lparr>currentHue := 120, currentSaturation := 1 / 2, currentLightness := 1 / 4\<rparr>) = 120 \<and>
   paletteDisplay ((startup_state ''#3498db'' ''shades'' ''Shades'')
       \<lparr>currentHue := 120, currentSaturation := 1 / 2, currentLightness := 1 / 4\<rparr>) = NothingDisplayed \<and>
   currentHue (handle_event tc2
       \<lparr>rect_left = 0, rect_top = 0, canvas_width = 200, canvas_height = 200\<rparr>
       \<lparr>rect_left = 0, rect_top = 0, canvas_width = 200, canvas_height = 200\<rparr>
       (\<lambda>j. 1 / 2) (BaseColorInput ''red'')
       ((startup_state ''#3498db'' ''shades'' ''Shades'')
          \<lparr>currentHue := 120, currentSaturation := 1 / 2, currentLightness := 1 / 4\<rparr>)) = 0 \<and>
   paletteDisplay (handle_event tc2
       \<lparr>rect_left = 0, rect_top = 0, canvas_width = 200, canvas_height = 200\<rparr>
       \<lparr>rect_left = 0, rect_top = 0, canvas_width = 200, canvas_height = 200\<rparr>
       (\<lambda>j. 1 / 2) (BaseColorInput ''red'')
       ((startup_state ''#3498db'' ''shades'' ''Shades'')
          \<lparr>currentHue := 120, currentSaturation := 1 / 2, currentLightness := 1 / 4\<rparr>)) \<noteq> NothingDisplayed"
proof -
  let ?cv = "\<lparr>rect_left = 0, rect_top = 0, canvas_width = 200, canvas_height = 200\<rparr>"
  let ?st = "(startup_state ''#3498db'' ''shades'' ''Shades'')
          \<lparr>currentHue := 120, currentSaturation := 1 / 2, currentLightness := 1 / 4\<rparr>"
  have n: "\<not> is_hex_string ''red''"
    by (simp add: is_hex_string_def is_hex_digit_def)
  have v: "isValid tc2 (tinycolor tc2 (JString ''red''))"
    by (simp add: tc2_fields parse_red)
  have p: "generateHarmonyPalette tc2 ''red'' ''shades'' =
     Inr [''#660000'', ''#b30000'', ''#ff0000'', ''#ff4d4d'', ''#ff9999'']"
    using tc2_shades_hexes[OF parse_red _ clone_ff0000] by (simp add: shades_ff0000)
  have h: "toHsl tc2 (tinycolor tc2 (JString ''red'')) = \<lparr>hsl_h = 0, hsl_s = 1, hsl_l = 1 / 2\<rparr>"
    by (simp add: tc2_fields parse_red hsl_ff0000)
  have e: "handle_event tc2 ?cv ?cv (\<lambda>j. 1 / 2) (BaseColorInput ''red'') ?st =
     updateColorFromPicker tc2
       (?st\<lparr>baseColorInput_value := ''red'', currentHue := 0, currentSaturation := 1,
            currentLightness := 1 / 2\<rparr>)"
    using v by (simp add: baseColorInput_input_def Let_def h)
  have s: "currentHue ?st = 120" "paletteDisplay ?st = NothingDisplayed"
    by (simp_all add: startup_state_def)
  have hue: "currentHue (handle_event tc2 ?cv ?cv (\<lambda>j. 1 / 2) (BaseColorInput ''red'') ?st) = 0"
    unfolding e by (simp add: updateColorFromPicker_picker)
  have shown: "paletteDisplay (handle_event tc2 ?cv ?cv (\<lambda>j. 1 / 2) (BaseColorInput ''red'') ?st) \<noteq>
     NothingDisplayed"
    unfolding e by (rule updateColorFromPicker_displays, rule tc2_hex_output_valid)
  show ?thesis using n p s hue shown by simp
qed

text \<open>
  Claim C5. For every valid base color, the rule \<^verbatim>\<open>shades\<close> gives the five colors
  base darkened by 30, base darkened by 15, base, base lightened by 15 and base
  lightened by 30 (each operator applied to a copy of base), each normalized to hex;
  the element at index 2 is the normalized hex of the base color.
\<close>

theorem shades_palette:
  assumes "isValid lib (tinycolor lib (JString h))"
  shows "\<exists>p. generateHarmonyPalette lib h ''shades'' = Inr p \<and>
     p = map (normalizeHex lib)
       [JString (toHexString lib (darken lib (clone lib (tinycolor lib (JString h))) 30)),
        JString (toHexString lib (darken lib (clone lib (tinycolor lib (JString h))) 15)),
        JString (toHexString lib (tinycolor lib (JString h))),
        JString (toHexString lib (lighten lib (clone lib (tinycolor lib (JString h))) 15)),
        JString (toHexString lib (lighten lib (clone lib (tinycolor lib (JString h))) 30))] \<and>
     length p = 5 \<and>
     p ! 2 = normalizeHex lib (JString (toHexString lib (tinycolor lib (JString h))))"
  using shades_colors_normalized[OF assms] by simp

theorem shades_palette_witness:
  "isValid tc2 (tinycolor tc2 (JString ''#3498db'')) \<and>
   generateHarmonyPalette tc2 ''#3498db'' ''shades'' =
     Inr [''#124364'', ''#1d6fa5'', ''#3498db'', ''#75b9e7'', ''#b6daf2''] \<and>
   normalizeHex tc2 (JString (toHexString tc2 (tinycolor tc2 (JString ''#3498db'')))) = ''#3498db''"
proof -
  have v: "isValid tc2 (tinycolor tc2 (JString ''#3498db''))"
    by (simp add: tc2_fields parse_3498db)
  have p: "generateHarmonyPalette tc2 ''#3498db'' ''shades'' =
     Inr [''#124364'', ''#1d6fa5'', ''#3498db'', ''#75b9e7'', ''#b6daf2'']"
    using tc2_shades_hexes[OF parse_3498db _ clone_3498db] by (simp add: shades_3498db)
  show ?thesis using shades_palette[OF v] v p by auto
qed

text \<open>
  Claim C6, as amended. For every valid base color, the rule \<^verbatim>\<open>monochromatic\<close> gives
  the five colors the library's \<^verbatim>\<open>monochromatic(5)\<close> returns for the base, in order,
  each converted to a hex string and normalized. The rounded hue of an element can
  differ from that of the base color once the element is rounded to 8 bits a channel.
\<close>

theorem monochromatic_palette:
  assumes "isValid lib (tinycolor lib (JString h))"
  shows "generateHarmonyPalette lib h ''monochromatic'' =
     Inr (map (\<lambda>tc. normalizeHex lib (JString (toHexString lib tc)))
            (monochromatic lib (tinycolor lib (JString h)) 5))"
  using assms by (rule monochromatic_colors_normalized)

theorem monochromatic_palette_witness:
  "isValid tc2 (tinycolor tc2 (JString ''#3498db'')) \<and>
   generateHarmonyPalette tc2 ''#3498db'' ''monochromatic'' =
     Inr (map (\<lambda>tc. normalizeHex tc2 (JString (toHexString tc2 tc)))
            (monochromatic tc2 (tinycolor tc2 (JString ''#3498db'')) 5)) \<and>
   map (\<lambda>tc. normalizeHex tc2 (JString (toHexString tc2 tc)))
            (monochromatic tc2 (tinycolor tc2 (JString ''#3498db'')) 5) =
     [''#3498db'', ''#040a0f'', ''#102e42'', ''#1c5175'', ''#2875a8'']"
proof -
  have v: "isValid tc2 (tinycolor tc2 (JString ''#3498db''))"
    by (simp add: tc2_fields parse_3498db)
  have m: "map (\<lambda>tc. normalizeHex tc2 (JString (toHexString tc2 tc)))
            (monochromatic tc2 (tinycolor tc2 (JString ''#3498db'')) 5) =
     [''#3498db'', ''#040a0f'', ''#102e42'', ''#1c5175'', ''#2875a8'']"
    using tc2_normalize_all[OF tc2_monochromatic_wf[of "\<lparr>tc_r = 52, tc_g = 152, tc_b = 219, tc_ok = True\<rparr>" 5]]
    by (simp add: tc2_fields parse_3498db monochromatic_3498db)
  show ?thesis using monochromatic_palette[OF v] v m by simp
qed

text \<open>
  The claim as stated fails for the base color \<^verbatim>\<open>#3498db\<close>, whose hue rounds to
  204: the second element of its monochromatic palette is \<^verbatim>\<open>#040a0f\<close>, whose hue
  rounds to 207.
\<close>

theorem monochromatic_hue_counterexample:
  "generateHarmonyPalette tc2 ''#3498db'' ''monochromatic'' =
     Inr [''#3498db'', ''#040a0f'', ''#102e42'', ''#1c5175'', ''#2875a8''] \<and>
   rounded_hue tc2 ''#3498db'' = 204 \<and> rounded_hue tc2 ''#040a0f'' = 207 \<and>
   rounded_hue tc2 ''#040a0f'' \<noteq> rounded_hue tc2 ''#3498db''"
  using tc2_monochromatic_hexes[OF parse_3498db]
  by (simp add: monochromatic_3498db rounded_hues)

text \<open>
  Claim C7. Whatever numbers in \<open>[0, 1)\<close> the random source gives, \<^verbatim>\<open>generatePalette\<close>
  returns exactly 5 strings, each matching \<^verbatim>\<open>^#[0-9A-Fa-f]{6}$\<close>.
\<close>

theorem generatePalette_five_hex_colors:
  assumes "\<forall>j. 0 \<le> rnd j \<and> rnd j < 1"
  shows "length (fst (generatePalette rnd k)) = 5 \<and> list_all is_hex_color (fst (generatePalette rnd k))"
  using generatePalette_loop_hex[OF assms, of 0 "[]" k]
  by (simp add: generatePalette_def NUM_COLORS_PER_PALETTE_def)

theorem generatePalette_five_hex_colors_witness:
  "length (fst (generatePalette (\<lambda>j. real (j mod 16) / 16) 0)) = 5
   \<and> list_all is_hex_color (fst (generatePalette (\<lambda>j. real (j mod 16) / 16) 0))
   \<and> fst (getRandomHexColor (\<lambda>j. real (j mod 16) / 16) 0) = ''#012345''"
proof -
  have r: "\<forall>j. 0 \<le> real (j mod 16) / 16 \<and> real (j mod 16) / 16 < 1"
    by simp
  have g: "fst (getRandomHexColor (\<lambda>j. real (j mod 16) / 16) 0) = ''#012345''"
    by (simp add: getRandomHexColor_def getRandomHexColor_loop.simps js_char_at_def hexChars_def)
  show ?thesis using generatePalette_five_hex_colors[OF r, of 0] g by simp
qed

text \<open>
  Claim C8, as amended. Every event handler keeps the picker state in range, with the
  hue in \<open>[0, 360]\<close>, the bound 360 included: if the hue is in \<open>[0, 360]\<close> and saturation
  and lightness are in \<open>[0, 1]\<close> before an event, they are after it, wherever the
  pointer is (the pad handlers clamp the position). The saturation/lightness canvas is
  assumed to have a positive width and height (the script divides by them), and the
  library to give hue, saturation and lightness in range for the text that is typed.
\<close>

theorem picker_state_stays_in_range:
  assumes "picker_in_closed_range st"
    and "0 < canvas_width sl" and "0 < canvas_height sl"
    and "\<forall>typed. ev = BaseColorInput typed \<longrightarrow> isValid lib (tinycolor lib (JString typed)) \<longrightarrow>
           hsl_in_range (toHsl lib (tinycolor lib (JString typed)))"
  shows "picker_in_closed_range (handle_event lib hw sl rnd ev st)"
proof (cases ev)
  case RandomPaletteClick
  then show ?thesis using assms(1) by (simp add: randomPaletteBtn_click_in_range)
next
  case GenerateHarmonyClick
  then show ?thesis using assms(1) by (simp add: updateColorFromPicker_in_range)
next
  case (HarmonyRuleChange v t)
  then show ?thesis using assms(1)
    by (simp add: updateColorFromPicker_picker picker_in_closed_range_def)
next
  case (BaseColorInput typed)
  have "picker_in_closed_range (st\<lparr>baseColorInput_value := typed\<rparr>)"
    using assms(1) by (simp add: picker_in_closed_range_def)
  then show ?thesis
    using BaseColorInput assms(4)
      baseColorInput_input_in_range[of "st\<lparr>baseColorInput_value := typed\<rparr>" lib]
    by simp
next
  case (HueWheelMouseDown e)
  have "picker_in_closed_range (st\<lparr>isDraggingHue := True\<rparr>)"
    using assms(1) by (simp add: picker_in_closed_range_def)
  then show ?thesis using HueWheelMouseDown
    by (simp add: hueWheelCanvas_mousedown_def setHueFromMouse_in_range)
next
  case (HueWheelMouseMove e)
  then show ?thesis using assms(1)
    by (simp add: hueWheelCanvas_mousemove_def setHueFromMouse_in_range)
next
  case (SLPickerMouseDown e)
  have "picker_in_closed_range (st\<lparr>isDraggingSL := True\<rparr>)"
    using assms(1) by (simp add: picker_in_closed_range_def)
  then show ?thesis using SLPickerMouseDown
    by (simp add: slPickerCanvas_mousedown_def setSLFromMouse_in_range)
next
  case (SLPickerMouseMove e)
  then show ?thesis using assms(1)
    by (simp add: slPickerCanvas_mousemove_def setSLFromMouse_in_range)
next
  case MouseUp
  then show ?thesis using assms(1) by (simp add: document_mouseup_def picker_in_closed_range_def)
qed

theorem picker_state_stays_in_range_witness:
  "picker_in_closed_range (startup_state ''#3498db'' ''triad'' ''Triad'') \<and>
   picker_in_closed_range (handle_event tc2
       \<lparr>rect_left = 0, rect_top = 0, canvas_width = 200, canvas_height = 200\<rparr>
       \<lparr>rect_left = 0, rect_top = 0, canvas_width = 200, canvas_height = 200\<rparr>
       (\<lambda>j. 1 / 2) (SLPickerMouseDown \<lparr>clientX = - 50, clientY = 1000\<rparr>)
       (startup_state ''#3498db'' ''triad'' ''Triad'')) \<and>
   currentSaturation (handle_event tc2
       \<lparr>rect_left = 0, rect_top = 0, canvas_width = 200, canvas_height = 200\<rparr>
       \<lparr>rect_left = 0, rect_top = 0, canvas_width = 200, canvas_height = 200\<rparr>
       (\<lambda>j. 1 / 2) (SLPickerMouseDown \<lparr>clientX = - 50, clientY = 1000\<rparr>)
       (startup_state ''#3498db'' ''triad'' ''Triad'')) = 0 \<and>
   currentLightness (handle_event tc2
       \<lparr>rect_left = 0, rect_top = 0, canvas_width = 200, canvas_height = 200\<rparr>
       \<lparr>rect_left = 0, rect_top = 0, canvas_width = 200, canvas_height = 200\<rparr>
       (\<lambda>j. 1 / 2) (SLPickerMouseDown \<lparr>clientX = - 50, clientY = 1000\<rparr>)
       (startup_state ''#3498db'' ''triad'' ''Triad'')) = 0 \<and>
   picker_in_closed_range (handle_event tc2
       \<lparr>rect_left = 0, rect_top = 0, canvas_width = 200, canvas_height = 200\<rparr>
       \<lparr>rect_left = 0, rect_top = 0, canvas_width = 200, canvas_height = 200\<rparr>
       (\<lambda>j. 1 / 2) (HueWheelMouseDown \<lparr>clientX = 196, clientY = 100\<rparr>)
       (startup_state ''#3498db'' ''triad'' ''Triad'')) \<and>
   picker_in_closed_range (handle_event tc2
       \<lparr>rect_left = 0, rect_top = 0, canvas_width = 200, canvas_height = 200\<rparr>
       \<lparr>rect_left = 0, rect_top = 0, canvas_width = 200, canvas_height = 200\<rparr>
       (\<lambda>j. 1 / 2) (BaseColorInput ''#3498db'')
       (startup_state ''#3498db'' ''triad'' ''Triad''))"
proof -
  let ?cv = "\<lparr>rect_left = 0, rect_top = 0, canvas_width = 200, canvas_height = 200\<rparr>"
  let ?st = "startup_state ''#3498db'' ''triad'' ''Triad''"
  have i: "picker_in_closed_range ?st" by (simp add: startup_state_def picker_in_closed_range_def)
  have w: "0 < canvas_width ?cv" "0 < canvas_height ?cv" by simp_all
  have h1: "\<forall>typed. SLPickerMouseDown \<lparr>clientX = - 50, clientY = 1000\<rparr> = BaseColorInput typed \<longrightarrow>
      isValid tc2 (tinycolor tc2 (JString typed)) \<longrightarrow>
      hsl_in_range (toHsl tc2 (tinycolor tc2 (JString typed)))"
    by simp
  have h2: "\<forall>typed. BaseColorInput ''#3498db'' = BaseColorInput typed \<longrightarrow>
      isValid tc2 (tinycolor tc2 (JString typed)) \<longrightarrow>
      hsl_in_range (toHsl tc2 (tinycolor tc2 (JString typed)))"
    by (simp add: tc2_fields tc2_toHsl_in_range)
  have h3: "\<forall>typed. HueWheelMouseDown \<lparr>clientX = 196, clientY = 100\<rparr> = BaseColorInput typed \<longrightarrow>
      isValid tc2 (tinycolor tc2 (JString typed)) \<longrightarrow>
      hsl_in_range (toHsl tc2 (tinycolor tc2 (JString typed)))"
    by simp
  have f: "fl64 (- 50) = - 50" "fl64 (- (1 / 4)) = - (1 / 4)" "fl64 1000 = 1000" "fl64 5 = 5"
    using fl64_of_int[of "- 50"] fl64_dyadic[of "- 1" 2] fl64_of_int[of 1000] fl64_of_int[of 5]
    by simp_all
  have s: "currentSaturation (handle_event tc2 ?cv ?cv (\<lambda>j. 1 / 2)
             (SLPickerMouseDown \<lparr>clientX = - 50, clientY = 1000\<rparr>) ?st) = 0"
    "currentLightness (handle_event tc2 ?cv ?cv (\<lambda>j. 1 / 2)
             (SLPickerMouseDown \<lparr>clientX = - 50, clientY = 1000\<rparr>) ?st) = 0"
    using setSLFromMouse_picker[of tc2 fl64 ?cv "\<lparr>clientX = - 50, clientY = 1000\<rparr>"
        "?st\<lparr>isDraggingSL := True\<rparr>"]
    by (simp_all add: slPickerCanvas_mousedown_def f)
  show ?thesis
    using i s
      picker_state_stays_in_range[OF i w h1, of ?cv "\<lambda>j. 1 / 2"]
      picker_state_stays_in_range[OF i w h3, of ?cv "\<lambda>j. 1 / 2"]
      picker_state_stays_in_range[OF i w h2, of ?cv "\<lambda>j. 1 / 2"]
    by simp
qed

text \<open>
  The claim as stated, with the hue in \<open>[0, 360)\<close>, fails for a drag over a wheel of 200
  by 200 pixels whose bounding rectangle is \<open>2 ^ -46\<close> below a whole pixel, with the
  pointer at \<open>(196, 100)\<close>: the state is in range before the event, and the hue is 360
  after it.
\<close>

theorem picker_hue_360_counterexample:
  "picker_in_range ((startup_state ''#3498db'' ''triad'' ''Triad'')\<lparr>isDraggingHue := True\<rparr>) \<and>
   currentHue (handle_event tc2
       \<lparr>rect_left = 0, rect_top = 1 / 2 ^ 46, canvas_width = 200, canvas_height = 200\<rparr>
       \<lparr>rect_left = 0, rect_top = 0, canvas_width = 200, canvas_height = 200\<rparr>
       (\<lambda>j. 1 / 2) (HueWheelMouseMove \<lparr>clientX = 196, clientY = 100\<rparr>)
       ((startup_state ''#3498db'' ''triad'' ''Triad'')\<lparr>isDraggingHue := True\<rparr>)) = 360 \<and>
   \<not> picker_in_range (handle_event tc2
       \<lparr>rect_left = 0, rect_top = 1 / 2 ^ 46, canvas_width = 200, canvas_height = 200\<rparr>
       \<lparr>rect_left = 0, rect_top = 0, canvas_width = 200, canvas_height = 200\<rparr>
       (\<lambda>j. 1 / 2) (HueWheelMouseMove \<lparr>clientX = 196, clientY = 100\<rparr>)
       ((startup_state ''#3498db'' ''triad'' ''Triad'')\<lparr>isDraggingHue := True\<rparr>))"
proof -
  let ?hw = "\<lparr>rect_left = 0, rect_top = 1 / 2 ^ 46, canvas_width = 200, canvas_height = 200\<rparr>"
  let ?sl = "\<lparr>rect_left = 0, rect_top = 0, canvas_width = 200, canvas_height = 200\<rparr>"
  let ?e = "\<lparr>clientX = 196, clientY = 100\<rparr>"
  let ?st = "(startup_state ''#3498db'' ''triad'' ''Triad'')\<lparr>isDraggingHue := True\<rparr>"
  have i: "picker_in_range ?st" by (simp add: startup_state_def picker_in_range_def)
  have m: "handle_event tc2 ?hw ?sl (\<lambda>j. 1 / 2) (HueWheelMouseMove ?e) ?st =
     setHueFromMouse tc2 fl64 ?hw ?e ?st"
    by (simp add: hueWheelCanvas_mousemove_def)
  have h: "currentHue (handle_event tc2 ?hw ?sl (\<lambda>j. 1 / 2) (HueWheelMouseMove ?e) ?st) = 360"
    unfolding m by (rule hue_at_edge_pointer)
  have n: "\<not> picker_in_range (handle_event tc2 ?hw ?sl (\<lambda>j. 1 / 2) (HueWheelMouseMove ?e) ?st)"
    unfolding picker_in_range_def h by simp
  show ?thesis using i h n by blast
qed

text \<open>
  Claim C9. \<^verbatim>\<open>handleGenerateHarmony\<close> overwrites the hex text field with the hex
  string of the current hue, saturation and lightness before it parses the field, so
  what the field held before plays no part: provided the library reads back the hex
  string it has just produced as a valid color, the handler returns a palette, raises
  no alert and leaves the hex string in the field.
\<close>

theorem handleGenerateHarmony_never_invalid:
  assumes "isValid lib (tinycolor lib (JString (toHexString lib
             (tinycolor lib (JHslObject (currentHue st) (currentSaturation st) (currentLightness st))))))"
  shows "fst (handleGenerateHarmony lib (st\<lparr>baseColorInput_value := typed\<rparr>)) =
           Inr (map (normalizeHex lib)
             (harmonyColors_of lib
               (tinycolor lib (JString (toHexString lib
                  (tinycolor lib (JHslObject (currentHue st) (currentSaturation st) (currentLightness st))))))
               (harmonyRuleSelect_value st))) \<and>
         baseColorInput_value (snd (handleGenerateHarmony lib (st\<lparr>baseColorInput_value := typed\<rparr>))) =
           toHexString lib
             (tinycolor lib (JHslObject (currentHue st) (currentSaturation st) (currentLightness st))) \<and>
         alerts (snd (handleGenerateHarmony lib (st\<lparr>baseColorInput_value := typed\<rparr>))) = alerts st"
  using assms
  by (simp add: handleGenerateHarmony_def generateHarmonyPalette_def Let_def)

theorem handleGenerateHarmony_never_invalid_witness:
  "fst (handleGenerateHarmony tc2
      ((startup_state ''#3498db'' ''shades'' ''Shades'')\<lparr>baseColorInput_value := ''notacolor''\<rparr>)) =
     Inr [''#660000'', ''#b30000'', ''#ff0000'', ''#ff4d4d'', ''#ff9999''] \<and>
   baseColorInput_value (snd (handleGenerateHarmony tc2
      ((startup_state ''#3498db'' ''shades'' ''Shades'')\<lparr>baseColorInput_value := ''notacolor''\<rparr>))) =
     ''#ff0000'' \<and>
   alerts (snd (handleGenerateHarmony tc2
      ((startup_state ''#3498db'' ''shades'' ''Shades'')\<lparr>baseColorInput_value := ''notacolor''\<rparr>))) = []"
proof -
  let ?st = "startup_state ''#3498db'' ''shades'' ''Shades''"
  have hx: "toHexString tc2 (tinycolor tc2 (JHslObject (currentHue ?st) (currentSaturation ?st)
              (currentLightness ?st))) = ''#ff0000''"
    by (simp add: startup_state_def tc2_fields tc2_tinycolor_hsl fromHsl_red shades_ff0000)
  have v: "isValid tc2 (tinycolor tc2 (JString (toHexString tc2
             (tinycolor tc2 (JHslObject (currentHue ?st) (currentSaturation ?st) (currentLightness ?st))))))"
    by (rule tc2_hex_output_valid)
  have v': "isValid tc2 (tinycolor tc2 (JString ''#ff0000''))"
    by (simp add: tc2_fields parse_ff0000)
  have p: "generateHarmonyPalette tc2 ''#ff0000'' ''shades'' =
     Inr [''#660000'', ''#b30000'', ''#ff0000'', ''#ff4d4d'', ''#ff9999'']"
    using tc2_shades_hexes[OF parse_ff0000 _ clone_ff0000] by (simp add: shades_ff0000)
  have r: "harmonyRuleSelect_value ?st = ''shades''" "alerts ?st = []"
    by (simp_all add: startup_state_def)
  show ?thesis
    using handleGenerateHarmony_never_invalid[OF v, of "''notacolor''"]
      generateHarmonyPalette_valid[OF v', of "''shades''"] p
    unfolding hx r by simp
qed

text \<open>
  Claim C10. script.js checks a base color string only through the library's
  \<^verbatim>\<open>isValid\<close>: a string that is not a hex string but that the library reads as a
  valid color (the color name \<^verbatim>\<open>red\<close>, for one) is accepted, so that
  \<^verbatim>\<open>generateHarmonyPalette\<close> returns a palette for it, and typing it into the hex
  field sets hue, saturation and lightness to those of the color read.
\<close>

theorem parser_accepted_string_is_used:
  assumes "\<not> is_hex_string s" and "isValid lib (tinycolor lib (JString s))"
  shows "generateHarmonyPalette lib s rule =
           Inr (map (normalizeHex lib) (harmonyColors_of lib (tinycolor lib (JString s)) rule)) \<and>
         currentHue (handle_event lib hw sl rnd (BaseColorInput s) st) =
           hsl_h (toHsl lib (tinycolor lib (JString s))) \<and>
         currentSaturation (handle_event lib hw sl rnd (BaseColorInput s) st) =
           hsl_s (toHsl lib (tinycolor lib (JString s))) \<and>
         currentLightness (handle_event lib hw sl rnd (BaseColorInput s) st) =
           hsl_l (toHsl lib (tinycolor lib (JString s)))"
  using assms(2)
  by (simp add: generateHarmonyPalette_def baseColorInput_input_def Let_def
      updateColorFromPicker_picker)

theorem parser_accepted_string_is_used_witness:
  "\<not> is_hex_string ''red'' \<and>
   isValid tc2 (tinycolor tc2 (JString ''red'')) \<and>
   generateHarmonyPalette tc2 ''red'' ''shades'' =
     Inr [''#660000'', ''#b30000'', ''#ff0000'', ''#ff4d4d'', ''#ff9999''] \<and>
   currentHue (handle_event tc2
       \<lparr>rect_left = 0, rect_top = 0, canvas_width = 200, canvas_height = 200\<rparr>
       \<lparr>rect_left = 0, rect_top = 0, canvas_width = 200, canvas_height = 200\<rparr>
       (\<lambda>j. 1 / 2) (BaseColorInput ''red'')
       ((startup_state ''#3498db'' ''shades'' ''Shades'')
          \<lparr>currentHue := 200, currentSaturation := 1 / 4, currentLightness := 3 / 4\<rparr>)) = 0 \<and>
   currentSaturation (handle_event tc2
       \<lparr>rect_left = 0, rect_top = 0, canvas_width = 200, canvas_height = 200\<rparr>
       \<lparr>rect_left = 0, rect_top = 0, canvas_width = 200, canvas_height = 200\<rparr>
       (\<lambda>j. 1 / 2) (BaseColorInput ''red'')
       ((startup_state ''#3498db'' ''shades'' ''Shades'')
          \<lparr>currentHue := 200, currentSaturation := 1 / 4, currentLightness := 3 / 4\<rparr>)) = 1 \<and>
   currentLightness (handle_event tc2
       \<lparr>rect_left = 0, rect_top = 0, canvas_width = 200, canvas_height = 200\<rparr>
       \<lparr>rect_left = 0, rect_top = 0, canvas_width = 200, canvas_height = 200\<rparr>
       (\<lambda>j. 1 / 2) (BaseColorInput ''red'')
       ((startup_state ''#3498db'' ''shades'' ''Shades'')
          \<lparr>currentHue := 200, currentSaturation := 1 / 4, currentLightness := 3 / 4\<rparr>)) = 1 / 2"
proof -
  let ?cv = "\<lparr>rect_left = 0, rect_top = 0, canvas_width = 200, canvas_height = 200\<rparr>"
  let ?st = "(startup_state ''#3498db'' ''shades'' ''Shades'')
          \<lparr>currentHue := 200, currentSaturation := 1 / 4, currentLightness := 3 / 4\<rparr>"
  have n: "\<not> is_hex_string ''red''"
    by (simp add: is_hex_string_def is_hex_digit_def)
  have v: "isValid tc2 (tinycolor tc2 (JString ''red''))"
    by (simp add: tc2_fields parse_red)
  have p: "generateHarmonyPalette tc2 ''red'' ''shades'' =
     Inr [''#660000'', ''#b30000'', ''#ff0000'', ''#ff4d4d'', ''#ff9999'']"
    using tc2_shades_hexes[OF parse_red _ clone_ff0000] by (simp add: shades_ff0000)
  have h: "toHsl tc2 (tinycolor tc2 (JString ''red'')) = \<lparr>hsl_h = 0, hsl_s = 1, hsl_l = 1 / 2\<rparr>"
    by (simp add: tc2_fields parse_red hsl_ff0000)
  show ?thesis
    using n v p parser_accepted_string_is_used[OF n v, of "''shades''" ?cv ?cv "\<lambda>j. 1 / 2" ?st]
    unfolding h by simp
qed

end
